(* ===== verification/Prelude.thy ===== *)
theory Prelude
  imports Complex_Main "HOL-Library.Sublist"
begin

text \<open>
  Shared vocabulary of the development of \<^verbatim>\<open>src/summarize.py\<close>: the values the
  program reads from JSON files (\<^verbatim>\<open>json.loads\<close>), the outcomes of reading a file,
  the Python exceptions and \<^verbatim>\<open>sys.exit\<close> paths as one error type, the observable
  effects (sleeps, warnings, network and browser actions) as a log, the mutable world that
  every component threads, and the few Python string operations the code uses
  (\<^verbatim>\<open>str.lower\<close>, \<^verbatim>\<open>in\<close>, \<^verbatim>\<open>startswith\<close>, truthiness).
\<close>

named_theorems world_simps "frame lemmas of the world-updating helpers"
named_theorems advances_intros "steps that keep the log, the rate-limit file and the clock order"
named_theorems rl_inv_intros "steps of the run relation that preserve the limiter invariant"

section \<open>JSON values and files\<close>

text \<open>
  A JSON document as \<^verbatim>\<open>json.loads\<close> returns it. Numbers are read as reals (Python
  \<^verbatim>\<open>int\<close> and \<^verbatim>\<open>float\<close> alike; float rounding and the non-standard
  \<^verbatim>\<open>NaN\<close>/\<^verbatim>\<open>Infinity\<close> literals are not modelled). An object keeps its key order.
\<close>

datatype json =
    JNull
  | JBool bool
  | JNum real
  | JStr string
  | JArr "json list"
  | JObj "(string \<times> json) list"

text \<open>
  What \<^verbatim>\<open>Path.read_text()\<close> followed by \<^verbatim>\<open>json.loads\<close> can give: the file is
  absent (\<^verbatim>\<open>FileNotFoundError\<close>), cannot be read (another \<^verbatim>\<open>OSError\<close>), is not
  UTF-8 (\<^verbatim>\<open>UnicodeDecodeError\<close>), is not JSON (\<^verbatim>\<open>JSONDecodeError\<close>), or parses.
\<close>

datatype file_state =
    FMissing
  | FUnreadable
  | FUndecodable
  | FBadJson
  | FJson json

section \<open>Errors\<close>

text \<open>
  Python exceptions that the code does not catch; they end the run with a traceback and
  exit status 1.
\<close>

datatype pyexc =
    TypeError
  | AttributeError
  | UnicodeDecodeError
  | JSONDecodeError
  | KeyError
  | IndexError
  | NavigationTimeout
  | RequestException
  | OSErrorExc
  | RuntimeError
  | PDFSyntaxError
  | FileExistsError
  | FileNotFoundError
  | NotADirectoryError
  | IsADirectoryError

text \<open>
  Every way a run of \<^verbatim>\<open>summarize.py\<close> stops early: the \<^verbatim>\<open>sys.exit(1)\<close> branches
  with the data of their messages, \<^verbatim>\<open>parser.error\<close> (exit status 2), and an
  uncaught exception.
\<close>

datatype error =
    RateLimitReached real
  | PdfDownloadFailed nat
  | FileNotFound string
  | FileTooLarge
  | ApiRateLimited
  | ApiError nat
  | NoSummary
  | UsageError
  | Uncaught pyexc

fun exit_status :: "error \<Rightarrow> nat" where
  "exit_status UsageError = 2"
| "exit_status _ = 1"

section \<open>Effects and the world\<close>

text \<open>
  The observable actions of a run, in order. A proxy endpoint is whatever JSON value the
  configuration file listed (the code does not check that it is a string).
\<close>

datatype warning =
    WaitBetween real
  | CloudflareDetected
  | LowTextPage
  | LowTextPdf

datatype effect =
    Sleep real
  | Warn warning
  | HttpGet string "json option"
  | HttpPost string "json option"
  | BrowserLaunch "json option"
  | BrowserGoto string
  | BrowserClose
  | PlaywrightStop
  | TempCreate string
  | TempUnlink string
  | WriteRateLog
  | WriteOutput string

text \<open>
  The mutable part of the machine the program runs on: the wall clock read by
  \<^verbatim>\<open>time.time()\<close>, the rate-limit log file \<^verbatim>\<open>.rate_limit_log\<close>, and the effects so
  far. Components that need more state extend this record.
\<close>

record world =
  clock :: real
  rl_file :: file_state
  log :: "effect list"

definition emit :: "effect \<Rightarrow> 'a world_scheme \<Rightarrow> 'a world_scheme" where
  "emit e w = w\<lparr>log := log w @ [e]\<rparr>"

text \<open>\<^verbatim>\<open>time.sleep(d)\<close>: the clock advances by \<open>d\<close> and the sleep is logged.\<close>

definition sleep :: "real \<Rightarrow> 'a world_scheme \<Rightarrow> 'a world_scheme" where
  "sleep d w = emit (Sleep d) (w\<lparr>clock := clock w + d\<rparr>)"

lemma emit_fields [simp, world_simps]:
  "clock (emit e w) = clock w"
  "rl_file (emit e w) = rl_file w"
  "log (emit e w) = log w @ [e]"
  "more (emit e w) = more w"
  by (simp_all add: emit_def)

lemma sleep_fields [simp, world_simps]:
  "clock (sleep d w) = clock w + d"
  "rl_file (sleep d w) = rl_file w"
  "log (sleep d w) = log w @ [Sleep d]"
  "more (sleep d w) = more w"
  by (simp_all add: sleep_def)

text \<open>
  A later state of the same run: the effects so far are kept and extended, the rate-limit
  log is untouched and the clock has not gone back. Every step of the program between
  the rate-limit check and the recording of the request is of this kind.
\<close>

definition advances :: "'a world_scheme \<Rightarrow> 'a world_scheme \<Rightarrow> bool" where
  "advances w w' \<longleftrightarrow> prefix (log w) (log w') \<and> rl_file w' = rl_file w \<and> clock w \<le> clock w'"

lemma advances_refl [simp, advances_intros]: "advances w w"
  by (simp add: advances_def)

lemma advances_trans: "advances u v \<Longrightarrow> advances v w \<Longrightarrow> advances u w"
  by (auto simp: advances_def intro: prefix_order.trans)

lemma advances_emit [advances_intros]: "advances w w' \<Longrightarrow> advances w (emit e w')"
  by (auto simp: advances_def intro: prefix_order.trans)

lemma advances_sleep [advances_intros]: "advances w w' \<Longrightarrow> 0 \<le> d \<Longrightarrow> advances w (sleep d w')"
  by (auto simp: advances_def intro: prefix_order.trans)

lemma advances_clock [advances_intros]:
  "advances w w' \<Longrightarrow> 0 \<le> d \<Longrightarrow> advances w (w'\<lparr>clock := clock w' + d\<rparr>)"
  by (simp add: advances_def)

lemma advances_frame [advances_intros]:
  "log w' = log w \<Longrightarrow> rl_file w' = rl_file w \<Longrightarrow> clock w' = clock w \<Longrightarrow> advances w w'"
  by (simp add: advances_def)

section \<open>Python values and strings\<close>

text \<open>
  Truthiness (\<^verbatim>\<open>if not x\<close>) of a JSON value: \<^verbatim>\<open>None\<close>, \<^verbatim>\<open>False\<close>, zero, the
  empty string, list and dict are false.
\<close>

fun py_truthy :: "json \<Rightarrow> bool" where
  "py_truthy JNull = False"
| "py_truthy (JBool b) = b"
| "py_truthy (JNum r) = (r \<noteq> 0)"
| "py_truthy (JStr s) = (s \<noteq> [])"
| "py_truthy (JArr xs) = (xs \<noteq> [])"
| "py_truthy (JObj kvs) = (kvs \<noteq> [])"

text \<open>
  The value bound to a key in a parsed object. \<^verbatim>\<open>json.loads\<close> keeps the last of
  duplicate keys, so a later binding wins.
\<close>

fun obj_get :: "(string \<times> json) list \<Rightarrow> string \<Rightarrow> json option" where
  "obj_get [] k = None"
| "obj_get ((k', v) # kvs) k =
     (case obj_get kvs k of Some v' \<Rightarrow> Some v' | None \<Rightarrow> if k' = k then Some v else None)"

text \<open>
  \<^verbatim>\<open>config.get(key, default)\<close>: only a dict has \<^verbatim>\<open>get\<close>; on any other value the
  attribute lookup raises \<^verbatim>\<open>AttributeError\<close>.
\<close>

definition py_get :: "json \<Rightarrow> string \<Rightarrow> json \<Rightarrow> pyexc + json" where
  "py_get obj k d =
     (case obj of
        JObj kvs \<Rightarrow> Inr (case obj_get kvs k of Some v \<Rightarrow> v | None \<Rightarrow> d)
      | _ \<Rightarrow> Inl AttributeError)"

text \<open>
  \<^verbatim>\<open>str.lower()\<close> on the ASCII letters; other characters are kept. Strings are byte
  lists, so a non-ASCII character is kept as its UTF-8 bytes.
\<close>

definition lower_char :: "char \<Rightarrow> char" where
  "lower_char c =
     (let n = (of_char c :: nat) in if 65 \<le> n \<and> n \<le> 90 then char_of (n + 32) else c)"

definition py_lower :: "string \<Rightarrow> string" where
  "py_lower s = map lower_char s"

text \<open>\<^verbatim>\<open>needle in haystack\<close> on strings, scanning the haystack from the left.\<close>

fun str_contains :: "string \<Rightarrow> string \<Rightarrow> bool" where
  "str_contains n [] = (n = [])"
| "str_contains n (c # cs) = (prefix n (c # cs) \<or> str_contains n cs)"

lemma str_contains_sublist: "str_contains n h = sublist n h"
  by (induction h) (simp_all add: sublist_Cons_right)

lemma str_contains_append [simp]: "str_contains n (xs @ n @ ys)"
  by (simp add: str_contains_sublist)

text \<open>
  \<^verbatim>\<open>str.strip()\<close>: the ASCII characters \<^verbatim>\<open>str.isspace\<close> accepts (tab, line feed,
  vertical tab, form feed, carriage return, the four separators 28--31 and space) are
  removed from both ends. (Non-ASCII spaces, as UTF-8 bytes, are kept.)
\<close>

definition is_py_space :: "char \<Rightarrow> bool" where
  "is_py_space c \<longleftrightarrow> of_char c \<in> ({9, 10, 11, 12, 13, 28, 29, 30, 31, 32} :: nat set)"

definition py_strip :: "string \<Rightarrow> string" where
  "py_strip s = rev (dropWhile is_py_space (rev (dropWhile is_py_space s)))"

text \<open>
  The integer an f-string prints for a float with the format \<^verbatim>\<open>.0f\<close>: the nearest
  integer, ties to the even one.
\<close>

definition py_fmt_0f :: "real \<Rightarrow> int" where
  "py_fmt_0f x =
     (let n = \<lfloor>x\<rfloor>; d = x - of_int n in
      if d < 1/2 then n else if 1/2 < d then n + 1 else if even n then n else n + 1)"

text \<open>\<^verbatim>\<open>s.startswith(p)\<close>.\<close>

abbreviation startswith :: "string \<Rightarrow> string \<Rightarrow> bool" where
  "startswith s p \<equiv> prefix p s"

section \<open>Exceptions as values\<close>

text \<open>
  Sequencing of two steps that may raise: the first exception propagates, as it does
  through a Python call chain.
\<close>

definition bindE :: "'e + 'a \<Rightarrow> ('a \<Rightarrow> 'e + 'b) \<Rightarrow> 'e + 'b" where
  "bindE r f = (case r of Inl e \<Rightarrow> Inl e | Inr a \<Rightarrow> f a)"

lemma bindE_simps [simp]:
  "bindE (Inl e) f = Inl e"
  "bindE (Inr a) f = f a"
  by (simp_all add: bindE_def)

lemma bindE_eq_Inr [simp]: "bindE r f = Inr b \<longleftrightarrow> (\<exists>a. r = Inr a \<and> f a = Inr b)"
  by (cases r) simp_all

section \<open>Shared lemmas\<close>

lemma length_py_strip: "length (py_strip s) \<le> length s"
proof -
  have "length (dropWhile is_py_space (rev (dropWhile is_py_space s))) \<le> length (rev (dropWhile is_py_space s))"
    by (rule length_dropWhile_le)
  also have "\<dots> \<le> length s"
    by (simp add: length_dropWhile_le)
  finally show ?thesis by (simp add: py_strip_def)
qed


lemma length_filter_mono:
  "(\<And>x. x \<in> set xs \<Longrightarrow> P x \<Longrightarrow> Q x) \<Longrightarrow> length (filter P xs) \<le> length (filter Q xs)"
  by (induction xs) auto

lemma find_map_conv: "find P (map f xs) = map_option f (find (P \<circ> f) xs)"
  by (induction xs) simp_all

text \<open>Python's \<^verbatim>\<open>max\<close> and \<^verbatim>\<open>min\<close> of a non-empty list fold from the first element.\<close>

lemma foldl_max_Max: "foldl max t ts = Max (set (t # ts))"
proof -
  have "foldl max t ts = fold max ts t"
    by (simp add: foldl_conv_fold max.commute)
  also have "\<dots> = Max (set (t # ts))"
    by (rule Max.set_eq_fold [symmetric])
  finally show ?thesis .
qed

lemma foldl_min_Min: "foldl min t ts = Min (set (t # ts))"
proof -
  have "foldl min t ts = fold min ts t"
    by (simp add: foldl_conv_fold min.commute)
  also have "\<dots> = Min (set (t # ts))"
    by (rule Min.set_eq_fold [symmetric])
  finally show ?thesis .
qed

text \<open>Stripping a set of characters from both ends, as \<^verbatim>\<open>str.strip\<close> does.\<close>

lemma dropWhile_rev_sublist: "sublist (rev (dropWhile P (rev (dropWhile P s)))) s"
proof -
  have "prefix (rev (dropWhile P (rev (dropWhile P s)))) (dropWhile P s)"
    by (metis prefixI rev_append rev_rev_ident takeWhile_dropWhile_id)
  moreover have "suffix (dropWhile P s) s"
    by (metis suffixI takeWhile_dropWhile_id)
  ultimately show ?thesis
    by (meson prefix_imp_sublist sublist_order.order.trans suffix_imp_sublist)
qed

lemma dropWhile_rev_ends:
  assumes "rev (dropWhile P (rev (dropWhile P s))) \<noteq> []"
  shows "\<not> P (hd (rev (dropWhile P (rev (dropWhile P s)))))"
    and "\<not> P (last (rev (dropWhile P (rev (dropWhile P s)))))"
proof -
  let ?x = "dropWhile P s" and ?r = "rev (dropWhile P (rev (dropWhile P s)))"
  have x: "?x \<noteq> []" using assms by (metis dropWhile.simps(1) rev.simps(1))
  have "prefix ?r ?x"
    by (metis prefixI rev_append rev_rev_ident takeWhile_dropWhile_id)
  then have "hd ?r = hd ?x" using assms by (metis prefix_def hd_append2)
  then show "\<not> P (hd ?r)" using hd_dropWhile [OF x] by simp
  have "dropWhile P (rev ?x) \<noteq> []" using assms by simp
  then show "\<not> P (last ?r)" by (simp add: last_rev hd_dropWhile)
qed

lemma dropWhile_rev_id:
  assumes "s = [] \<or> (\<not> P (hd s) \<and> \<not> P (last s))"
  shows "rev (dropWhile P (rev (dropWhile P s))) = s"
proof (cases s)
  case Nil
  then show ?thesis by simp
next
  case (Cons a as)
  with assms have "dropWhile P s = s" by simp
  moreover have ne: "s \<noteq> []" using Cons by simp
  with assms have "rev s \<noteq> []" and "\<not> P (hd (rev s))"
    by (simp_all add: hd_rev)
  then have "dropWhile P (rev s) = rev s"
    by (cases "rev s") simp_all
  ultimately show ?thesis by simp
qed

lemma py_fmt_0f_bounds: "x - 1/2 \<le> of_int (py_fmt_0f x) \<and> of_int (py_fmt_0f x) \<le> x + 1/2"
proof -
  have "of_int \<lfloor>x\<rfloor> \<le> x" "x < of_int \<lfloor>x\<rfloor> + 1" by linarith+
  then show ?thesis
    unfolding py_fmt_0f_def Let_def by (simp split: if_split) linarith
qed

lemma py_lower_append: "py_lower (xs @ ys) = py_lower xs @ py_lower ys"
  by (simp add: py_lower_def)

end
