(* ===== verification/RateLimit.thy ===== *)
theory RateLimit
  imports Prelude
begin

text \<open>
  The rate limiter of \<^verbatim>\<open>src/summarize.py\<close> (lines 30--89): \<^verbatim>\<open>check_rate_limit\<close>
  reads the timestamp log \<^verbatim>\<open>.rate_limit_log\<close>, prunes it to the last hour, sleeps so that
  requests are at least \<^verbatim>\<open>MIN_INTERVAL_SECONDS\<close> apart, and exits when the hour already
  holds \<^verbatim>\<open>MAX_REQUESTS_PER_HOUR\<close> requests; \<^verbatim>\<open>record_request\<close> appends the current time
  to the pruned log and writes it back. Both read the clock once, at entry.
  The theory proves what one call does on every branch, that the log written by
  \<^verbatim>\<open>record_request\<close> reads back as written, and, for a sequence of runs of the program
  that do not overlap, that no hour ever holds more than \<^verbatim>\<open>MAX_REQUESTS_PER_HOUR\<close>
  recorded requests.
\<close>

section \<open>Constants\<close>

definition MIN_INTERVAL_SECONDS :: real where
  "MIN_INTERVAL_SECONDS = 5"

definition MAX_REQUESTS_PER_HOUR :: nat where
  "MAX_REQUESTS_PER_HOUR = 10"

text \<open>The local \<^verbatim>\<open>window = 3600\<close> of both functions.\<close>

definition RATE_WINDOW :: real where
  "RATE_WINDOW = 3600"

lemmas rate_consts = MIN_INTERVAL_SECONDS_def MAX_REQUESTS_PER_HOUR_def RATE_WINDOW_def

section \<open>Reading the log\<close>

text \<open>
  An element of the loaded list as Python arithmetic sees it in \<^verbatim>\<open>now - ts\<close>: a number,
  or a boolean (\<^verbatim>\<open>bool\<close> is a subclass of \<^verbatim>\<open>int\<close>). The element itself is kept, since
  \<^verbatim>\<open>record_request\<close> writes the kept elements back unchanged.
\<close>

datatype pynum = PyFloat real | PyBool bool

fun pyval :: "pynum \<Rightarrow> real" where
  "pyval (PyFloat r) = r"
| "pyval (PyBool b) = (if b then 1 else 0)"

fun as_pynum :: "json \<Rightarrow> pynum option" where
  "as_pynum (JNum r) = Some (PyFloat r)"
| "as_pynum (JBool b) = Some (PyBool b)"
| "as_pynum _ = None"

fun pynum_json :: "pynum \<Rightarrow> json" where
  "pynum_json (PyFloat r) = JNum r"
| "pynum_json (PyBool b) = JBool b"

text \<open>
  Lines 45--50 (and 80--85): a missing file, an \<^verbatim>\<open>OSError\<close> and a
  \<^verbatim>\<open>JSONDecodeError\<close> give the empty list; a \<^verbatim>\<open>UnicodeDecodeError\<close> of
  \<^verbatim>\<open>read_text\<close> is not caught; otherwise the parsed value, whatever its type.
\<close>

fun load_rate_log :: "file_state \<Rightarrow> pyexc + json" where
  "load_rate_log FMissing = Inr (JArr [])"
| "load_rate_log FUnreadable = Inr (JArr [])"
| "load_rate_log FBadJson = Inr (JArr [])"
| "load_rate_log FUndecodable = Inl UnicodeDecodeError"
| "load_rate_log (FJson j) = Inr j"

text \<open>
  Iterating over the loaded value in the comprehension of line 53: a list gives its
  elements, a string its characters, a dict its keys; a number, a boolean or
  \<^verbatim>\<open>None\<close> is not iterable.
\<close>

fun py_iter :: "json \<Rightarrow> pyexc + json list" where
  "py_iter (JArr xs) = Inr xs"
| "py_iter (JStr s) = Inr (map (\<lambda>c. JStr [c]) s)"
| "py_iter (JObj kvs) = Inr (map (\<lambda>kv. JStr (fst kv)) kvs)"
| "py_iter _ = Inl TypeError"

text \<open>
  Line 53 (and 87): \<^verbatim>\<open>[ts for ts in timestamps if now - ts < window]\<close>; an element
  that is not a number makes \<^verbatim>\<open>now - ts\<close> raise \<^verbatim>\<open>TypeError\<close>.
\<close>

fun prune :: "real \<Rightarrow> json list \<Rightarrow> pyexc + pynum list" where
  "prune now [] = Inr []"
| "prune now (x # xs) =
     (case as_pynum x of
        None \<Rightarrow> Inl TypeError
      | Some t \<Rightarrow>
          (case prune now xs of
             Inl e \<Rightarrow> Inl e
           | Inr ts \<Rightarrow> Inr (if now - pyval t < RATE_WINDOW then t # ts else ts)))"

text \<open>Line 89: the file \<^verbatim>\<open>json.dumps(timestamps)\<close> writes.\<close>

definition log_file :: "pynum list \<Rightarrow> file_state" where
  "log_file ps = FJson (JArr (map pynum_json ps))"

text \<open>Lines 45--53, shared verbatim by both functions (lines 80--87).\<close>

definition read_rate_log :: "real \<Rightarrow> file_state \<Rightarrow> pyexc + pynum list" where
  "read_rate_log now f = bindE (bindE (load_rate_log f) py_iter) (prune now)"

section \<open>The two operations\<close>

text \<open>
  Lines 55--61: if the pruned log is non-empty and its newest entry is less than
  \<^verbatim>\<open>MIN_INTERVAL_SECONDS\<close> old, print the wait and sleep for it.
\<close>

fun spacing_wait :: "real \<Rightarrow> real list \<Rightarrow> 'a world_scheme \<Rightarrow> 'a world_scheme" where
  "spacing_wait now [] w = w"
| "spacing_wait now (t # ts) w =
     (let elapsed = now - foldl max t ts in
      if elapsed < MIN_INTERVAL_SECONDS
      then (let wait = MIN_INTERVAL_SECONDS - elapsed
            in sleep wait (emit (Warn (WaitBetween wait)) w))
      else w)"

text \<open>
  Lines 40--72. The clock is read once (\<^verbatim>\<open>now\<close>); the spacing wait comes before the
  quota check, and the retry estimate uses the \<^verbatim>\<open>now\<close> read before the wait.
\<close>

definition check_rate_limit :: "'a world_scheme \<Rightarrow> (error + unit) \<times> 'a world_scheme" where
  "check_rate_limit w =
     (let now = clock w in
      case read_rate_log now (rl_file w) of
        Inl e \<Rightarrow> (Inl (Uncaught e), w)
      | Inr ts \<Rightarrow>
          (let vals = map pyval ts;
               w1 = spacing_wait now vals w
           in if MAX_REQUESTS_PER_HOUR \<le> length ts
              then (Inl (RateLimitReached (RATE_WINDOW - (now - foldl min (hd vals) (tl vals)))), w1)
              else (Inr (), w1)))"

text \<open>
  Lines 66--71: the refusal message announces \<^verbatim>\<open>retry_after\<close> in minutes, printed
  with \<^verbatim>\<open>{retry_after / 60:.0f}\<close>. This is the only form of the retry time the
  user sees.
\<close>

definition retry_minutes :: "real \<Rightarrow> int" where
  "retry_minutes retry_after = py_fmt_0f (retry_after / 60)"

text \<open>
  Lines 75--89: the pruned log with \<^verbatim>\<open>now\<close> appended replaces the file. (A failing
  write is not modelled.)
\<close>

definition record_request :: "'a world_scheme \<Rightarrow> (error + unit) \<times> 'a world_scheme" where
  "record_request w =
     (let now = clock w in
      case read_rate_log now (rl_file w) of
        Inl e \<Rightarrow> (Inl (Uncaught e), w)
      | Inr ts \<Rightarrow>
          (Inr (), emit WriteRateLog (w\<lparr>rl_file := log_file (ts @ [PyFloat now])\<rparr>)))"

section \<open>Specification-level definitions\<close>

text \<open>
  The entries of the log file regardless of the time: what \<^verbatim>\<open>read_rate_log\<close> reads
  before it prunes, or the exception it raises.
\<close>

definition rate_log_entries :: "file_state \<Rightarrow> pyexc + pynum list" where
  "rate_log_entries f =
     bindE (bindE (load_rate_log f) py_iter)
       (\<lambda>xs. case those (map as_pynum xs) of None \<Rightarrow> Inl TypeError | Some ts \<Rightarrow> Inr ts)"

text \<open>
  A sequence of runs of the program that do not overlap in time, seen from the rate
  limiter. \<open>hist\<close> is a ghost variable: every request time ever recorded, pruned or
  not. A run either stops after the check (the check failed, or fetching or summarising
  failed later) or records its request after some time has passed; between runs time
  passes. No other process writes the log.
\<close>

record rl_sys = world +
  hist :: "real list"

text \<open>Requests recorded in the hour that ends at \<open>T\<close>.\<close>

definition count_window :: "real \<Rightarrow> real list \<Rightarrow> nat" where
  "count_window T rs = length (filter (\<lambda>r. T - r < RATE_WINDOW \<and> r \<le> T) rs)"

text \<open>Entries of the file the code would count at time \<open>T\<close>.\<close>

definition log_count :: "real \<Rightarrow> file_state \<Rightarrow> nat" where
  "log_count T f = (case read_rate_log T f of Inl _ \<Rightarrow> 0 | Inr ts \<Rightarrow> length ts)"

inductive rl_run :: "rl_sys \<Rightarrow> rl_sys \<Rightarrow> bool" where
  idle: "0 \<le> d \<Longrightarrow> rl_run s (s\<lparr>clock := clock s + d\<rparr>)"
| stopped: "snd (check_rate_limit s) = s1 \<Longrightarrow> 0 \<le> d \<Longrightarrow> rl_run s (s1\<lparr>clock := clock s1 + d\<rparr>)"
| recorded: "check_rate_limit s = (Inr (), s1) \<Longrightarrow> 0 \<le> d \<Longrightarrow>
     record_request (s1\<lparr>clock := clock s1 + d\<rparr>) = (Inr (), s2) \<Longrightarrow>
     rl_run s (s2\<lparr>hist := hist s2 @ [clock s2]\<rparr>)"

inductive rl_reach :: "rl_sys \<Rightarrow> bool" where
  init: "hist s = [] \<Longrightarrow> rl_reach s"
| step: "rl_reach s \<Longrightarrow> rl_run s t \<Longrightarrow> rl_reach t"

text \<open>
  The invariant: recorded times are in the past; no hour holds more than the quota; and
  every later check counts at least the recorded requests of its hour.
\<close>

definition rl_inv :: "rl_sys \<Rightarrow> bool" where
  "rl_inv s \<longleftrightarrow>
     (\<forall>r\<in>set (hist s). r \<le> clock s) \<and>
     (\<forall>T. count_window T (hist s) \<le> MAX_REQUESTS_PER_HOUR) \<and>
     (\<forall>T\<ge>clock s. count_window T (hist s) \<le> log_count T (rl_file s))"


text \<open>
  Example worlds used by the witnesses: a log with ten entries in the last hour, the
  newest three seconds old; a log holding one entry from the future; and the first two
  states of a run of the program on a machine without a log.
\<close>

definition w_full :: world where
  "w_full = \<lparr>clock = 10000,
     rl_file = FJson (JArr (map JNum [6401, 9000, 9001, 9002, 9003, 9004, 9005, 9006, 9007, 9997])),
     log = []\<rparr>"

definition w_late :: world where
  "w_late = \<lparr>clock = 10000,
     rl_file = FJson (JArr (map JNum [6489, 9000, 9001, 9002, 9003, 9004, 9005, 9006, 9007, 9008])),
     log = []\<rparr>"

definition w_future :: world where
  "w_future = \<lparr>clock = 10000, rl_file = FJson (JArr [JNum 10100]), log = []\<rparr>"

definition w_dict :: world where
  "w_dict = \<lparr>clock = 10000, rl_file = FJson (JObj [(''last'', JNum 9990)]), log = []\<rparr>"

definition sys0 :: rl_sys where
  "sys0 = \<lparr>clock = 0, rl_file = FMissing, log = [], hist = []\<rparr>"

definition sys1 :: rl_sys where
  "sys1 = \<lparr>clock = 0, rl_file = log_file [PyFloat 0], log = [WriteRateLog], hist = [0]\<rparr>"

section \<open>Reading the log: what pruning keeps\<close>

lemma prune_filter:
  "prune now xs =
     (case those (map as_pynum xs) of
        None \<Rightarrow> Inl TypeError
      | Some ts \<Rightarrow> Inr (filter (\<lambda>t. now - pyval t < RATE_WINDOW) ts))"
  by (induction xs) (auto split: option.splits sum.splits)

lemma read_rate_log_entries:
  "read_rate_log now f =
     bindE (rate_log_entries f) (\<lambda>ts. Inr (filter (\<lambda>t. now - pyval t < RATE_WINDOW) ts))"
  unfolding read_rate_log_def rate_log_entries_def bindE_def
  by (simp add: prune_filter split: sum.splits option.splits)

lemma entries_log_file [simp]: "rate_log_entries (log_file ps) = Inr ps"
proof -
  have "those (map as_pynum (map pynum_json ps)) = Some ps"
  proof (induction ps)
    case (Cons p ps)
    then show ?case by (cases p) simp_all
  qed simp
  then show ?thesis by (simp add: rate_log_entries_def log_file_def)
qed

lemma read_log_file [simp]:
  "read_rate_log T (log_file ps) = Inr (filter (\<lambda>t. T - pyval t < RATE_WINDOW) ps)"
  by (simp add: read_rate_log_entries)

lemma read_rate_log_later:
  assumes "read_rate_log r f = Inr ts" and "r \<le> T"
  shows "read_rate_log T f = Inr (filter (\<lambda>t. T - pyval t < RATE_WINDOW) ts)"
proof -
  from assms(1) obtain es where es: "rate_log_entries f = Inr es"
    and ts: "ts = filter (\<lambda>t. r - pyval t < RATE_WINDOW) es"
    by (auto simp: read_rate_log_entries)
  have "filter (\<lambda>t. T - pyval t < RATE_WINDOW) ts = filter (\<lambda>t. T - pyval t < RATE_WINDOW) es"
    using assms(2) by (auto simp: ts filter_filter intro: filter_cong)
  then show ?thesis by (simp add: read_rate_log_entries es)
qed

section \<open>The operations on every branch\<close>

lemma spacing_wait_eq:
  "spacing_wait now vs w =
     (if vs \<noteq> [] \<and> now - Max (set vs) < MIN_INTERVAL_SECONDS
      then sleep (MIN_INTERVAL_SECONDS - (now - Max (set vs)))
             (emit (Warn (WaitBetween (MIN_INTERVAL_SECONDS - (now - Max (set vs))))) w)
      else w)"
  by (cases vs) (simp_all add: foldl_max_Max Let_def)

lemma check_rate_limit_read:
  assumes "read_rate_log (clock w) (rl_file w) = Inr ts"
  shows "check_rate_limit w =
     (if MAX_REQUESTS_PER_HOUR \<le> length ts
      then (Inl (RateLimitReached (RATE_WINDOW - (clock w - Min (set (map pyval ts))))),
            spacing_wait (clock w) (map pyval ts) w)
      else (Inr (), spacing_wait (clock w) (map pyval ts) w))"
proof (cases "MAX_REQUESTS_PER_HOUR \<le> length ts")
  case True
  then obtain t ts' where "ts = t # ts'"
    by (cases ts) (simp_all add: MAX_REQUESTS_PER_HOUR_def)
  with True assms show ?thesis
    by (simp add: check_rate_limit_def foldl_min_Min Let_def)
next
  case False
  with assms show ?thesis by (simp add: check_rate_limit_def)
qed

lemma check_rate_limit_error:
  "read_rate_log (clock w) (rl_file w) = Inl e \<Longrightarrow> check_rate_limit w = (Inl (Uncaught e), w)"
  by (simp add: check_rate_limit_def)

lemma record_request_read:
  "read_rate_log (clock w) (rl_file w) = Inr ts \<Longrightarrow>
     record_request w = (Inr (), emit WriteRateLog (w\<lparr>rl_file := log_file (ts @ [PyFloat (clock w)])\<rparr>))"
  by (simp add: record_request_def)

lemma spacing_wait_frame [simp]:
  "rl_file (spacing_wait now vs w) = rl_file w"
  "world.more (spacing_wait now vs w) = world.more w"
  by (simp_all add: spacing_wait_eq)

lemma clock_spacing_wait: "clock w \<le> clock (spacing_wait now vs w)"
  by (simp add: spacing_wait_eq)

lemma check_rate_limit_frame [simp]:
  "rl_file (snd (check_rate_limit w)) = rl_file w"
  "world.more (snd (check_rate_limit w)) = world.more w"
  by (cases "read_rate_log (clock w) (rl_file w)";
      simp add: check_rate_limit_error check_rate_limit_read)+

lemma clock_check_rate_limit: "clock w \<le> clock (snd (check_rate_limit w))"
  by (cases "read_rate_log (clock w) (rl_file w)")
     (simp_all add: check_rate_limit_error check_rate_limit_read clock_spacing_wait)

lemma check_rate_limit_passed:
  "fst (check_rate_limit w) = Inr () \<Longrightarrow>
     \<exists>ts. read_rate_log (clock w) (rl_file w) = Inr ts \<and> length ts < MAX_REQUESTS_PER_HOUR"
  by (cases "read_rate_log (clock w) (rl_file w)")
     (auto simp: check_rate_limit_error check_rate_limit_read split: if_splits)

lemma check_rate_limit_refused:
  assumes "fst (check_rate_limit w) = Inl (RateLimitReached r)"
  obtains ts where "read_rate_log (clock w) (rl_file w) = Inr ts"
    and "MAX_REQUESTS_PER_HOUR \<le> length ts"
    and "r = RATE_WINDOW - (clock w - Min (set (map pyval ts)))"
proof (cases "read_rate_log (clock w) (rl_file w)")
  case (Inl e)
  with assms show ?thesis by (simp add: check_rate_limit_error)
next
  case (Inr ts)
  with assms that show ?thesis
    by (auto simp: check_rate_limit_read split: if_splits)
qed

lemma hist_world_more: "world.more s = world.more s' \<Longrightarrow> hist s = hist s'"
  by (cases s, cases s') (simp add: world.defs)

lemma hist_check_rate_limit [simp]: "hist (snd (check_rate_limit s)) = hist s"
  by (rule hist_world_more) simp

text \<open>The limiter reads nothing of the machine but the clock and the log file.\<close>

lemma check_rate_limit_same:
  assumes "clock v = clock w" and "rl_file v = rl_file w"
  shows "fst (check_rate_limit v) = fst (check_rate_limit w) \<and>
         clock (snd (check_rate_limit v)) = clock (snd (check_rate_limit w))"
  by (cases "read_rate_log (clock w) (rl_file w)")
     (simp_all add: assms check_rate_limit_error check_rate_limit_read spacing_wait_eq)

lemma record_request_same:
  assumes "clock v = clock w" and "rl_file v = rl_file w"
  shows "fst (record_request v) = fst (record_request w) \<and>
         clock (snd (record_request v)) = clock (snd (record_request w)) \<and>
         rl_file (snd (record_request v)) = rl_file (snd (record_request w))"
  by (simp add: assms record_request_def Let_def split: sum.splits)

lemma record_request_shape:
  "snd (record_request w) = w \<or> (\<exists>f. snd (record_request w) = emit WriteRateLog (w\<lparr>rl_file := f\<rparr>))"
  by (auto simp: record_request_def Let_def split: sum.splits)

lemma record_request_Inl: "record_request w = (Inl e, w') \<Longrightarrow> w' = w"
  by (simp add: record_request_def Let_def split: sum.splits)

section \<open>Counting requests in an hour\<close>

lemma count_window_snoc:
  "r \<le> T \<Longrightarrow> count_window T (rs @ [r]) = count_window T rs + (if T - r < RATE_WINDOW then 1 else 0)"
  "T < r \<Longrightarrow> count_window T (rs @ [r]) = count_window T rs"
  by (simp_all add: count_window_def)

lemma count_window_mono:
  assumes "\<forall>r\<in>set rs. r \<le> t" and "t \<le> T"
  shows "count_window T rs \<le> count_window t rs"
  unfolding count_window_def
  using assms by (intro length_filter_mono) auto

lemma rl_inv_init: "hist s = [] \<Longrightarrow> rl_inv s"
  by (simp add: rl_inv_def count_window_def)


section \<open>Sequential runs\<close>

lemma hist_emit [simp]: "hist (emit e s) = hist s"
  by (simp add: emit_def)

lemma rl_inv_idle [rl_inv_intros]:
  "rl_inv s \<Longrightarrow> 0 \<le> d \<Longrightarrow> rl_inv (s\<lparr>clock := clock s + d\<rparr>)"
  unfolding rl_inv_def by force

lemma rl_inv_stopped [rl_inv_intros]:
  assumes "rl_inv s" and "0 \<le> d"
  shows "rl_inv ((snd (check_rate_limit s))\<lparr>clock := clock (snd (check_rate_limit s)) + d\<rparr>)"
proof -
  have "clock s \<le> clock (snd (check_rate_limit s)) + d"
    using clock_check_rate_limit [of s] assms(2) by linarith
  with assms(1) show ?thesis
    unfolding rl_inv_def by force
qed

lemma rl_inv_recorded [rl_inv_intros]:
  assumes inv: "rl_inv s" and chk: "check_rate_limit s = (Inr (), s1)" and d: "0 \<le> d"
    and rec: "record_request (s1\<lparr>clock := clock s1 + d\<rparr>) = (Inr (), s2)"
  shows "rl_inv (s2\<lparr>hist := hist s2 @ [clock s2]\<rparr>)"
proof -
  define r where "r = clock s1 + d"
  from chk obtain ts where rd: "read_rate_log (clock s) (rl_file s) = Inr ts"
    and len: "length ts < MAX_REQUESTS_PER_HOUR"
    using check_rate_limit_passed [of s] by auto
  have s1: "rl_file s1 = rl_file s" "hist s1 = hist s"
    using chk check_rate_limit_frame(1) [of s] hist_check_rate_limit [of s] by simp_all
  have cr: "clock s \<le> r"
    using clock_check_rate_limit [of s] chk d by (simp add: r_def)
  let ?ts_r = "filter (\<lambda>t. r - pyval t < RATE_WINDOW) ts"
  have rd_r: "read_rate_log r (rl_file s) = Inr ?ts_r"
    by (rule read_rate_log_later [OF rd cr])
  have s2: "clock s2 = r" "hist s2 = hist s" "rl_file s2 = log_file (?ts_r @ [PyFloat r])"
    using rec rd_r s1 by (auto simp: record_request_read r_def)
  have old: "\<forall>x\<in>set (hist s). x \<le> clock s"
    and bound: "\<forall>T\<ge>clock s. count_window T (hist s) \<le> log_count T (rl_file s)"
    using inv by (simp_all add: rl_inv_def)
  have now_count: "count_window (clock s) (hist s) < MAX_REQUESTS_PER_HOUR"
    using bound rd len by (fastforce simp: log_count_def)
  have c1: "\<forall>x\<in>set (hist s @ [r]). x \<le> r"
    using old cr by auto
  have c2: "count_window T (hist s @ [r]) \<le> MAX_REQUESTS_PER_HOUR" for T
  proof (cases "r \<le> T")
    case True
    then have "count_window T (hist s) \<le> count_window (clock s) (hist s)"
      using old cr by (intro count_window_mono) auto
    with True now_count show ?thesis by (simp add: count_window_snoc)
  next
    case False
    then show ?thesis using inv by (simp add: count_window_snoc rl_inv_def)
  qed
  have c3: "count_window T (hist s @ [r]) \<le> log_count T (log_file (?ts_r @ [PyFloat r]))"
    if "r \<le> T" for T
  proof -
    have "filter (\<lambda>t. T - pyval t < RATE_WINDOW) ?ts_r = filter (\<lambda>t. T - pyval t < RATE_WINDOW) ts"
      using that by (auto simp: filter_filter intro: filter_cong)
    moreover have "log_count T (rl_file s) = length (filter (\<lambda>t. T - pyval t < RATE_WINDOW) ts)"
      using read_rate_log_later [OF rd] cr that by (simp add: log_count_def)
    moreover have "count_window T (hist s) \<le> log_count T (rl_file s)"
      using bound cr that by simp
    ultimately show ?thesis
      using that by (simp add: count_window_snoc log_count_def)
  qed
  show ?thesis
    unfolding rl_inv_def using s2 c1 c2 c3 by simp
qed

lemma rl_reach_inv: "rl_reach s \<Longrightarrow> rl_inv s"
proof (induction rule: rl_reach.induct)
  case (init s)
  then show ?case by (rule rl_inv_init)
next
  case (step s t)
  from step.hyps(2) step.IH show ?case
    by (cases rule: rl_run.cases) (auto intro: rl_inv_intros)
qed

lemma sys0_run_sys1: "rl_run sys0 sys1"
proof -
  have c: "check_rate_limit sys0 = (Inr (), sys0)"
    by (simp add: check_rate_limit_def sys0_def read_rate_log_def rate_consts)
  have r: "record_request (sys0\<lparr>clock := clock sys0 + 0\<rparr>) =
             (Inr (), emit WriteRateLog (sys0\<lparr>rl_file := log_file [PyFloat 0]\<rparr>))"
    by (simp add: record_request_def sys0_def read_rate_log_def)
  have "rl_run sys0 ((emit WriteRateLog (sys0\<lparr>rl_file := log_file [PyFloat 0]\<rparr>))
          \<lparr>hist := hist (emit WriteRateLog (sys0\<lparr>rl_file := log_file [PyFloat 0]\<rparr>)) @
                   [clock (emit WriteRateLog (sys0\<lparr>rl_file := log_file [PyFloat 0]\<rparr>))]\<rparr>)"
    by (rule rl_run.recorded [OF c _ r]) simp
  then show "rl_run sys0 sys1"
    by (simp add: sys0_def sys1_def emit_def)
qed

lemma sys1_reach: "rl_reach sys1"
  using rl_reach.init [of sys0] sys0_run_sys1 by (simp add: sys0_def rl_reach.step)

lemma prune_non_number:
  "\<exists>x\<in>set xs. as_pynum x = None \<Longrightarrow> prune now xs = Inl TypeError"
  by (induction xs) (fastforce split: option.splits sum.splits)+

lemma py_iter_Inl: "py_iter j = Inl e \<Longrightarrow> e = TypeError"
  by (cases j) auto

section \<open>Properties of the rate limiter\<close>

text \<open>
  C1. For any sequence of runs that do not overlap in time, starting with no recorded
  request, no hour (the 3600 seconds up to any time \<open>T\<close>) ever holds more than
  \<^verbatim>\<open>MAX_REQUESTS_PER_HOUR\<close> recorded requests.
\<close>

theorem sequential_runs_respect_quota:
  "rl_reach s \<Longrightarrow> count_window T (hist s) \<le> MAX_REQUESTS_PER_HOUR"
  using rl_reach_inv [of s] by (simp add: rl_inv_def)

lemma sequential_runs_respect_quota_witness:
  "rl_reach sys1 \<and> count_window 0 (hist sys1) \<le> MAX_REQUESTS_PER_HOUR"
  using sys1_reach sequential_runs_respect_quota [OF sys1_reach, of 0] by simp


text \<open>
  C3. Every step of the run relation preserves the invariant \<open>rl_inv\<close>: recorded times
  are in the past, no hour holds more than the quota, and every later check counts at
  least the recorded requests of its hour.
\<close>

theorem rl_run_inv: "rl_run s t \<Longrightarrow> rl_inv s \<Longrightarrow> rl_inv t"
  by (induction rule: rl_run.induct) (auto intro: rl_inv_intros)

lemma rl_run_inv_witness: "rl_run sys0 sys1 \<and> rl_inv sys0 \<and> rl_inv sys1"
  using rl_run_inv [OF sys0_run_sys1] sys0_run_sys1 rl_inv_init [of sys0]
  by (simp add: sys0_def)

text \<open>
  C10. When the pruned log holds \<^verbatim>\<open>MAX_REQUESTS_PER_HOUR\<close> entries or more,
  \<^verbatim>\<open>check_rate_limit\<close> stops the run with \<^verbatim>\<open>RateLimitReached\<close>, and the retry
  estimate is the time until the oldest entry leaves the window.
\<close>

theorem check_quota_blocks:
  assumes "read_rate_log (clock w) (rl_file w) = Inr ts"
    and "MAX_REQUESTS_PER_HOUR \<le> length ts"
  shows "fst (check_rate_limit w) =
           Inl (RateLimitReached (RATE_WINDOW - (clock w - Min (pyval ` set ts))))"
  using assms by (simp add: check_rate_limit_read)

lemma check_quota_blocks_witness:
  "read_rate_log (clock w_full) (rl_file w_full) =
     Inr (map PyFloat [6401, 9000, 9001, 9002, 9003, 9004, 9005, 9006, 9007, 9997]) \<and>
   fst (check_rate_limit w_full) = Inl (RateLimitReached 1)"
proof -
  have r: "read_rate_log (clock w_full) (rl_file w_full) =
     Inr (map PyFloat [6401, 9000, 9001, 9002, 9003, 9004, 9005, 9006, 9007, 9997])"
    by (simp add: w_full_def read_rate_log_def rate_consts)
  have "MAX_REQUESTS_PER_HOUR \<le> length (map PyFloat [6401::real, 9000, 9001, 9002, 9003, 9004, 9005, 9006, 9007, 9997])"
    by (simp add: rate_consts)
  from check_quota_blocks [OF r this] r show ?thesis
    by (simp add: w_full_def rate_consts)
qed

text \<open>
  C11. When the pruned log holds fewer than \<^verbatim>\<open>MAX_REQUESTS_PER_HOUR\<close> entries, the check
  passes, whatever the spacing; its only effect is the spacing wait.
\<close>

theorem check_under_quota_passes:
  assumes "read_rate_log (clock w) (rl_file w) = Inr ts"
    and "length ts < MAX_REQUESTS_PER_HOUR"
  shows "check_rate_limit w = (Inr (), spacing_wait (clock w) (map pyval ts) w)"
  using assms by (simp add: check_rate_limit_read)

lemma check_under_quota_passes_witness:
  "read_rate_log (clock w_future) (rl_file w_future) = Inr [PyFloat 10100] \<and>
   fst (check_rate_limit w_future) = Inr ()"
proof -
  have r: "read_rate_log (clock w_future) (rl_file w_future) = Inr [PyFloat 10100]"
    by (simp add: w_future_def read_rate_log_def rate_consts)
  have "length [PyFloat 10100] < MAX_REQUESTS_PER_HOUR"
    by (simp add: rate_consts)
  from check_under_quota_passes [OF r this] r show ?thesis
    by simp
qed

text \<open>
  C12. When the newest entry of the pruned log is less than \<^verbatim>\<open>MIN_INTERVAL_SECONDS\<close> old,
  the check prints the wait and sleeps for exactly the rest of the interval.
\<close>

theorem check_spacing_sleeps:
  assumes "read_rate_log (clock w) (rl_file w) = Inr ts" and "ts \<noteq> []"
    and "clock w - Max (pyval ` set ts) < MIN_INTERVAL_SECONDS"
  shows "snd (check_rate_limit w) =
           sleep (MIN_INTERVAL_SECONDS - (clock w - Max (pyval ` set ts)))
             (emit (Warn (WaitBetween (MIN_INTERVAL_SECONDS - (clock w - Max (pyval ` set ts))))) w)"
  using assms by (simp add: check_rate_limit_read spacing_wait_eq)

lemma check_spacing_sleeps_witness:
  "snd (check_rate_limit w_full) =
     w_full\<lparr>clock := 10002, log := [Warn (WaitBetween 2), Sleep 2]\<rparr>"
proof -
  have r: "read_rate_log (clock w_full) (rl_file w_full) =
     Inr (map PyFloat [6401, 9000, 9001, 9002, 9003, 9004, 9005, 9006, 9007, 9997])"
    by (simp add: w_full_def read_rate_log_def rate_consts)
  have "clock w_full - Max (pyval ` set (map PyFloat [6401, 9000, 9001, 9002, 9003, 9004, 9005, 9006, 9007, 9997]))
          < MIN_INTERVAL_SECONDS"
    by (simp add: w_full_def rate_consts)
  from check_spacing_sleeps [OF r _ this] show ?thesis
    by (simp add: w_full_def rate_consts sleep_def emit_def)
qed

text \<open>
  When the pruned log is empty, or its newest entry is at least
  \<^verbatim>\<open>MIN_INTERVAL_SECONDS\<close> old, the check does not wait and changes nothing.
\<close>

theorem check_no_wait:
  assumes "read_rate_log (clock w) (rl_file w) = Inr ts"
    and "ts = [] \<or> MIN_INTERVAL_SECONDS \<le> clock w - Max (pyval ` set ts)"
  shows "snd (check_rate_limit w) = w"
  using assms by (auto simp: check_rate_limit_read spacing_wait_eq)

lemma check_no_wait_witness:
  "read_rate_log (clock sys0) (rl_file sys0) = Inr [] \<and> snd (check_rate_limit sys0) = sys0"
proof -
  have r: "read_rate_log (clock sys0) (rl_file sys0) = Inr []"
    by (simp add: sys0_def read_rate_log_def)
  from check_no_wait [OF r] r show ?thesis by simp
qed



text \<open>
  C14. Pruning a log of numbers keeps exactly the entries less than 3600 seconds old, in
  their order; an entry exactly 3600 seconds old is dropped.
\<close>

theorem prune_exact:
  "prune now (map JNum rs) = Inr (map PyFloat (filter (\<lambda>r. now - r < RATE_WINDOW) rs))"
  by (induction rs) simp_all

text \<open>
  C15. \<^verbatim>\<open>record_request\<close> writes a log that, read at the same time, is the pruned log
  it read with the current time appended.
\<close>

theorem record_request_roundtrip:
  assumes "read_rate_log (clock w) (rl_file w) = Inr ts"
  shows "read_rate_log (clock w) (rl_file (snd (record_request w))) = Inr (ts @ [PyFloat (clock w)])"
proof -
  from assms have "\<forall>t\<in>set ts. clock w - pyval t < RATE_WINDOW"
    by (auto simp: read_rate_log_entries)
  with assms show ?thesis
    by (simp add: record_request_read RATE_WINDOW_def)
qed

lemma record_request_roundtrip_witness:
  "read_rate_log (clock w_future) (rl_file (snd (record_request w_future))) =
     Inr [PyFloat 10100, PyFloat 10000]"
proof -
  have r: "read_rate_log (clock w_future) (rl_file w_future) = Inr [PyFloat 10100]"
    by (simp add: w_future_def read_rate_log_def rate_consts)
  from record_request_roundtrip [OF r] show ?thesis
    by (simp add: w_future_def)
qed

text \<open>
  C16. When no entry of the log lies in the future, the check never moves the clock back
  and waits at most \<^verbatim>\<open>MIN_INTERVAL_SECONDS\<close>.
\<close>

theorem check_wait_bounded:
  assumes "read_rate_log (clock w) (rl_file w) = Inr ts"
    and "\<forall>t\<in>set ts. pyval t \<le> clock w"
  shows "clock w \<le> clock (snd (check_rate_limit w)) \<and>
         clock (snd (check_rate_limit w)) \<le> clock w + MIN_INTERVAL_SECONDS"
proof -
  have "ts \<noteq> [] \<Longrightarrow> Max (pyval ` set ts) \<le> clock w"
    using assms(2) by simp
  then show ?thesis
    using assms(1) by (auto simp: check_rate_limit_read spacing_wait_eq MIN_INTERVAL_SECONDS_def)
qed

lemma check_wait_bounded_witness:
  "clock w_full \<le> clock (snd (check_rate_limit w_full)) \<and>
   clock (snd (check_rate_limit w_full)) \<le> clock w_full + MIN_INTERVAL_SECONDS"
proof -
  have r: "read_rate_log (clock w_full) (rl_file w_full) =
     Inr (map PyFloat [6401, 9000, 9001, 9002, 9003, 9004, 9005, 9006, 9007, 9997])"
    by (simp add: w_full_def read_rate_log_def rate_consts)
  have "\<forall>t\<in>set (map PyFloat [6401, 9000, 9001, 9002, 9003, 9004, 9005, 9006, 9007, 9997]).
          pyval t \<le> clock w_full"
    by (simp add: w_full_def)
  from check_wait_bounded [OF r this] show ?thesis .
qed

text \<open>
  C17. A missing log, one that cannot be read, and one that is not JSON count as an empty
  log: the check passes without waiting.
\<close>

theorem check_fail_open:
  "rl_file w \<in> {FMissing, FUnreadable, FBadJson} \<Longrightarrow> check_rate_limit w = (Inr (), w)"
  by (auto simp: check_rate_limit_def read_rate_log_def rate_consts)

lemma check_fail_open_witness:
  "rl_file sys0 \<in> {FMissing, FUnreadable, FBadJson} \<and> check_rate_limit sys0 = (Inr (), sys0)"
proof -
  have f: "rl_file sys0 \<in> {FMissing, FUnreadable, FBadJson}"
    by (simp add: sys0_def)
  from f check_fail_open [OF f] show ?thesis by simp
qed

text \<open>
  C18. A log that parses as JSON but whose iteration yields something that is not a
  number (a non-empty dict, a non-empty string, a list holding a string or
  \<^verbatim>\<open>null\<close>) is not treated as empty: the comprehension raises \<^verbatim>\<open>TypeError\<close>
  in both the check and the recording, and the run ends with a traceback (the spec says
  a corrupt log counts as empty).
\<close>

theorem check_crashes_on_non_number_log:
  assumes "rl_file w = FJson j"
    and "\<forall>xs. py_iter j = Inr xs \<longrightarrow> (\<exists>x\<in>set xs. as_pynum x = None)"
  shows "check_rate_limit w = (Inl (Uncaught TypeError), w) \<and>
         record_request w = (Inl (Uncaught TypeError), w)"
proof -
  have "read_rate_log now (rl_file w) = Inl TypeError" for now
    using assms prune_non_number [of _ now]
    by (cases "py_iter j") (auto simp: read_rate_log_def py_iter_Inl)
  then show ?thesis
    by (simp add: check_rate_limit_error record_request_def)
qed

lemma check_crashes_on_non_number_log_witness:
  "rl_file w_dict = FJson (JObj [(''last'', JNum 9990)]) \<and>
   check_rate_limit w_dict = (Inl (Uncaught TypeError), w_dict) \<and>
   record_request w_dict = (Inl (Uncaught TypeError), w_dict)"
proof -
  have f: "rl_file w_dict = FJson (JObj [(''last'', JNum 9990)])" by (simp add: w_dict_def)
  have "\<forall>xs. py_iter (JObj [(''last'', JNum 9990)]) = Inr xs \<longrightarrow> (\<exists>x\<in>set xs. as_pynum x = None)"
    by simp
  with f check_crashes_on_non_number_log [OF f] show ?thesis by simp
qed



text \<open>
  In seconds: once \<^verbatim>\<open>retry_after\<close> seconds have passed, the oldest entry has
  left the window.
\<close>

lemma check_retry_admits_seconds:
  assumes refused: "fst (check_rate_limit w) = Inl (RateLimitReached r)" and t: "clock w + r \<le> t"
  shows "log_count t (rl_file w) < log_count (clock w) (rl_file w) \<and>
         (log_count (clock w) (rl_file w) = MAX_REQUESTS_PER_HOUR \<longrightarrow>
            fst (check_rate_limit (w\<lparr>clock := t\<rparr>)) = Inr ())"
proof -
  obtain ts where rd: "read_rate_log (clock w) (rl_file w) = Inr ts"
    and len: "MAX_REQUESTS_PER_HOUR \<le> length ts"
    and r: "r = RATE_WINDOW - (clock w - Min (set (map pyval ts)))"
    using refused by (rule check_rate_limit_refused)
  have ne: "set (map pyval ts) \<noteq> {}" using len by (auto simp: rate_consts)
  obtain x where x: "x \<in> set ts" "pyval x = Min (set (map pyval ts))"
    using Min_in [OF _ ne] by auto
  have young: "clock w - pyval y < RATE_WINDOW" if "y \<in> set ts" for y
    using rd that by (auto simp: read_rate_log_entries)
  have later: "clock w \<le> t" using young [OF x(1)] x(2) r t by linarith
  let ?keep = "\<lambda>y. t - pyval y < RATE_WINDOW"
  have rt: "read_rate_log t (rl_file w) = Inr (filter ?keep ts)"
    by (rule read_rate_log_later [OF rd later])
  have "\<not> ?keep x" using x(2) r t by linarith
  then have shorter: "length (filter ?keep ts) < length ts"
    using x(1) by (metis length_filter_less)
  then have "log_count t (rl_file w) < log_count (clock w) (rl_file w)"
    using rd rt by (simp add: log_count_def)
  moreover have "fst (check_rate_limit (w\<lparr>clock := t\<rparr>)) = Inr ()"
    if "log_count (clock w) (rl_file w) = MAX_REQUESTS_PER_HOUR"
  proof -
    have "length (filter ?keep ts) < MAX_REQUESTS_PER_HOUR"
      using that shorter rd by (simp add: log_count_def)
    then show ?thesis using rt by (simp add: check_rate_limit_read)
  qed
  ultimately show ?thesis by blast
qed

text \<open>
  C4. A refused run is told, in minutes, when to come back. The announced minutes plus
  half a minute are always enough: by then the pruned log is strictly shorter, and if it
  held exactly the quota the check passes. The half minute is needed, because the
  minutes are rounded to the nearest integer (\<open>announced_wait_too_short\<close>).
\<close>

theorem check_retry_admits:
  assumes refused: "fst (check_rate_limit w) = Inl (RateLimitReached r)"
    and t: "clock w + 60 * of_int (retry_minutes r) + 30 \<le> t"
  shows "log_count t (rl_file w) < log_count (clock w) (rl_file w) \<and>
         (log_count (clock w) (rl_file w) = MAX_REQUESTS_PER_HOUR \<longrightarrow>
            fst (check_rate_limit (w\<lparr>clock := t\<rparr>)) = Inr ())"
proof -
  have "r / 60 - 1/2 \<le> of_int (retry_minutes r)"
    using py_fmt_0f_bounds [of "r / 60"] by (simp add: retry_minutes_def)
  then have "clock w + r \<le> t" using t by linarith
  with refused show ?thesis by (rule check_retry_admits_seconds)
qed

lemma check_retry_admits_witness:
  "fst (check_rate_limit w_full) = Inl (RateLimitReached 1) \<and>
   clock w_full + 60 * of_int (retry_minutes 1) + 30 \<le> 10030 \<and>
   log_count 10030 (rl_file w_full) < log_count (clock w_full) (rl_file w_full) \<and>
   log_count (clock w_full) (rl_file w_full) = MAX_REQUESTS_PER_HOUR \<and>
   fst (check_rate_limit (w_full\<lparr>clock := 10030\<rparr>)) = Inr ()"
proof -
  have c: "fst (check_rate_limit w_full) = Inl (RateLimitReached 1)"
    by (simp add: check_rate_limit_def w_full_def read_rate_log_def rate_consts Let_def)
  have n: "log_count (clock w_full) (rl_file w_full) = MAX_REQUESTS_PER_HOUR"
    by (simp add: log_count_def w_full_def read_rate_log_def rate_consts Let_def)
  have "clock w_full + 60 * of_int (retry_minutes 1) + 30 \<le> 10030"
    by (simp add: w_full_def retry_minutes_def py_fmt_0f_def)
  with c n check_retry_admits [OF c] show ?thesis by simp
qed

text \<open>
  Waiting exactly the announced minutes is not always enough: with the oldest of ten
  entries 3511 seconds old, the run is refused with \<^verbatim>\<open>retry_after\<close> = 89 s,
  announced as 1 minute, and a run 60 seconds later is refused again.
\<close>

lemma announced_wait_too_short:
  "check_rate_limit w_late = (Inl (RateLimitReached 89), w_late) \<and> retry_minutes 89 = 1 \<and>
   fst (check_rate_limit (w_late\<lparr>clock := clock w_late + 60 * of_int (retry_minutes 89)\<rparr>)) =
     Inl (RateLimitReached 29)"
  by (simp add: check_rate_limit_def w_late_def read_rate_log_def rate_consts Let_def
      retry_minutes_def py_fmt_0f_def)

end
