(* ===== verification/Proxy.thy ===== *)
theory Proxy
  imports Prelude
begin

text \<open>
  Proxy rotation (\<^verbatim>\<open>src/summarize.py\<close>, lines 92--125). \<^verbatim>\<open>_load_proxy_config\<close> reads
  \<^verbatim>\<open>~/.scholar-proxies.json\<close> afresh on every call; \<^verbatim>\<open>_get_proxy_url\<close> decides from the
  process-wide override \<^verbatim>\<open>_PROXY_FORCE\<close> and the file whether a proxy is used and picks
  one with \<^verbatim>\<open>random.choice\<close>; \<^verbatim>\<open>_get_proxy\<close> turns it into the \<^verbatim>\<open>proxies\<close>
  argument of \<^verbatim>\<open>requests\<close>. The world is extended with the override, the configuration
  file as it is at each moment (an external edit between two calls is seen by the
  second), and the random source: the \<open>k\<close>-th draw of \<^verbatim>\<open>random\<close> is \<open>rand k\<close>, and
  \<^verbatim>\<open>_randbelow(n)\<close> returns it modulo \<open>n\<close>, so every index can be drawn.
\<close>

section \<open>State\<close>

record net_world = world +
  proxy_force :: "bool option"
  proxy_file :: "real \<Rightarrow> file_state"
  rand :: "nat \<Rightarrow> nat"
  rand_used :: nat

section \<open>Operations\<close>

text \<open>Line 105: the configuration used when the file cannot be read.\<close>

definition DEFAULT_PROXY_CONFIG :: json where
  "DEFAULT_PROXY_CONFIG = JObj [(''enabled'', JBool False), (''proxies'', JArr [])]"

text \<open>
  Lines 99--105: \<^verbatim>\<open>FileNotFoundError\<close>, \<^verbatim>\<open>JSONDecodeError\<close> and \<^verbatim>\<open>OSError\<close> give the
  default; a \<^verbatim>\<open>UnicodeDecodeError\<close> is not caught; any parsed value is returned as is.
\<close>

fun load_proxy_config :: "file_state \<Rightarrow> pyexc + json" where
  "load_proxy_config FMissing = Inr DEFAULT_PROXY_CONFIG"
| "load_proxy_config FUnreadable = Inr DEFAULT_PROXY_CONFIG"
| "load_proxy_config FBadJson = Inr DEFAULT_PROXY_CONFIG"
| "load_proxy_config FUndecodable = Inl UnicodeDecodeError"
| "load_proxy_config (FJson j) = Inr j"

text \<open>
  \<^verbatim>\<open>random.choice(seq)\<close> with the draw \<open>r\<close>: \<^verbatim>\<open>len(seq)\<close> (a \<^verbatim>\<open>TypeError\<close> for a
  number, a boolean or \<^verbatim>\<open>None\<close>), \<^verbatim>\<open>IndexError\<close> when it is 0, then
  \<^verbatim>\<open>seq[r mod len]\<close>: an element of a list, a one-character string of a string, and a
  \<^verbatim>\<open>KeyError\<close> for a dict, whose keys are strings.
\<close>

fun py_choice :: "json \<Rightarrow> nat \<Rightarrow> pyexc + json" where
  "py_choice (JArr xs) r = (if xs = [] then Inl IndexError else Inr (xs ! (r mod length xs)))"
| "py_choice (JStr s) r = (if s = [] then Inl IndexError else Inr (JStr [s ! (r mod length s)]))"
| "py_choice (JObj kvs) r = (if kvs = [] then Inl IndexError else Inl KeyError)"
| "py_choice _ r = Inl TypeError"

text \<open>
  Lines 110--116: the configuration is loaded first, whatever the override; the override,
  when set, replaces \<^verbatim>\<open>config.get("enabled", False)\<close>; a false \<^verbatim>\<open>enabled\<close> or a false
  \<^verbatim>\<open>proxies\<close> (Python truthiness) means no proxy. The result is the pool to choose from.
\<close>

definition proxy_pool :: "bool option \<Rightarrow> file_state \<Rightarrow> pyexc + json option" where
  "proxy_pool force f =
     bindE (load_proxy_config f) (\<lambda>config.
     bindE (case force of Some b \<Rightarrow> Inr (JBool b) | None \<Rightarrow> py_get config ''enabled'' (JBool False))
       (\<lambda>enabled.
          if \<not> py_truthy enabled then Inr None
          else bindE (py_get config ''proxies'' (JArr [])) (\<lambda>proxies.
                 if \<not> py_truthy proxies then Inr None else Inr (Some proxies))))"

text \<open>
  Lines 108--117: the file is read as it is now; \<^verbatim>\<open>random.choice\<close> takes the next draw
  only when there is a pool.
\<close>

definition get_proxy_url :: "'a net_world_scheme \<Rightarrow> (pyexc + json option) \<times> 'a net_world_scheme" where
  "get_proxy_url w =
     (case proxy_pool (proxy_force w) (proxy_file w (clock w)) of
        Inl e \<Rightarrow> (Inl e, w)
      | Inr None \<Rightarrow> (Inr None, w)
      | Inr (Some proxies) \<Rightarrow>
          (case py_choice proxies (rand w (rand_used w)) of
             Inl e \<Rightarrow> (Inl e, w\<lparr>rand_used := Suc (rand_used w)\<rparr>)
           | Inr url \<Rightarrow> (Inr (Some url), w\<lparr>rand_used := Suc (rand_used w)\<rparr>)))"

text \<open>
  Lines 120--125: a false URL (an empty string, \<^verbatim>\<open>0\<close>, \<^verbatim>\<open>null\<close> in the list) means no
  proxy; otherwise the same URL serves \<^verbatim>\<open>http\<close> and \<^verbatim>\<open>https\<close>, so the dict is
  represented by that URL. \<^verbatim>\<open>_launch_browser\<close> (line 137) applies the same test.
\<close>

definition get_proxy :: "'a net_world_scheme \<Rightarrow> (pyexc + json option) \<times> 'a net_world_scheme" where
  "get_proxy w =
     (case get_proxy_url w of
        (Inr (Some url), w') \<Rightarrow> (Inr (if py_truthy url then Some url else None), w')
      | r \<Rightarrow> r)"

text \<open>
  Example machines: a pool of two endpoints with the draws \<open>0, 1, 2, \<dots>\<close>; the same
  with a string instead of a list; forced off; disabled in the file; forced on with an
  empty pool.
\<close>

definition nw_pool :: net_world where
  "nw_pool = \<lparr>clock = 0, rl_file = FMissing, log = [], proxy_force = None,
     proxy_file = (\<lambda>_. FJson (JObj [(''enabled'', JBool True),
                                    (''proxies'', JArr [JStr ''http://a:1'', JStr ''http://b:2''])])),
     rand = (\<lambda>k. k), rand_used = 0\<rparr>"

definition nw_strpool :: net_world where
  "nw_strpool = nw_pool\<lparr>proxy_file := (\<lambda>_. FJson (JObj [(''enabled'', JBool True),
                                    (''proxies'', JStr ''http://p:8080'')]))\<rparr>"

definition nw_off :: net_world where
  "nw_off = nw_pool\<lparr>proxy_force := Some False\<rparr>"

definition nw_cfg_off :: net_world where
  "nw_cfg_off = nw_pool\<lparr>proxy_file := (\<lambda>_. FJson (JObj [(''enabled'', JBool False),
                                    (''proxies'', JArr [JStr ''http://a:1''])]))\<rparr>"

definition nw_on_empty :: net_world where
  "nw_on_empty = nw_pool\<lparr>proxy_force := Some True,
     proxy_file := (\<lambda>_. FJson (JObj [(''enabled'', JBool True), (''proxies'', JArr [])]))\<rparr>"

section \<open>Deciding and choosing\<close>

lemma proxy_pool_obj:
  "proxy_pool force (FJson (JObj kvs)) =
     (let enabled = (case force of
                       Some b \<Rightarrow> JBool b
                     | None \<Rightarrow> (case obj_get kvs ''enabled'' of Some v \<Rightarrow> v | None \<Rightarrow> JBool False));
          proxies = (case obj_get kvs ''proxies'' of Some v \<Rightarrow> v | None \<Rightarrow> JArr [])
      in Inr (if py_truthy enabled \<and> py_truthy proxies then Some proxies else None))"
  by (cases force) (simp_all add: proxy_pool_def py_get_def Let_def)

lemma proxy_pool_forced_off:
  "load_proxy_config f = Inr c \<Longrightarrow> proxy_pool (Some False) f = Inr None"
  by (simp add: proxy_pool_def)

lemma get_proxy_url_pool_None:
  "proxy_pool (proxy_force w) (proxy_file w (clock w)) = Inr None \<Longrightarrow> get_proxy_url w = (Inr None, w)"
  by (simp add: get_proxy_url_def)

lemma get_proxy_url_world: "\<exists>n. snd (get_proxy_url w) = w\<lparr>rand_used := n\<rparr>"
  by (auto simp: get_proxy_url_def split: sum.splits option.splits intro: exI [of _ "rand_used w"])

lemma get_proxy_world: "\<exists>n. snd (get_proxy w) = w\<lparr>rand_used := n\<rparr>"
  using get_proxy_url_world [of w]
  by (auto simp: get_proxy_def split: prod.splits sum.splits option.splits)

lemma get_proxy_url_advances [advances_intros]: "advances w (snd (get_proxy_url w))"
  using get_proxy_url_world [of w] by (auto intro: advances_frame)

lemma get_proxy_advances [advances_intros]: "advances w (snd (get_proxy w))"
  using get_proxy_world [of w] by (auto intro: advances_frame)

section \<open>Properties of proxy selection\<close>

text \<open>
  C34. With \<^verbatim>\<open>--no-proxy\<close> no proxy is selected, whatever the configuration says,
  as long as the file is not undecodable.
\<close>

theorem get_proxy_url_forced_off:
  assumes "proxy_force w = Some False" and "proxy_file w (clock w) \<noteq> FUndecodable"
  shows "get_proxy_url w = (Inr None, w)"
proof -
  obtain c where "load_proxy_config (proxy_file w (clock w)) = Inr c"
    using assms(2) by (cases "proxy_file w (clock w)") simp_all
  then have "proxy_pool (proxy_force w) (proxy_file w (clock w)) = Inr None"
    using assms(1) by (simp add: proxy_pool_forced_off)
  then show ?thesis by (rule get_proxy_url_pool_None)
qed

lemma get_proxy_url_forced_off_witness: "get_proxy_url nw_off = (Inr None, nw_off)"
  by (rule get_proxy_url_forced_off) (simp_all add: nw_off_def nw_pool_def)

text \<open>
  Without an override, a configuration whose \<^verbatim>\<open>enabled\<close> is absent or false
  selects no proxy.
\<close>

theorem get_proxy_url_config_off:
  assumes "proxy_force w = None" and "proxy_file w (clock w) = FJson (JObj kvs)"
    and "obj_get kvs ''enabled'' = None \<or> (\<exists>v. obj_get kvs ''enabled'' = Some v \<and> \<not> py_truthy v)"
  shows "get_proxy_url w = (Inr None, w)"
proof -
  have "proxy_pool (proxy_force w) (proxy_file w (clock w)) = Inr None"
    using assms by (auto simp: proxy_pool_obj Let_def)
  then show ?thesis by (rule get_proxy_url_pool_None)
qed

lemma get_proxy_url_config_off_witness: "get_proxy_url nw_cfg_off = (Inr None, nw_cfg_off)"
  by (rule get_proxy_url_config_off [where kvs = "[(''enabled'', JBool False), (''proxies'', JArr [JStr ''http://a:1''])]"])
     (simp_all add: nw_cfg_off_def nw_pool_def)

text \<open>
  A configuration with no or an empty \<^verbatim>\<open>proxies\<close> list selects no proxy, even
  with \<^verbatim>\<open>--proxy\<close>.
\<close>

theorem get_proxy_url_empty_pool:
  assumes "proxy_file w (clock w) = FJson (JObj kvs)"
    and "obj_get kvs ''proxies'' = None \<or> obj_get kvs ''proxies'' = Some (JArr [])"
  shows "get_proxy_url w = (Inr None, w)"
proof -
  have "proxy_pool (proxy_force w) (proxy_file w (clock w)) = Inr None"
    using assms by (auto simp: proxy_pool_obj Let_def)
  then show ?thesis by (rule get_proxy_url_pool_None)
qed

lemma get_proxy_url_empty_pool_witness: "get_proxy_url nw_on_empty = (Inr None, nw_on_empty)"
  by (rule get_proxy_url_empty_pool [where kvs = "[(''enabled'', JBool True), (''proxies'', JArr [])]"])
     (simp_all add: nw_on_empty_def nw_pool_def)

text \<open>
  C35. A selected proxy is one of the configured endpoints, and the selection consumes
  exactly one random draw.
\<close>

theorem get_proxy_url_in_pool:
  assumes "proxy_file w (clock w) = FJson (JObj kvs)" and "obj_get kvs ''proxies'' = Some (JArr xs)"
    and "get_proxy_url w = (Inr (Some u), w')"
  shows "u \<in> set xs \<and> w' = w\<lparr>rand_used := Suc (rand_used w)\<rparr>"
proof -
  have "proxy_pool (proxy_force w) (proxy_file w (clock w)) = Inr None \<or>
        proxy_pool (proxy_force w) (proxy_file w (clock w)) = Inr (Some (JArr xs))"
    using assms(1,2) by (simp add: proxy_pool_obj Let_def)
  with assms(3) show ?thesis
    by (auto simp: get_proxy_url_def split: if_splits)
qed

lemma get_proxy_url_in_pool_witness:
  "proxy_file nw_pool (clock nw_pool) =
     FJson (JObj [(''enabled'', JBool True), (''proxies'', JArr [JStr ''http://a:1'', JStr ''http://b:2''])]) \<and>
   obj_get [(''enabled'', JBool True), (''proxies'', JArr [JStr ''http://a:1'', JStr ''http://b:2''])]
     ''proxies'' = Some (JArr [JStr ''http://a:1'', JStr ''http://b:2'']) \<and>
   get_proxy_url nw_pool = (Inr (Some (JStr ''http://a:1'')), nw_pool\<lparr>rand_used := Suc 0\<rparr>) \<and>
   JStr ''http://a:1'' \<in> set [JStr ''http://a:1'', JStr ''http://b:2''] \<and>
   nw_pool\<lparr>rand_used := Suc 0\<rparr> = nw_pool\<lparr>rand_used := Suc (rand_used nw_pool)\<rparr>"
proof -
  let ?kvs = "[(''enabled'', JBool True), (''proxies'', JArr [JStr ''http://a:1'', JStr ''http://b:2''])]"
  have f: "proxy_file nw_pool (clock nw_pool) = FJson (JObj ?kvs)" by (simp add: nw_pool_def)
  have o: "obj_get ?kvs ''proxies'' = Some (JArr [JStr ''http://a:1'', JStr ''http://b:2''])" by simp
  have g: "get_proxy_url nw_pool = (Inr (Some (JStr ''http://a:1'')), nw_pool\<lparr>rand_used := Suc 0\<rparr>)"
    by (simp add: get_proxy_url_def nw_pool_def proxy_pool_obj)
  from f o g get_proxy_url_in_pool [OF f o g] show ?thesis by simp
qed

text \<open>
  C36. When proxies are enabled and the pool is a non-empty list, every endpoint of the
  list is selected by some draw: the \<open>i\<close>-th when the draw is \<open>i\<close>.
\<close>

theorem get_proxy_url_any_endpoint:
  assumes "proxy_force w = Some True \<or> (proxy_force w = None \<and> obj_get kvs ''enabled'' = Some (JBool True))"
    and "proxy_file w (clock w) = FJson (JObj kvs)" and "obj_get kvs ''proxies'' = Some (JArr xs)"
    and "i < length xs" and "rand w (rand_used w) = i"
  shows "get_proxy_url w = (Inr (Some (xs ! i)), w\<lparr>rand_used := Suc (rand_used w)\<rparr>)"
proof -
  have "xs \<noteq> []" using assms(4) by auto
  then have "proxy_pool (proxy_force w) (proxy_file w (clock w)) = Inr (Some (JArr xs))"
    using assms(1-3) by (auto simp: proxy_pool_obj Let_def)
  with assms(4,5) \<open>xs \<noteq> []\<close> show ?thesis
    by (simp add: get_proxy_url_def)
qed

lemma get_proxy_url_any_endpoint_witness:
  "get_proxy_url (nw_pool\<lparr>rand_used := 1\<rparr>) =
     (Inr (Some (JStr ''http://b:2'')), nw_pool\<lparr>rand_used := 2\<rparr>)"
  using get_proxy_url_any_endpoint [of "nw_pool\<lparr>rand_used := 1\<rparr>" "[(''enabled'', JBool True),
       (''proxies'', JArr [JStr ''http://a:1'', JStr ''http://b:2''])]"
       "[JStr ''http://a:1'', JStr ''http://b:2'']" 1]
  by (simp add: nw_pool_def)

text \<open>
  C37. A \<^verbatim>\<open>proxies\<close> entry that is a non-empty string rather than a list is not
  rejected: \<^verbatim>\<open>random.choice\<close> picks one of its characters, and that one-character
  string is used as the proxy.
\<close>

theorem get_proxy_url_string_pool:
  assumes "proxy_force w = Some True \<or> (proxy_force w = None \<and> obj_get kvs ''enabled'' = Some (JBool True))"
    and "proxy_file w (clock w) = FJson (JObj kvs)" and "obj_get kvs ''proxies'' = Some (JStr s)"
    and "s \<noteq> []"
  shows "\<exists>c\<in>set s. get_proxy_url w = (Inr (Some (JStr [c])), w\<lparr>rand_used := Suc (rand_used w)\<rparr>)"
proof -
  have "proxy_pool (proxy_force w) (proxy_file w (clock w)) = Inr (Some (JStr s))"
    using assms by (auto simp: proxy_pool_obj Let_def)
  moreover have "s ! (rand w (rand_used w) mod length s) \<in> set s"
    using \<open>s \<noteq> []\<close> by simp
  ultimately show ?thesis
    using \<open>s \<noteq> []\<close> by (auto simp: get_proxy_url_def)
qed

lemma get_proxy_url_string_pool_witness:
  "proxy_file nw_strpool (clock nw_strpool) =
     FJson (JObj [(''enabled'', JBool True), (''proxies'', JStr ''http://p:8080'')]) \<and>
   (\<exists>c\<in>set ''http://p:8080''.
      get_proxy_url nw_strpool = (Inr (Some (JStr [c])), nw_strpool\<lparr>rand_used := Suc (rand_used nw_strpool)\<rparr>))"
proof -
  let ?kvs = "[(''enabled'', JBool True), (''proxies'', JStr ''http://p:8080'')]"
  have f: "proxy_file nw_strpool (clock nw_strpool) = FJson (JObj ?kvs)"
    by (simp add: nw_strpool_def nw_pool_def)
  have "proxy_force nw_strpool = None \<and> obj_get ?kvs ''enabled'' = Some (JBool True)"
    by (simp add: nw_strpool_def nw_pool_def)
  with f get_proxy_url_string_pool [of nw_strpool ?kvs "''http://p:8080''"] show ?thesis
    by simp
qed

text \<open>
  C38. The configuration is loaded before the override is looked at, so whatever the
  override, \<^verbatim>\<open>--no-proxy\<close> included, a configuration file that is not UTF-8 ends
  the run with \<^verbatim>\<open>UnicodeDecodeError\<close>, without consuming a draw.
\<close>

theorem get_proxy_url_forced_off_undecodable:
  "proxy_file w (clock w) = FUndecodable \<Longrightarrow> get_proxy_url w = (Inl UnicodeDecodeError, w)"
  by (simp add: get_proxy_url_def proxy_pool_def)

lemma get_proxy_url_forced_off_undecodable_witness:
  "proxy_file (nw_off\<lparr>proxy_file := (\<lambda>_. FUndecodable)\<rparr>) 0 = FUndecodable \<and>
   get_proxy_url (nw_off\<lparr>proxy_file := (\<lambda>_. FUndecodable)\<rparr>) =
     (Inl UnicodeDecodeError, nw_off\<lparr>proxy_file := (\<lambda>_. FUndecodable)\<rparr>)"
  using get_proxy_url_forced_off_undecodable [of "nw_off\<lparr>proxy_file := (\<lambda>_. FUndecodable)\<rparr>"]
  by simp

end
