(* ===== verification/Fetch.thy ===== *)
theory Fetch
  imports Proxy
begin

text \<open>
  Getting the text of a PDF (\<^verbatim>\<open>src/summarize.py\<close>): \<^verbatim>\<open>_is_local_file\<close> (lines
  355--359) decides whether the input names a local file; \<^verbatim>\<open>_extract_text_from_pdf\<close>
  (lines 254--272) reads a local PDF after checking that it exists and is at most 50 MiB;
  \<^verbatim>\<open>_download_pdf_text\<close> (lines 203--220) fetches a PDF through the selected proxy,
  stores it in a temporary file, extracts its text and removes the file. The machine is
  extended with a file system of absolute paths, the working and home directories, the
  home directories of other users, the HTTP responses, the text pdfminer extracts from
  given bytes, and the temporary-file counter. Paths are taken as canonical (no
  \<^verbatim>\<open>.\<close>, \<^verbatim>\<open>..\<close>, symbolic links or repeated slashes), so \<^verbatim>\<open>Path.resolve()\<close> is
  prefixing the working directory.
\<close>

section \<open>State\<close>

text \<open>A directory entry: a file with its size and bytes, or a directory with its size.\<close>

datatype fentry = FileE nat string | DirE nat

record fetch_world = net_world +
  fs :: "string \<Rightarrow> fentry option"
  cwd :: string
  home :: string
  user_home :: "string \<Rightarrow> string option"
  http_get :: "string \<Rightarrow> pyexc + nat \<times> string"
  pdf_extract :: "string \<Rightarrow> pyexc + string"
  tmp_counter :: nat
  tmp_write_ok :: bool

section \<open>Paths\<close>

text \<open>\<^verbatim>\<open>Path.resolve()\<close> of a canonical path.\<close>

definition abs_path :: "string \<Rightarrow> string \<Rightarrow> string" where
  "abs_path dir p = (if prefix ''/'' p then p else dir @ ''/'' @ p)"

text \<open>
  \<^verbatim>\<open>Path.expanduser()\<close>: a first component \<^verbatim>\<open>~\<close> is the home directory,
  \<^verbatim>\<open>~name\<close> the home directory of that user; an unknown user raises
  \<^verbatim>\<open>RuntimeError\<close>.
\<close>

definition expanduser :: "string \<Rightarrow> (string \<Rightarrow> string option) \<Rightarrow> string \<Rightarrow> pyexc + string" where
  "expanduser hm users p =
     (if \<not> prefix ''~'' p then Inr p
      else (let name = takeWhile (\<lambda>c. c \<noteq> CHR ''/'') (tl p);
                rest = dropWhile (\<lambda>c. c \<noteq> CHR ''/'') (tl p)
            in if name = [] then Inr (hm @ rest)
               else (case users name of Some h \<Rightarrow> Inr (h @ rest) | None \<Rightarrow> Inl RuntimeError)))"

text \<open>
  Lines 355--359: a string starting with \<^verbatim>\<open>http://\<close> or \<^verbatim>\<open>https://\<close> is never looked
  up; any other names a local file when its expansion exists (a file or a directory).
\<close>

definition is_local_file :: "'a fetch_world_scheme \<Rightarrow> string \<Rightarrow> pyexc + bool" where
  "is_local_file w input =
     (if prefix ''http://'' input \<or> prefix ''https://'' input then Inr False
      else bindE (expanduser (home w) (user_home w) input)
             (\<lambda>p. Inr (fs w (abs_path (cwd w) p) \<noteq> None)))"

section \<open>Local PDFs\<close>

definition MAX_PDF_BYTES :: nat where
  "MAX_PDF_BYTES = 50 * 1024 * 1024"

definition LOW_TEXT_CHARS :: nat where
  "LOW_TEXT_CHARS = 50"

fun entry_size :: "fentry \<Rightarrow> nat" where
  "entry_size (FileE n _) = n"
| "entry_size (DirE n) = n"

text \<open>\<^verbatim>\<open>extract_text(path)\<close>: pdfminer on the file's bytes; a directory cannot be opened.\<close>

fun extract_entry :: "(string \<Rightarrow> pyexc + string) \<Rightarrow> fentry \<Rightarrow> pyexc + string" where
  "extract_entry f (FileE _ bytes) = f bytes"
| "extract_entry f (DirE _) = Inl OSErrorExc"

text \<open>
  Lines 254--272: resolve (without expanding \<^verbatim>\<open>~\<close>), fail when missing, fail when
  larger than 50 MiB before reading, extract, warn when the stripped text is short, and
  return the stripped text.
\<close>

definition extract_text_from_pdf ::
  "string \<Rightarrow> 'a fetch_world_scheme \<Rightarrow> (error + string) \<times> 'a fetch_world_scheme" where
  "extract_text_from_pdf pdf_path w =
     (let p = abs_path (cwd w) pdf_path in
      case fs w p of
        None \<Rightarrow> (Inl (FileNotFound p), w)
      | Some e \<Rightarrow>
          if MAX_PDF_BYTES < entry_size e then (Inl FileTooLarge, w)
          else (case extract_entry (pdf_extract w) e of
                  Inl ex \<Rightarrow> (Inl (Uncaught ex), w)
                | Inr text \<Rightarrow>
                    (Inr (py_strip text),
                     if text = [] \<or> length (py_strip text) < LOW_TEXT_CHARS
                     then emit (Warn LowTextPdf) w else w)))"

section \<open>Downloaded PDFs\<close>

text \<open>\<^verbatim>\<open>resp.ok\<close> of requests: false exactly for the status codes 400--599.\<close>

definition http_ok :: "nat \<Rightarrow> bool" where
  "http_ok status \<longleftrightarrow> \<not> (400 \<le> status \<and> status < 600)"

text \<open>The name \<^verbatim>\<open>NamedTemporaryFile\<close> gives the \<open>n\<close>-th temporary file.\<close>

definition tmp_path :: "nat \<Rightarrow> string" where
  "tmp_path n = ''/tmp/tmp'' @ replicate n (CHR ''x'') @ ''.pdf''"

text \<open>
  Lines 213--220: the temporary file is created (empty) and written inside the
  \<^verbatim>\<open>with\<close> block; only then does the \<^verbatim>\<open>try\<close>/\<^verbatim>\<open>finally\<close> that removes it begin.
\<close>

definition extract_via_tmp ::
  "string \<Rightarrow> 'a fetch_world_scheme \<Rightarrow> (error + string \<times> string option) \<times> 'a fetch_world_scheme" where
  "extract_via_tmp body w =
     (let p = tmp_path (tmp_counter w);
          w1 = emit (TempCreate p) (w\<lparr>tmp_counter := Suc (tmp_counter w), fs := (fs w)(p \<mapsto> FileE 0 [])\<rparr>)
      in if \<not> tmp_write_ok w1 then (Inl (Uncaught OSErrorExc), w1)
         else (let w2 = w1\<lparr>fs := (fs w1)(p \<mapsto> FileE (length body) body)\<rparr>;
                   r = pdf_extract w2 body;
                   w3 = emit (TempUnlink p) (w2\<lparr>fs := (fs w2)(p := None)\<rparr>)
               in case r of
                    Inl ex \<Rightarrow> (Inl (Uncaught ex), w3)
                  | Inr text \<Rightarrow> (Inr (py_strip text, None), w3)))"

text \<open>
  Lines 203--220: the proxy is chosen, the GET is sent (an exception of
  \<^verbatim>\<open>requests\<close> propagates), a status of 400--599 ends the run, and the body goes
  through the temporary file. No size limit and no short-text warning apply here.
\<close>

definition download_pdf_text ::
  "string \<Rightarrow> 'a fetch_world_scheme \<Rightarrow> (error + string \<times> string option) \<times> 'a fetch_world_scheme" where
  "download_pdf_text url w =
     (case get_proxy w of
        (Inl e, w1) \<Rightarrow> (Inl (Uncaught e), w1)
      | (Inr px, w1) \<Rightarrow>
          (let w2 = emit (HttpGet url px) w1 in
           case http_get w2 url of
             Inl e \<Rightarrow> (Inl (Uncaught e), w2)
           | Inr (status, body) \<Rightarrow>
               if \<not> http_ok status then (Inl (PdfDownloadFailed status), w2)
               else extract_via_tmp body w2))"

section \<open>An example machine\<close>

text \<open>
  A working directory \<^verbatim>\<open>/work\<close> with a 60 MB PDF and a scanned PDF of almost no
  text; a 29 MiB paper in the home directory; an arXiv PDF served over HTTP, every other
  URL answering 404.
\<close>

definition fw0 :: fetch_world where
  "fw0 = \<lparr>clock = 0, rl_file = FMissing, log = [], proxy_force = Some False,
     proxy_file = (\<lambda>_. FMissing), rand = (\<lambda>k. k), rand_used = 0,
     fs = [''/home/u/paper.pdf'' \<mapsto> FileE 30408704 ''%PDF-paper'',
           ''/work/big.pdf'' \<mapsto> FileE 60000000 ''%PDF-big'',
           ''/work/scan.pdf'' \<mapsto> FileE 1000 ''%PDF-scan''],
     cwd = ''/work'', home = ''/home/u'', user_home = (\<lambda>_. None),
     http_get = (\<lambda>u. if u = ''https://arxiv.org/pdf/2301.00001'' then Inr (200, ''%PDF-arxiv'')
                     else Inr (404, [])),
     pdf_extract = (\<lambda>b. if b = ''%PDF-scan'' then Inr '' p. 1 ''
                        else Inr (b @ '' text of the paper, long enough to pass the check.'')),
     tmp_counter = 0, tmp_write_ok = True\<rparr>"

section \<open>Helper lemmas\<close>

lemma extract_pdf_cases:
  "extract_text_from_pdf path w =
     (case fs w (abs_path (cwd w) path) of
        None \<Rightarrow> (Inl (FileNotFound (abs_path (cwd w) path)), w)
      | Some e \<Rightarrow>
          if MAX_PDF_BYTES < entry_size e then (Inl FileTooLarge, w)
          else (case extract_entry (pdf_extract w) e of
                  Inl ex \<Rightarrow> (Inl (Uncaught ex), w)
                | Inr text \<Rightarrow>
                    (Inr (py_strip text),
                     if text = [] \<or> length (py_strip text) < LOW_TEXT_CHARS
                     then emit (Warn LowTextPdf) w else w)))"
  by (simp add: extract_text_from_pdf_def Let_def)

lemma extract_pdf_advances [advances_intros]: "advances w (snd (extract_text_from_pdf path w))"
  by (auto simp: extract_pdf_cases intro: advances_intros split: option.splits sum.splits)

lemma extract_via_tmp_advances [advances_intros]: "advances w (snd (extract_via_tmp body w))"
  by (simp add: extract_via_tmp_def Let_def advances_def split: sum.splits)

lemma download_advances [advances_intros]: "advances w (snd (download_pdf_text url w))"
proof (cases "get_proxy w")
  case (Pair r w1)
  have "advances w w1" using get_proxy_advances [of w] Pair by simp
  with Pair show ?thesis
    by (auto simp: download_pdf_text_def Let_def intro: advances_intros advances_trans
             split: sum.splits)
qed

lemma extract_via_tmp_fs:
  assumes "tmp_write_ok w" and "tmp_path (tmp_counter w) \<notin> dom (fs w)"
  shows "fs (snd (extract_via_tmp body w)) = fs w"
  using assms
  by (simp add: extract_via_tmp_def Let_def emit_def fun_upd_None_if_notin_dom split: sum.splits)

section \<open>Properties of PDF extraction and input classification\<close>

text \<open>
  A local path that does not exist ends the run with \<^verbatim>\<open>FileNotFound\<close>
  of the resolved path before anything is read or printed.
\<close>

theorem extract_pdf_not_found:
  "fs w (abs_path (cwd w) path) = None \<Longrightarrow>
     extract_text_from_pdf path w = (Inl (FileNotFound (abs_path (cwd w) path)), w)"
  by (simp add: extract_pdf_cases)

lemma extract_pdf_not_found_witness:
  "extract_text_from_pdf ''missing.pdf'' fw0 = (Inl (FileNotFound ''/work/missing.pdf''), fw0)"
  using extract_pdf_not_found [of fw0 "''missing.pdf''"]
  by (simp add: fw0_def abs_path_def)

text \<open>
  C29. A local file larger than 50 MiB ends the run with \<^verbatim>\<open>FileTooLarge\<close>
  before its content is read: the outcome is the same whatever pdfminer would extract.
\<close>

theorem extract_pdf_too_large:
  "fs w (abs_path (cwd w) path) = Some e \<Longrightarrow> MAX_PDF_BYTES < entry_size e \<Longrightarrow>
     extract_text_from_pdf path (w\<lparr>pdf_extract := f\<rparr>) = (Inl FileTooLarge, w\<lparr>pdf_extract := f\<rparr>)"
  by (simp add: extract_pdf_cases)

lemma extract_pdf_too_large_witness:
  "extract_text_from_pdf ''big.pdf'' fw0 = (Inl FileTooLarge, fw0)"
proof -
  have "extract_text_from_pdf ''big.pdf'' (fw0\<lparr>pdf_extract := pdf_extract fw0\<rparr>) =
          (Inl FileTooLarge, fw0\<lparr>pdf_extract := pdf_extract fw0\<rparr>)"
    by (rule extract_pdf_too_large [where e = "FileE 60000000 ''%PDF-big''"])
       (simp_all add: fw0_def abs_path_def MAX_PDF_BYTES_def)
  then show ?thesis by simp
qed

text \<open>
  Text whose stripped form is shorter than 50 characters is still returned,
  stripped, with a short-text warning; it is not an error.
\<close>

theorem extract_pdf_short_text_warns:
  assumes "fs w (abs_path (cwd w) path) = Some (FileE n bytes)" and "n \<le> MAX_PDF_BYTES"
    and "pdf_extract w bytes = Inr text" and "length (py_strip text) < LOW_TEXT_CHARS"
  shows "extract_text_from_pdf path w = (Inr (py_strip text), emit (Warn LowTextPdf) w)"
  using assms by (simp add: extract_pdf_cases)

lemma extract_pdf_short_text_warns_witness:
  "extract_text_from_pdf ''scan.pdf'' fw0 = (Inr ''p. 1'', emit (Warn LowTextPdf) fw0)"
proof -
  have "py_strip '' p. 1 '' = ''p. 1''"
    by (simp add: py_strip_def is_py_space_def)
  moreover have "extract_text_from_pdf ''scan.pdf'' fw0 =
      (Inr (py_strip '' p. 1 ''), emit (Warn LowTextPdf) fw0)"
    by (rule extract_pdf_short_text_warns [where n = 1000 and bytes = "''%PDF-scan''"])
       (simp_all add: fw0_def abs_path_def MAX_PDF_BYTES_def py_strip_def is_py_space_def LOW_TEXT_CHARS_def)
  ultimately show ?thesis by simp
qed

text \<open>
  C27. When the temporary file can be written, downloading a PDF leaves the file system
  as it was, whether the download, the status check or the extraction fails or succeeds.
\<close>

theorem download_cleans_tmp:
  assumes "tmp_write_ok w" and "tmp_path (tmp_counter w) \<notin> dom (fs w)"
  shows "fs (snd (download_pdf_text url w)) = fs w"
proof -
  obtain n where w1: "snd (get_proxy w) = w\<lparr>rand_used := n\<rparr>"
    using get_proxy_world by blast
  show ?thesis
  proof (cases "get_proxy w")
    case (Pair r w1')
    with w1 have "w1' = w\<lparr>rand_used := n\<rparr>" by simp
    with Pair assms show ?thesis
      by (auto simp: download_pdf_text_def Let_def emit_def extract_via_tmp_fs split: sum.splits)
  qed
qed

lemma download_cleans_tmp_witness:
  "fs (snd (download_pdf_text ''https://arxiv.org/pdf/2301.00001'' fw0)) = fs fw0"
  by (rule download_cleans_tmp) (simp_all add: fw0_def tmp_path_def)

text \<open>
  C30. A PDF download answered with a status of 400--599 ends the run with
  \<^verbatim>\<open>PdfDownloadFailed\<close> of that status, after the GET and before any temporary file.
\<close>

theorem download_http_error:
  assumes "get_proxy w = (Inr px, w1)" and "http_get w url = Inr (status, body)"
    and "\<not> http_ok status"
  shows "download_pdf_text url w = (Inl (PdfDownloadFailed status), emit (HttpGet url px) w1)"
proof -
  obtain n where "w1 = w\<lparr>rand_used := n\<rparr>"
    using get_proxy_world [of w] assms(1) by auto
  with assms show ?thesis
    by (simp add: download_pdf_text_def emit_def)
qed

lemma download_http_error_witness:
  "download_pdf_text ''https://example.com/x.pdf'' fw0 =
     (Inl (PdfDownloadFailed 404), emit (HttpGet ''https://example.com/x.pdf'' None) fw0)"
proof -
  have p: "get_proxy fw0 = (Inr None, fw0)"
    by (simp add: get_proxy_def get_proxy_url_def proxy_pool_def fw0_def)
  show ?thesis
    by (rule download_http_error [OF p, where body = "[]"])
       (simp_all add: fw0_def http_ok_def)
qed

text \<open>
  C31. A downloaded PDF never produces the short-text warning, however little text it
  has (the spec asks for the same extraction policy as for local files).
\<close>

theorem download_no_short_text_warning:
  "Warn LowTextPdf \<notin> set (log w) \<Longrightarrow> Warn LowTextPdf \<notin> set (log (snd (download_pdf_text url w)))"
proof -
  assume a: "Warn LowTextPdf \<notin> set (log w)"
  obtain n where w1: "snd (get_proxy w) = w\<lparr>rand_used := n\<rparr>"
    using get_proxy_world by blast
  show ?thesis
  proof (cases "get_proxy w")
    case (Pair r w1')
    with w1 have "w1' = w\<lparr>rand_used := n\<rparr>" by simp
    with Pair a show ?thesis
      by (auto simp: download_pdf_text_def extract_via_tmp_def Let_def split: sum.splits)
  qed
qed

text \<open>
  C28. Whenever the download succeeds but writing the temporary file fails, the
  exception escapes before the \<^verbatim>\<open>try\<close>/\<^verbatim>\<open>finally\<close> that removes it: the
  empty temporary file is left behind, and its creation is the last effect.
\<close>

theorem download_tmp_leak:
  assumes px: "get_proxy w = (Inr px, w1)" and get: "http_get w1 url = Inr (status, body)"
    and ok: "http_ok status" and fail: "\<not> tmp_write_ok w1"
  shows "fst (download_pdf_text url w) = Inl (Uncaught OSErrorExc) \<and>
         fs (snd (download_pdf_text url w)) (tmp_path (tmp_counter w1)) = Some (FileE 0 []) \<and>
         last (log (snd (download_pdf_text url w))) = TempCreate (tmp_path (tmp_counter w1))"
  using assms by (simp add: download_pdf_text_def extract_via_tmp_def Let_def emit_def)

lemma download_tmp_leak_witness:
  "get_proxy (fw0\<lparr>tmp_write_ok := False\<rparr>) = (Inr None, fw0\<lparr>tmp_write_ok := False\<rparr>) \<and>
   fst (download_pdf_text ''https://arxiv.org/pdf/2301.00001'' (fw0\<lparr>tmp_write_ok := False\<rparr>)) =
     Inl (Uncaught OSErrorExc) \<and>
   fs (snd (download_pdf_text ''https://arxiv.org/pdf/2301.00001'' (fw0\<lparr>tmp_write_ok := False\<rparr>)))
     (tmp_path 0) = Some (FileE 0 [])"
proof -
  have px: "get_proxy (fw0\<lparr>tmp_write_ok := False\<rparr>) = (Inr None, fw0\<lparr>tmp_write_ok := False\<rparr>)"
    by (simp add: fw0_def get_proxy_def get_proxy_url_def proxy_pool_def)
  have "http_get (fw0\<lparr>tmp_write_ok := False\<rparr>) ''https://arxiv.org/pdf/2301.00001'' =
          Inr (200, ''%PDF-arxiv'')"
    by (simp add: fw0_def)
  from download_tmp_leak [OF px this] px show ?thesis
    by (simp add: http_ok_def fw0_def)
qed

lemma download_no_short_text_warning_witness:
  "Warn LowTextPdf \<notin> set (log (snd (download_pdf_text ''https://arxiv.org/pdf/2301.00001'' fw0)))"
  by (rule download_no_short_text_warning) (simp add: fw0_def)

text \<open>
  An input starting with \<^verbatim>\<open>http://\<close> or \<^verbatim>\<open>https://\<close> is classified as a URL
  without looking at the file system.
\<close>

theorem is_local_file_url_not_probed:
  "is_local_file w (''http://'' @ rest) = Inr False \<and> is_local_file w (''https://'' @ rest) = Inr False"
  by (simp add: is_local_file_def)

text \<open>
  C32. An input \<^verbatim>\<open>~/rest\<close> whose expansion in the home directory exists is
  classified as a local file, but \<^verbatim>\<open>_extract_text_from_pdf\<close> resolves it without
  expanding \<^verbatim>\<open>~\<close>; unless a file literally named \<^verbatim>\<open>~/rest\<close> exists under the
  working directory, the run ends with \<^verbatim>\<open>FileNotFound\<close>.
\<close>

theorem tilde_path_local_but_not_found:
  assumes inp: "inp = ''~/'' @ rest"
    and home_file: "fs w (abs_path (cwd w) (home w @ ''/'' @ rest)) \<noteq> None"
    and no_literal: "fs w (abs_path (cwd w) inp) = None"
  shows "is_local_file w inp = Inr True \<and>
         extract_text_from_pdf inp w = (Inl (FileNotFound (abs_path (cwd w) inp)), w)"
proof -
  have "expanduser (home w) (user_home w) inp = Inr (home w @ ''/'' @ rest)"
    using inp by (simp add: expanduser_def)
  with inp home_file have "is_local_file w inp = Inr True"
    by (simp add: is_local_file_def)
  with no_literal show ?thesis by (simp add: extract_pdf_cases)
qed

lemma tilde_path_local_but_not_found_witness:
  "fs fw0 (abs_path (cwd fw0) (home fw0 @ ''/'' @ ''paper.pdf'')) \<noteq> None \<and>
   fs fw0 (abs_path (cwd fw0) ''~/paper.pdf'') = None \<and>
   is_local_file fw0 ''~/paper.pdf'' = Inr True \<and>
   extract_text_from_pdf ''~/paper.pdf'' fw0 = (Inl (FileNotFound ''/work/~/paper.pdf''), fw0)"
proof -
  have h: "fs fw0 (abs_path (cwd fw0) (home fw0 @ ''/'' @ ''paper.pdf'')) \<noteq> None"
    and n: "fs fw0 (abs_path (cwd fw0) ''~/paper.pdf'') = None"
    by (simp_all add: fw0_def abs_path_def)
  have "abs_path (cwd fw0) ''~/paper.pdf'' = ''/work/~/paper.pdf''"
    by (simp add: fw0_def abs_path_def)
  with h n tilde_path_local_but_not_found [of "''~/paper.pdf''" "''paper.pdf''" fw0] show ?thesis
    by simp
qed

end
