(* ===== verification/UrlRewrite.thy ===== *)
theory UrlRewrite
  imports Prelude
begin

text \<open>
  \<^verbatim>\<open>_rewrite_to_pdf_url\<close> (\<^verbatim>\<open>src/summarize.py\<close>, lines 191--200) recognises an arXiv
  abstract or HTML page and returns the URL of its PDF. The two regular expressions
  \<^verbatim>\<open>https?://arxiv\.org/(abs|html)/(.+?)(?:\?.*)?$\<close> are matched with
  \<^verbatim>\<open>re.match\<close>: anchored at the start; \<^verbatim>\<open>.\<close> matches any character but a newline;
  \<^verbatim>\<open>$\<close> matches at the end or before a final newline; the lazy group takes the shortest
  non-empty identifier after which the rest of the URL is an optional query. The matcher
  below follows the backtracking order of the regex engine; it is shown equal to a
  declarative description (the least split point that works), and the rewrite is shown
  to keep the identifier, to drop the query, to leave every other URL alone, and never to
  apply to its own output.
\<close>

section \<open>The regular expression\<close>

definition NEWLINE :: char where
  "NEWLINE = CHR ''\<newline>''"

text \<open>\<^verbatim>\<open>$\<close> in Python: the end of the string, or a newline that ends it.\<close>

definition at_dollar :: "string \<Rightarrow> bool" where
  "at_dollar t \<longleftrightarrow> t = [] \<or> t = [NEWLINE]"

text \<open>\<^verbatim>\<open>.*$\<close>: some characters other than a newline, then \<^verbatim>\<open>$\<close>.\<close>

fun dotstar_dollar :: "string \<Rightarrow> bool" where
  "dotstar_dollar [] = True"
| "dotstar_dollar (c # cs) = (at_dollar (c # cs) \<or> (c \<noteq> NEWLINE \<and> dotstar_dollar cs))"

text \<open>\<^verbatim>\<open>(?:\?.*)?$\<close>: the optional query group is tried first, then \<^verbatim>\<open>$\<close> alone.\<close>

definition query_dollar :: "string \<Rightarrow> bool" where
  "query_dollar t \<longleftrightarrow>
     (case t of [] \<Rightarrow> False | c # cs \<Rightarrow> c = CHR ''?'' \<and> dotstar_dollar cs) \<or> at_dollar t"

text \<open>
  \<^verbatim>\<open>(.+?)\<close> followed by the rest of the pattern: the engine takes one character, then
  tries the rest of the pattern after each further character, shortest first.
\<close>

fun lazy_capture :: "string \<Rightarrow> string \<Rightarrow> string option" where
  "lazy_capture acc [] = None"
| "lazy_capture acc (c # cs) =
     (if c = NEWLINE then None
      else if query_dollar cs then Some (acc @ [c])
      else lazy_capture (acc @ [c]) cs)"

text \<open>\<^verbatim>\<open>https?://arxiv\.org/<kind>/\<close> at the start of the URL: what follows it.\<close>

definition match_prefix :: "string \<Rightarrow> string \<Rightarrow> string option" where
  "match_prefix kind url =
     (let p1 = ''https://arxiv.org/'' @ kind @ ''/''; p2 = ''http://arxiv.org/'' @ kind @ ''/''
      in if prefix p1 url then Some (drop (length p1) url)
         else if prefix p2 url then Some (drop (length p2) url)
         else None)"

text \<open>\<^verbatim>\<open>m.group(1)\<close> of \<^verbatim>\<open>re.match(pattern, url)\<close>, or \<open>None\<close> when there is no match.\<close>

definition arxiv_match :: "string \<Rightarrow> string \<Rightarrow> string option" where
  "arxiv_match kind url =
     (case match_prefix kind url of None \<Rightarrow> None | Some rest \<Rightarrow> lazy_capture [] rest)"

definition PDF_PREFIX :: string where
  "PDF_PREFIX = ''https://arxiv.org/pdf/''"

text \<open>Lines 191--200: the abstract pattern first, then the HTML pattern.\<close>

definition rewrite_to_pdf_url :: "string \<Rightarrow> string option" where
  "rewrite_to_pdf_url url =
     (case arxiv_match ''abs'' url of
        Some ident \<Rightarrow> Some (PDF_PREFIX @ ident)
      | None \<Rightarrow>
          (case arxiv_match ''html'' url of
             Some ident \<Rightarrow> Some (PDF_PREFIX @ ident)
           | None \<Rightarrow> None))"

section \<open>A declarative description of the lazy group\<close>

text \<open>
  What the lazy group captures, without the engine: the shortest non-empty prefix free of
  newlines after which the optional query and \<^verbatim>\<open>$\<close> match.
\<close>

definition capture_ok :: "string \<Rightarrow> nat \<Rightarrow> bool" where
  "capture_ok rest k \<longleftrightarrow> NEWLINE \<notin> set (take k rest) \<and> query_dollar (drop k rest)"

definition capture_spec :: "string \<Rightarrow> string option" where
  "capture_spec rest =
     (case find (capture_ok rest) [1..<Suc (length rest)] of
        None \<Rightarrow> None
      | Some k \<Rightarrow> Some (take k rest))"

section \<open>The matcher\<close>

lemma capture_ok_Cons:
  "capture_ok (c # cs) (Suc k) \<longleftrightarrow> c \<noteq> NEWLINE \<and> capture_ok cs k"
  by (auto simp: capture_ok_def)

lemma capture_ok_0: "capture_ok cs 0 \<longleftrightarrow> query_dollar cs"
  by (simp add: capture_ok_def)

lemma lazy_capture_spec:
  "lazy_capture acc rest = map_option (\<lambda>ident. acc @ ident) (capture_spec rest)"
proof (induction rest arbitrary: acc)
  case Nil
  then show ?case by (simp add: capture_spec_def)
next
  case (Cons c cs)
  have "[1..<Suc (Suc (length cs))] = 1 # [Suc 1..<Suc (Suc (length cs))]"
    by (rule upt_conv_Cons) simp
  then have upt: "[1..<Suc (length (c # cs))] = 1 # map Suc [1..<Suc (length cs)]"
    by (simp only: map_Suc_upt length_Cons)
  show ?case
  proof (cases "c = NEWLINE")
    case True
    have "\<not> capture_ok (c # cs) k" if "1 \<le> k" for k
      using True that by (cases k) (simp_all add: capture_ok_def)
    then have "find (capture_ok (c # cs)) [1..<Suc (length (c # cs))] = None"
      by (auto simp: find_None_iff simp del: upt.simps)
    with True show ?thesis by (simp add: capture_spec_def)
  next
    case False
    have "capture_ok (c # cs) \<circ> Suc = capture_ok cs"
      using False by (auto simp: capture_ok_Cons)
    then have "find (capture_ok (c # cs)) (1 # map Suc [1..<Suc (length cs)]) =
        (if query_dollar cs then Some 1 else map_option Suc (find (capture_ok cs) [1..<Suc (length cs)]))"
      using False by (simp add: capture_ok_Cons capture_ok_0 find_map_conv del: upt.simps)
    then have "capture_spec (c # cs) =
        (if query_dollar cs then Some [c] else map_option (\<lambda>ident. c # ident) (capture_spec cs))"
      unfolding capture_spec_def upt by (simp del: upt.simps split: option.splits)
    with False show ?thesis
      by (simp add: Cons.IH option.map_comp comp_def)
  qed
qed


lemma query_dollar_Cons_plain:
  "c \<noteq> CHR ''?'' \<Longrightarrow> c \<noteq> NEWLINE \<Longrightarrow> \<not> query_dollar (c # cs)"
  by (simp add: query_dollar_def at_dollar_def)

lemma lazy_capture_ident:
  assumes "ident \<noteq> []" and "NEWLINE \<notin> set ident" and "CHR ''?'' \<notin> set ident"
    and "query_dollar q"
  shows "lazy_capture acc (ident @ q) = Some (acc @ ident)"
  using assms
proof (induction ident arbitrary: acc)
  case Nil
  then show ?case by simp
next
  case (Cons c cs)
  show ?case
  proof (cases cs)
    case Nil
    with Cons.prems show ?thesis by simp
  next
    case (Cons c' cs')
    with Cons.prems have "c' \<noteq> CHR ''?''" "c' \<noteq> NEWLINE"
      by auto
    then have "\<not> query_dollar (cs @ q)"
      using \<open>cs = c' # cs'\<close> query_dollar_Cons_plain by simp
    moreover have "c \<noteq> NEWLINE"
      using Cons.prems by auto
    ultimately show ?thesis
      using Cons.prems Cons.IH [of "acc @ [c]"] \<open>cs = c' # cs'\<close> by simp
  qed
qed

lemma lazy_capture_Some:
  "lazy_capture acc rest = Some r \<Longrightarrow>
     \<exists>ident. r = acc @ ident \<and> ident \<noteq> [] \<and> NEWLINE \<notin> set ident \<and> prefix ident rest"
proof (induction acc rest rule: lazy_capture.induct)
  case (1 acc)
  then show ?case by simp
next
  case (2 acc c cs)
  show ?case
  proof (cases "c = NEWLINE \<or> query_dollar cs")
    case True
    with "2.prems" show ?thesis by (auto split: if_splits)
  next
    case False
    with "2.prems" "2.IH" obtain ident where
      "r = (acc @ [c]) @ ident" "NEWLINE \<notin> set ident" "prefix ident cs"
      by auto
    with False show ?thesis by auto
  qed
qed

lemma match_prefix_https:
  "match_prefix kind (''https://arxiv.org/'' @ kind @ ''/'' @ rest) = Some rest"
  by (simp add: match_prefix_def)

lemma match_prefix_http:
  "match_prefix kind (''http://arxiv.org/'' @ kind @ ''/'' @ rest) = Some rest"
  by (simp add: match_prefix_def)

lemma match_prefix_None:
  "\<not> prefix ''http://arxiv.org/'' url \<Longrightarrow> \<not> prefix ''https://arxiv.org/'' url \<Longrightarrow>
     match_prefix kind url = None"
proof -
  assume "\<not> prefix ''http://arxiv.org/'' url" and "\<not> prefix ''https://arxiv.org/'' url"
  then have "\<not> prefix (''http://arxiv.org/'' @ kind @ ''/'') url"
    and "\<not> prefix (''https://arxiv.org/'' @ kind @ ''/'') url"
    using append_prefixD by blast+
  then show ?thesis
    by (simp add: match_prefix_def Let_def)
qed

lemma match_prefix_abs_html:
  "scheme \<in> {''http'', ''https''} \<Longrightarrow> match_prefix ''abs'' (scheme @ ''://arxiv.org/html/'' @ rest) = None"
  by (auto simp: match_prefix_def)

lemma match_prefix_pdf:
  "match_prefix kind (PDF_PREFIX @ rest) = None" if "kind \<in> {''abs'', ''html''}"
  using that by (auto simp: match_prefix_def PDF_PREFIX_def)

section \<open>Properties of the rewrite\<close>

text \<open>
  C24. An arXiv abstract or HTML page URL (\<^verbatim>\<open>http\<close> or \<^verbatim>\<open>https\<close>), whose
  identifier has no \<^verbatim>\<open>?\<close> and no newline, optionally followed by a query string, is
  rewritten to the \<^verbatim>\<open>https\<close> PDF URL of the same identifier; the query is dropped.
\<close>

theorem rewrite_arxiv_landing:
  assumes "scheme \<in> {''http'', ''https''}" and "kind \<in> {''abs'', ''html''}"
    and "ident \<noteq> []" and "NEWLINE \<notin> set ident" and "CHR ''?'' \<notin> set ident"
    and "query_dollar q"
  shows "rewrite_to_pdf_url (scheme @ ''://arxiv.org/'' @ kind @ ''/'' @ ident @ q) =
           Some (PDF_PREFIX @ ident)"
proof -
  have cap: "lazy_capture [] (ident @ q) = Some ident"
    using lazy_capture_ident [OF assms(3-6), of "[]"] by simp
  show ?thesis
    using assms(1,2) cap
    by (auto simp: rewrite_to_pdf_url_def arxiv_match_def match_prefix_def)
qed

lemma rewrite_arxiv_landing_witness:
  "rewrite_to_pdf_url ''https://arxiv.org/abs/2301.00001?context=cs'' =
     Some ''https://arxiv.org/pdf/2301.00001''"
proof -
  have "rewrite_to_pdf_url (''https'' @ ''://arxiv.org/'' @ ''abs'' @ ''/'' @ ''2301.00001'' @ ''?context=cs'') =
          Some (PDF_PREFIX @ ''2301.00001'')"
    by (rule rewrite_arxiv_landing)
       (simp_all add: NEWLINE_def query_dollar_def at_dollar_def)
  then show ?thesis by (simp add: PDF_PREFIX_def)
qed

text \<open>
  A URL that does not start with \<^verbatim>\<open>http://arxiv.org/\<close> or
  \<^verbatim>\<open>https://arxiv.org/\<close> is not rewritten (it goes to the browser).
\<close>

theorem rewrite_other_urls_unchanged:
  "\<not> prefix ''http://arxiv.org/'' url \<Longrightarrow> \<not> prefix ''https://arxiv.org/'' url \<Longrightarrow>
     rewrite_to_pdf_url url = None"
  by (simp add: rewrite_to_pdf_url_def arxiv_match_def match_prefix_None)

lemma rewrite_other_urls_unchanged_witness:
  "rewrite_to_pdf_url ''https://example.com/article'' = None"
  by (rule rewrite_other_urls_unchanged) simp_all

lemma rewrite_example:
  "rewrite_to_pdf_url ''https://arxiv.org/abs/2301.00001?context=cs'' =
     Some ''https://arxiv.org/pdf/2301.00001''"
  by (simp add: rewrite_to_pdf_url_def arxiv_match_def match_prefix_def PDF_PREFIX_def NEWLINE_def
      query_dollar_def at_dollar_def)

text \<open>
  C25. A rewritten URL is the PDF prefix followed by a non-empty identifier without
  newlines that occurs in the original URL.
\<close>

theorem rewrite_result_shape:
  assumes "rewrite_to_pdf_url url = Some u"
  shows "\<exists>ident. u = PDF_PREFIX @ ident \<and> ident \<noteq> [] \<and> NEWLINE \<notin> set ident \<and> sublist ident url"
proof -
  from assms obtain kind rest ident where
    mp: "match_prefix kind url = Some rest" and lc: "lazy_capture [] rest = Some ident"
    and u: "u = PDF_PREFIX @ ident"
    by (auto simp: rewrite_to_pdf_url_def arxiv_match_def split: option.splits)
  from lazy_capture_Some [OF lc] have i: "ident \<noteq> []" "NEWLINE \<notin> set ident" "prefix ident rest"
    by auto
  from mp obtain n where "rest = drop n url"
    by (auto simp: match_prefix_def Let_def split: if_splits)
  with i(3) have "sublist ident url"
    by (metis append_take_drop_id prefix_imp_sublist sublist_append_rightI sublist_order.order_trans sublist_append_leftI)
  with u i show ?thesis by blast
qed

lemma rewrite_result_shape_witness:
  "\<exists>ident. ''https://arxiv.org/pdf/2301.00001'' = PDF_PREFIX @ ident \<and> ident \<noteq> [] \<and>
     NEWLINE \<notin> set ident \<and> sublist ident ''https://arxiv.org/abs/2301.00001?context=cs''"
  using rewrite_result_shape [OF rewrite_example] .

text \<open>
  The rewrite never applies to its own result: a PDF URL is not a landing page.
\<close>

theorem rewrite_not_reapplied:
  assumes "rewrite_to_pdf_url url = Some u"
  shows "rewrite_to_pdf_url u = None"
proof -
  from assms obtain ident where "u = PDF_PREFIX @ ident"
    by (auto simp: rewrite_to_pdf_url_def split: option.splits)
  then show ?thesis
    by (simp add: rewrite_to_pdf_url_def arxiv_match_def match_prefix_pdf)
qed

lemma rewrite_not_reapplied_witness:
  "rewrite_to_pdf_url ''https://arxiv.org/pdf/2301.00001'' = None"
  using rewrite_not_reapplied [OF rewrite_example] .

text \<open>
  C26. The backtracking matcher of the lazy group captures exactly the shortest
  non-empty newline-free prefix after which the optional query and \<^verbatim>\<open>$\<close> match.
\<close>

theorem lazy_capture_equiv: "lazy_capture [] rest = capture_spec rest"
  using lazy_capture_spec [of "[]" rest] by (simp add: option.map_ident)

end
