(* ===== verification/Browser.thy ===== *)
theory Browser
  imports Fetch UrlRewrite
begin

text \<open>
  Content extraction from a URL (\<^verbatim>\<open>src/summarize.py\<close>, lines 128--185 and 223--251).
  \<^verbatim>\<open>_extract_text_from_url\<close> first asks \<^verbatim>\<open>_rewrite_to_pdf_url\<close>; a landing page goes
  to \<^verbatim>\<open>_download_pdf_text\<close>, any other URL to a headless browser: \<^verbatim>\<open>_launch_browser\<close>
  picks a proxy and starts Chromium, \<^verbatim>\<open>page.goto\<close> waits for network idle (at most
  60 s), \<^verbatim>\<open>_wait_for_cloudflare\<close> polls every 2 s for at most 30 s while the page looks
  like an anti-bot challenge, then the title and the visible text are read, the browser is
  closed, and leaving the \<^verbatim>\<open>with sync_playwright()\<close> block stops the driver (and with it
  any browser still running) on every exit path.
  The web is part of the machine: what the page at a URL shows at each moment, and how
  many milliseconds navigation to it takes until the network is idle, or how it fails. Reading the page takes no time; only navigation
  and \<^verbatim>\<open>time.sleep\<close> advance the clock.
\<close>

section \<open>State\<close>

text \<open>
  A rendered page: \<^verbatim>\<open>page.title()\<close>, \<^verbatim>\<open>page.text_content("body")\<close> (all text,
  hidden included) and \<^verbatim>\<open>document.body.innerText\<close> (the visible text).
\<close>

record page =
  pg_title :: string
  pg_text :: string
  pg_inner :: string

record browser_world = fetch_world +
  web :: "string \<Rightarrow> real \<Rightarrow> page"
  goto_result :: "string \<Rightarrow> pyexc + nat"

section \<open>The challenge wait\<close>

definition CF_TIMEOUT :: real where
  "CF_TIMEOUT = 30"

definition CF_POLL :: real where
  "CF_POLL = 2"

text \<open>Line 180: the challenge markers, on the lower-cased title and body text.\<close>

definition is_challenge :: "page \<Rightarrow> bool" where
  "is_challenge pg \<longleftrightarrow>
     str_contains ''just a moment'' (py_lower (pg_title pg)) \<or>
     str_contains ''checking your browser'' (py_lower (pg_text pg))"

text \<open>
  Lines 174--184: while less than 30 s have passed since \<open>start\<close> and the page shows a
  challenge, print the notice and sleep 2 s; leave at the first check that fails.
\<close>

function wait_for_cloudflare :: "(real \<Rightarrow> page) \<Rightarrow> real \<Rightarrow> 'a world_scheme \<Rightarrow> 'a world_scheme" where
  "wait_for_cloudflare pg start w =
     (if clock w - start < CF_TIMEOUT \<and> is_challenge (pg (clock w))
      then wait_for_cloudflare pg start (sleep CF_POLL (emit (Warn CloudflareDetected) w))
      else w)"
  by pat_completeness auto
termination
proof (relation "measure (\<lambda>(pg, start, w). nat \<lceil>start + CF_TIMEOUT - clock w\<rceil>)")
  show "wf (measure (\<lambda>(pg, start, w). nat \<lceil>start + CF_TIMEOUT - clock w\<rceil>))"
    by simp
next
  fix pg :: "real \<Rightarrow> page" and start :: real and w :: "'a world_scheme"
  assume "clock w - start < CF_TIMEOUT \<and> is_challenge (pg (clock w))"
  then have "0 < start + CF_TIMEOUT - clock w" by simp
  then have "\<lceil>start + CF_TIMEOUT - clock w - 2\<rceil> < \<lceil>start + CF_TIMEOUT - clock w\<rceil>"
    and "0 < \<lceil>start + CF_TIMEOUT - clock w\<rceil>"
    by linarith+
  then show "((pg, start, sleep CF_POLL (emit (Warn CloudflareDetected) w)), (pg, start, w))
               \<in> measure (\<lambda>(pg, start, w). nat \<lceil>start + CF_TIMEOUT - clock w\<rceil>)"
    by (simp add: CF_POLL_def algebra_simps)
qed

declare wait_for_cloudflare.simps [simp del]


section \<open>Extraction\<close>

definition LOW_PAGE_CHARS :: nat where
  "LOW_PAGE_CHARS = 50"

text \<open>
  Lines 132--171: the proxy is drawn by \<^verbatim>\<open>_get_proxy_url\<close> and passed as
  \<^verbatim>\<open>{"server": url}\<close> when it is true; context, page and init script have no
  observable effect here.
\<close>

definition launch_browser :: "'a net_world_scheme \<Rightarrow> (pyexc + unit) \<times> 'a net_world_scheme" where
  "launch_browser w =
     (case get_proxy_url w of
        (Inl e, w1) \<Rightarrow> (Inl e, w1)
      | (Inr u, w1) \<Rightarrow>
          (Inr (), emit (BrowserLaunch (case u of Some x \<Rightarrow> if py_truthy x then Some x else None
                                                | None \<Rightarrow> None)) w1))"

text \<open>
  Lines 234--251, the body of the \<^verbatim>\<open>with\<close> block: launch, navigate (advancing the clock
  by the navigation time; past 60000 ms \<^verbatim>\<open>page.goto\<close> raises its timeout error), wait out
  a challenge, read \<^verbatim>\<open>document.title || null\<close> and
  the visible text, close the browser, warn on short text.
\<close>

definition NAV_TIMEOUT_MS :: nat where
  "NAV_TIMEOUT_MS = 60000"

definition browse :: "string \<Rightarrow> 'a browser_world_scheme \<Rightarrow>
    (error + string \<times> string option) \<times> 'a browser_world_scheme" where
  "browse url w =
     (case launch_browser w of
        (Inl e, w1) \<Rightarrow> (Inl (Uncaught e), w1)
      | (Inr _, w1) \<Rightarrow>
          (let w2 = emit (BrowserGoto url) w1 in
           case goto_result w2 url of
             Inl e \<Rightarrow> (Inl (Uncaught e), w2)
           | Inr ms \<Rightarrow>
               if NAV_TIMEOUT_MS < ms
               then (Inl (Uncaught NavigationTimeout), w2\<lparr>clock := clock w2 + real NAV_TIMEOUT_MS / 1000\<rparr>)
               else
               (let w3 = w2\<lparr>clock := clock w2 + real ms / 1000\<rparr>;
                    w4 = wait_for_cloudflare (web w3 url) (clock w3) w3;
                    pg = web w4 url (clock w4);
                    title = (if pg_title pg = [] then None else Some (pg_title pg));
                    text = pg_inner pg;
                    w5 = emit BrowserClose w4;
                    w6 = (if text = [] \<or> length text < LOW_PAGE_CHARS then emit (Warn LowTextPage) w5 else w5)
                in (Inr (text, title), w6))))"

text \<open>
  Lines 223--251: a landing page goes to the PDF download; otherwise the browser runs
  inside \<^verbatim>\<open>with sync_playwright()\<close>, whose exit stops the driver whatever happened.
\<close>

definition extract_text_from_url :: "string \<Rightarrow> 'a browser_world_scheme \<Rightarrow>
    (error + string \<times> string option) \<times> 'a browser_world_scheme" where
  "extract_text_from_url url w =
     (case rewrite_to_pdf_url url of
        Some pdf_url \<Rightarrow> download_pdf_text pdf_url w
      | None \<Rightarrow> (case browse url w of (r, w1) \<Rightarrow> (r, emit PlaywrightStop w1)))"

text \<open>One round of the loop body, lines 182--183.\<close>

definition cf_step :: "'a world_scheme \<Rightarrow> 'a world_scheme" where
  "cf_step w = sleep CF_POLL (emit (Warn CloudflareDetected) w)"

text \<open>The effects that belong to the browser and its driver.\<close>

fun browser_effect :: "effect \<Rightarrow> bool" where
  "browser_effect (BrowserLaunch _) = True"
| "browser_effect (BrowserGoto _) = True"
| "browser_effect BrowserClose = True"
| "browser_effect PlaywrightStop = True"
| "browser_effect _ = False"

section \<open>Example machine\<close>

text \<open>
  A page behind a challenge that clears after 6 s, a page that never clears, and a
  site whose navigation times out.
\<close>

definition cf_page :: page where
  "cf_page = \<lparr>pg_title = ''Just a moment...'', pg_text = ''Checking your browser'', pg_inner = []\<rparr>"

definition bw0 :: browser_world where
  "bw0 = \<lparr>clock = 0, rl_file = FMissing, log = [], proxy_force = Some False,
     proxy_file = (\<lambda>_. FMissing), rand = (\<lambda>k. k), rand_used = 0,
     fs = Map.empty, cwd = ''/work'', home = ''/home/u'', user_home = (\<lambda>_. None),
     http_get = (\<lambda>u. if u = ''https://arxiv.org/pdf/2301.00001'' then Inr (200, ''%PDF-arxiv'')
                     else Inr (404, [])),
     pdf_extract = (\<lambda>b. Inr (b @ '' text of the paper, long enough to pass the check.'')),
     tmp_counter = 0, tmp_write_ok = True,
     web = (\<lambda>u t. if u = ''https://example.com/a'' \<and> t < 6 then cf_page
                 else \<lparr>pg_title = [], pg_text = ''body'', pg_inner = ''body''\<rparr>),
     goto_result = (\<lambda>u. if u = ''https://slow.example.com/'' then Inr 90000 else Inr 1000)\<rparr>"

section \<open>The challenge wait: iterations and bound\<close>

lemma clock_cf_steps: "clock ((cf_step ^^ n) w) = clock w + 2 * real n"
  by (induction n) (simp_all add: cf_step_def CF_POLL_def algebra_simps)

lemma log_cf_steps:
  "log ((cf_step ^^ n) w) = log w @ concat (replicate n [Warn CloudflareDetected, Sleep CF_POLL])"
  by (induction n) (simp_all add: cf_step_def replicate_append_same [symmetric])

lemma wait_for_cloudflare_steps:
  "\<exists>n. wait_for_cloudflare pg start w = (cf_step ^^ n) w \<and>
       2 * real n < max 2 (start + CF_TIMEOUT - clock w + 2)"
proof (induction pg start w rule: wait_for_cloudflare.induct)
  case (1 pg start w)
  show ?case
  proof (cases "clock w - start < CF_TIMEOUT \<and> is_challenge (pg (clock w))")
    case True
    have cs: "sleep CF_POLL (emit (Warn CloudflareDetected) w) = cf_step w"
      by (simp add: cf_step_def)
    obtain n where n: "wait_for_cloudflare pg start (cf_step w) = (cf_step ^^ n) (cf_step w)"
      and b: "2 * real n < max 2 (start + CF_TIMEOUT - clock (cf_step w) + 2)"
      using "1" [OF True] unfolding cs by blast
    have "wait_for_cloudflare pg start w = wait_for_cloudflare pg start (cf_step w)"
      by (subst wait_for_cloudflare.simps) (simp only: if_P [OF True] cs)
    also have "\<dots> = (cf_step ^^ Suc n) w"
      by (simp only: n funpow_Suc_right comp_def)
    finally have "wait_for_cloudflare pg start w = (cf_step ^^ Suc n) w" .
    moreover have "2 * real (Suc n) < max 2 (start + CF_TIMEOUT - clock w + 2)"
    proof (cases "n = 0")
      case True
      with \<open>clock w - start < CF_TIMEOUT \<and> is_challenge (pg (clock w))\<close> show ?thesis
        by simp
    next
      case False
      then have "1 \<le> real n" by simp
      with b show ?thesis by (simp add: cf_step_def CF_POLL_def max_def split: if_splits)
    qed
    ultimately show ?thesis by blast
  next
    case False
    then have "wait_for_cloudflare pg start w = (cf_step ^^ 0) w"
      by (subst wait_for_cloudflare.simps) (simp only: if_not_P [OF False] if_False funpow_0)
    then show ?thesis by (intro exI [of _ 0]) simp
  qed
qed

lemma wait_for_cloudflare_exit:
  "\<not> (clock (wait_for_cloudflare pg start w) - start < CF_TIMEOUT \<and>
       is_challenge (pg (clock (wait_for_cloudflare pg start w))))"
proof (induction pg start w rule: wait_for_cloudflare.induct)
  case (1 pg start w)
  show ?case
  proof (cases "clock w - start < CF_TIMEOUT \<and> is_challenge (pg (clock w))")
    case True
    then have "wait_for_cloudflare pg start w =
        wait_for_cloudflare pg start (sleep CF_POLL (emit (Warn CloudflareDetected) w))"
      by (subst wait_for_cloudflare.simps) (rule if_P)
    with "1" [OF True] show ?thesis by simp
  next
    case False
    have "wait_for_cloudflare pg start w = w"
      by (subst wait_for_cloudflare.simps) (rule if_not_P [OF False])
    with False show ?thesis by simp
  qed
qed

section \<open>Helper lemmas on the log\<close>

lemma download_no_browser:
  "filter browser_effect (log (snd (download_pdf_text u w))) = filter browser_effect (log w)"
proof -
  obtain n where w1: "snd (get_proxy w) = w\<lparr>rand_used := n\<rparr>"
    using get_proxy_world by blast
  show ?thesis
  proof (cases "get_proxy w")
    case (Pair r w1')
    with w1 have "w1' = w\<lparr>rand_used := n\<rparr>" by simp
    with Pair show ?thesis
      by (auto simp: download_pdf_text_def extract_via_tmp_def Let_def split: sum.splits if_splits)
  qed
qed

lemma launch_browser_advances [advances_intros]: "advances w (snd (launch_browser w))"
proof (cases "get_proxy_url w")
  case (Pair r w1)
  then have "advances w w1"
    using get_proxy_url_advances [of w] by simp
  with Pair show ?thesis
    by (cases r) (simp_all add: launch_browser_def advances_emit)
qed

lemma wait_for_cloudflare_advances [advances_intros]: "advances w (wait_for_cloudflare pg start w)"
proof -
  obtain n where "wait_for_cloudflare pg start w = (cf_step ^^ n) w"
    using wait_for_cloudflare_steps by blast
  moreover have "advances w ((cf_step ^^ n) w)" for n
    by (induction n) (simp_all add: cf_step_def CF_POLL_def advances_sleep advances_emit)
  ultimately show ?thesis by simp
qed

lemma browse_advances [advances_intros]: "advances w (snd (browse url w))"
proof (cases "launch_browser w")
  case (Pair r w1)
  have a1: "advances w w1"
    using launch_browser_advances [of w] Pair by simp
  show ?thesis
  proof (cases r)
    case (Inl e)
    with Pair a1 show ?thesis by (simp add: browse_def)
  next
    case (Inr u)
    with Pair have lb: "launch_browser w = (Inr (), w1)" by simp
    let ?w2 = "emit (BrowserGoto url) w1"
    have a2: "advances w ?w2" using a1 by (rule advances_emit)
    show ?thesis
    proof (cases "goto_result ?w2 url")
      case (Inl e)
      with lb a2 show ?thesis by (simp add: browse_def)
    next
      case (Inr ms)
      let ?w3 = "?w2\<lparr>clock := clock ?w2 + real ms / 1000\<rparr>"
      have a3: "advances w ?w3" using a2 by (rule advances_clock) simp
      have "advances w (wait_for_cloudflare (web ?w3 url) (clock ?w3) ?w3)"
        using a3 wait_for_cloudflare_advances by (rule advances_trans)
      moreover have "advances w (?w2\<lparr>clock := clock ?w2 + real NAV_TIMEOUT_MS / 1000\<rparr>)"
        using a2 by (rule advances_clock) simp
      ultimately show ?thesis
        using lb Inr by (simp add: browse_def Let_def advances_emit)
    qed
  qed
qed

lemma extract_text_from_url_advances [advances_intros]:
  "advances w (snd (extract_text_from_url url w))"
  using browse_advances [of w url] download_advances [of w]
  by (auto simp: extract_text_from_url_def advances_emit split: option.splits prod.splits)

lemma wait_for_cloudflare_at_most_15:
  assumes "clock w = start"
  shows "\<exists>n\<le>15. wait_for_cloudflare pg start w = (cf_step ^^ n) w"
proof -
  obtain n where n: "wait_for_cloudflare pg start w = (cf_step ^^ n) w"
    and b: "2 * real n < max 2 (start + CF_TIMEOUT - clock w + 2)"
    using wait_for_cloudflare_steps by blast
  from b assms have "n \<le> 15" by (simp add: CF_TIMEOUT_def)
  with n show ?thesis by blast
qed

lemma more_cf_steps: "world.more ((cf_step ^^ n) w) = world.more w"
  by (induction n) (simp_all add: cf_step_def)

lemma web_world_more: "world.more v = world.more w \<Longrightarrow> web v = web w"
  by (cases v, cases w) (simp add: world.defs net_world.defs fetch_world.defs)

lemma web_emit [simp]: "web (emit e w) = web w"
  by (simp add: emit_def)

lemma launch_browser_web: "launch_browser w = (r, w1) \<Longrightarrow> web w1 = web w"
  using get_proxy_url_world [of w]
  by (auto simp: launch_browser_def split: prod.splits sum.splits)

text \<open>
  C22. The challenge wait started at the current time polls at most 15 times: it returns
  after \<open>n \<le> 15\<close> rounds of notice and 2 s sleep, and on return either 30 s have
  passed or the page no longer shows a challenge.
\<close>

theorem wait_for_cloudflare_bounded:
  assumes "clock w = start"
  shows "\<exists>n\<le>15. clock (wait_for_cloudflare pg start w) = clock w + 2 * real n \<and>
           log (wait_for_cloudflare pg start w) =
             log w @ concat (replicate n [Warn CloudflareDetected, Sleep CF_POLL]) \<and>
           (CF_TIMEOUT \<le> clock (wait_for_cloudflare pg start w) - start \<or>
            \<not> is_challenge (pg (clock (wait_for_cloudflare pg start w))))"
proof -
  obtain n where "n \<le> 15" and n: "wait_for_cloudflare pg start w = (cf_step ^^ n) w"
    using wait_for_cloudflare_at_most_15 [OF assms] by blast
  moreover have "CF_TIMEOUT \<le> clock (wait_for_cloudflare pg start w) - start \<or>
            \<not> is_challenge (pg (clock (wait_for_cloudflare pg start w)))"
    using wait_for_cloudflare_exit [of pg start w] by linarith
  ultimately show ?thesis
    using n by (auto simp: clock_cf_steps log_cf_steps)
qed

lemma wait_for_cloudflare_bounded_witness:
  "clock (\<lparr>clock = 0, rl_file = FMissing, log = []\<rparr> :: world) = 0 \<and>
   (\<exists>n\<le>15. clock (wait_for_cloudflare (\<lambda>_. cf_page) 0 \<lparr>clock = 0, rl_file = FMissing, log = []\<rparr>) =
              0 + 2 * real n \<and>
            log (wait_for_cloudflare (\<lambda>_. cf_page) 0 \<lparr>clock = 0, rl_file = FMissing, log = []\<rparr>) =
              [] @ concat (replicate n [Warn CloudflareDetected, Sleep CF_POLL]) \<and>
            (CF_TIMEOUT \<le> clock (wait_for_cloudflare (\<lambda>_. cf_page) 0 \<lparr>clock = 0, rl_file = FMissing, log = []\<rparr>) - 0 \<or>
             \<not> is_challenge cf_page))"
  using wait_for_cloudflare_bounded [of "\<lparr>clock = 0, rl_file = FMissing, log = []\<rparr> :: world" 0 "\<lambda>_. cf_page"]
  by simp

text \<open>
  C20. After a successful navigation, the text and the title returned are those of the
  page as it is at one moment \<open>t\<close>. That moment lies at most 30 s after the navigation
  ended, and at \<open>t\<close> either the page shows no challenge or the 30 s have passed. An
  empty title becomes \<^verbatim>\<open>None\<close>.
\<close>

theorem browse_reads_settled_page:
  assumes lb: "launch_browser w = (Inr u, w1)"
    and nav: "goto_result w1 url = Inr ms" and ok: "ms \<le> NAV_TIMEOUT_MS"
  shows "\<exists>t. fst (browse url w) =
             Inr (pg_inner (web w url t),
                  if pg_title (web w url t) = [] then None else Some (pg_title (web w url t))) \<and>
           clock w1 + real ms / 1000 \<le> t \<and> t \<le> clock w1 + real ms / 1000 + CF_TIMEOUT \<and>
           (CF_TIMEOUT \<le> t - (clock w1 + real ms / 1000) \<or> \<not> is_challenge (web w url t))"
proof -
  let ?w2 = "emit (BrowserGoto url) w1"
  let ?w3 = "?w2\<lparr>clock := clock ?w2 + real ms / 1000\<rparr>"
  let ?w4 = "wait_for_cloudflare (web ?w3 url) (clock ?w3) ?w3"
  have web3: "web ?w3 = web w" using launch_browser_web [OF lb] by simp
  obtain n where "n \<le> 15" and n: "?w4 = (cf_step ^^ n) ?w3"
    using wait_for_cloudflare_at_most_15 [of ?w3 "clock ?w3" "web ?w3 url"] by blast
  then have t: "clock ?w4 = clock w1 + real ms / 1000 + 2 * real n"
    by (simp add: clock_cf_steps)
  have web4: "web ?w4 = web w"
    using n web3 web_world_more [OF more_cf_steps [of n ?w3]] by simp
  have ex: "CF_TIMEOUT \<le> clock ?w4 - clock ?w3 \<or> \<not> is_challenge (web w url (clock ?w4))"
    using wait_for_cloudflare_exit [of "web ?w3 url" "clock ?w3" ?w3] web3 by auto
  have "goto_result ?w2 url = Inr ms" using nav by (simp add: emit_def)
  then have "fst (browse url w) =
      Inr (pg_inner (web w url (clock ?w4)),
           if pg_title (web w url (clock ?w4)) = [] then None else Some (pg_title (web w url (clock ?w4))))"
    using lb ok web4 by (simp add: browse_def Let_def)
  moreover have "clock w1 + real ms / 1000 \<le> clock ?w4" using t by simp
  moreover have "clock ?w4 \<le> clock w1 + real ms / 1000 + CF_TIMEOUT"
    using t \<open>n \<le> 15\<close> by (simp add: CF_TIMEOUT_def)
  ultimately show ?thesis using ex by auto
qed

lemma browse_reads_settled_page_witness:
  "launch_browser bw0 = (Inr (), emit (BrowserLaunch None) bw0) \<and>
   goto_result (emit (BrowserLaunch None) bw0) ''https://example.com/a'' = Inr 1000 \<and>
   (1000::nat) \<le> NAV_TIMEOUT_MS \<and>
   (\<exists>t. fst (browse ''https://example.com/a'' bw0) =
          Inr (pg_inner (web bw0 ''https://example.com/a'' t),
               if pg_title (web bw0 ''https://example.com/a'' t) = [] then None
               else Some (pg_title (web bw0 ''https://example.com/a'' t))) \<and>
        clock (emit (BrowserLaunch None) bw0) + real (1000::nat) / 1000 \<le> t \<and>
        t \<le> clock (emit (BrowserLaunch None) bw0) + real (1000::nat) / 1000 + CF_TIMEOUT \<and>
        (CF_TIMEOUT \<le> t - (clock (emit (BrowserLaunch None) bw0) + real (1000::nat) / 1000) \<or>
         \<not> is_challenge (web bw0 ''https://example.com/a'' t)))"
proof -
  have lb: "launch_browser bw0 = (Inr (), emit (BrowserLaunch None) bw0)"
    by (simp add: launch_browser_def get_proxy_url_def proxy_pool_def bw0_def)
  have nav: "goto_result (emit (BrowserLaunch None) bw0) ''https://example.com/a'' = Inr 1000"
    by (simp add: bw0_def emit_def)
  have ok: "(1000::nat) \<le> NAV_TIMEOUT_MS" by (simp add: NAV_TIMEOUT_MS_def)
  show ?thesis using browse_reads_settled_page [OF lb nav ok] lb nav ok by blast
qed

section \<open>Extraction: which path runs, and the driver is always stopped\<close>

text \<open>
  C23. An arXiv landing page is fetched as a PDF: the extraction is exactly the PDF
  download, and it performs no browser effect.
\<close>

theorem extract_landing_page_downloads:
  assumes "rewrite_to_pdf_url url = Some pdf_url"
  shows "extract_text_from_url url w = download_pdf_text pdf_url w \<and>
         filter browser_effect (log (snd (extract_text_from_url url w))) = filter browser_effect (log w)"
  using assms by (simp add: extract_text_from_url_def download_no_browser)

lemma extract_landing_page_downloads_witness:
  "extract_text_from_url ''https://arxiv.org/abs/2301.00001'' bw0 =
     download_pdf_text ''https://arxiv.org/pdf/2301.00001'' bw0 \<and>
   filter browser_effect (log (snd (extract_text_from_url ''https://arxiv.org/abs/2301.00001'' bw0))) =
     filter browser_effect (log bw0)"
  by (rule extract_landing_page_downloads)
     (simp add: rewrite_to_pdf_url_def arxiv_match_def match_prefix_def PDF_PREFIX_def NEWLINE_def
             query_dollar_def at_dollar_def)

text \<open>
  C21. Any other URL goes through the browser, and whatever happens there (proxy
  failure, navigation timeout, success) the run's effects end with the driver stopped.
\<close>

theorem extract_browser_released:
  assumes "rewrite_to_pdf_url url = None"
  shows "\<exists>new. log (snd (extract_text_from_url url w)) = log w @ new \<and> new \<noteq> [] \<and>
           last new = PlaywrightStop"
proof -
  have "prefix (log w) (log (snd (browse url w)))"
    using browse_advances [of w url] by (simp add: advances_def)
  then obtain new where "log (snd (browse url w)) = log w @ new"
    by (auto simp: prefix_def)
  then show ?thesis
    using assms by (auto simp: extract_text_from_url_def split: prod.splits)
qed

lemma extract_browser_released_witness:
  "\<exists>new. log (snd (extract_text_from_url ''https://slow.example.com/'' bw0)) = log bw0 @ new \<and>
     new \<noteq> [] \<and> last new = PlaywrightStop"
  by (rule extract_browser_released)
     (simp add: rewrite_to_pdf_url_def arxiv_match_def match_prefix_def PDF_PREFIX_def NEWLINE_def
             query_dollar_def at_dollar_def)

end
