(* ===== verification/Summarize.thy ===== *)
theory Summarize
  imports Fetch
begin

text \<open>
  The call to the summarisation service (\<^verbatim>\<open>summarize_content\<close>,
  \<^verbatim>\<open>src/summarize.py\<close> lines 279--315). The proxy is drawn by \<^verbatim>\<open>_get_proxy\<close>, the
  text is posted, and the response is classified: status 429 and any other status of
  400--599 end the run, a body that is not JSON raises, a parsed body that is not an
  object raises at \<^verbatim>\<open>data.get\<close>, and a falsy \<^verbatim>\<open>summary\<close> ends the run. The
  service is an input: what it answers to a posted text, or the exception
  \<^verbatim>\<open>requests\<close> raises. The debug output (lines 291--296, 311--312) only prints, and
  its \<^verbatim>\<open>except Exception\<close> catches whatever \<^verbatim>\<open>resp.json()\<close> raises there, so it
  has no effect on the outcome and is not modelled.
\<close>

section \<open>Responses\<close>

text \<open>
  A response of \<^verbatim>\<open>requests\<close>: its status, what \<^verbatim>\<open>resp.json()\<close> returns (\<open>None\<close> when
  the body is not JSON, where it raises), and \<^verbatim>\<open>resp.text\<close>.
\<close>

record api_resp =
  resp_status :: nat
  resp_json :: "json option"
  resp_text :: string

definition GISTIFY_API_URL :: string where
  "GISTIFY_API_URL = ''https://tourmaline-gaufre-130bc5.netlify.app/.netlify/functions/summarize''"

section \<open>The call\<close>

text \<open>
  Lines 279--315. \<open>post\<close> is the service seen through \<^verbatim>\<open>requests.post\<close> at
  \<^verbatim>\<open>GISTIFY_API_URL\<close>; the posted text and the proxy are logged. The summary is
  returned as the JSON value the service sent: the code checks only its truthiness.
\<close>

definition summarize_content ::
  "(string \<Rightarrow> pyexc + api_resp) \<Rightarrow> string \<Rightarrow> 'a net_world_scheme \<Rightarrow> (error + json) \<times> 'a net_world_scheme" where
  "summarize_content post content w =
     (case get_proxy w of
        (Inl e, w1) \<Rightarrow> (Inl (Uncaught e), w1)
      | (Inr px, w1) \<Rightarrow>
          (let w2 = emit (HttpPost content px) w1 in
           case post content of
             Inl e \<Rightarrow> (Inl (Uncaught e), w2)
           | Inr resp \<Rightarrow>
               if resp_status resp = 429 then (Inl ApiRateLimited, w2)
               else if \<not> http_ok (resp_status resp) then (Inl (ApiError (resp_status resp)), w2)
               else (case resp_json resp of
                       None \<Rightarrow> (Inl (Uncaught JSONDecodeError), w2)
                     | Some data \<Rightarrow>
                         (case py_get data ''summary'' (JStr []) of
                            Inl e \<Rightarrow> (Inl (Uncaught e), w2)
                          | Inr s \<Rightarrow> if py_truthy s then (Inr s, w2) else (Inl NoSummary, w2)))))"

section \<open>Example service\<close>

text \<open>
  A service that rate-limits one text, answers another with a non-string summary, and
  summarises everything else; the world of \<^verbatim>\<open>Proxy\<close> with proxies forced off.
\<close>

definition api0 :: "string \<Rightarrow> pyexc + api_resp" where
  "api0 t =
     (if t = ''busy'' then Inr \<lparr>resp_status = 429, resp_json = None, resp_text = ''Too Many Requests''\<rparr>
      else if t = ''odd'' then Inr \<lparr>resp_status = 200, resp_json = Some (JObj [(''summary'', JNum 1)]),
                                   resp_text = ''summary: 1''\<rparr>
      else Inr \<lparr>resp_status = 200, resp_json = Some (JObj [(''summary'', JStr ''A short gist.'')]),
                resp_text = ''summary: A short gist.''\<rparr>)"

section \<open>Properties\<close>

lemma http_ok_429 [simp]: "\<not> http_ok 429"
  by (simp add: http_ok_def)

lemma summarize_advances [advances_intros]: "advances w (snd (summarize_content post content w))"
proof (cases "get_proxy w")
  case (Pair r w1)
  have "advances w w1" using get_proxy_advances [of w] Pair by simp
  with Pair show ?thesis
    by (auto simp: summarize_content_def Let_def advances_emit
             split: sum.splits option.splits if_splits)
qed

text \<open>
  A 429 answer ends the run with the rate-limit error whatever its body, after
  exactly one logged POST and no other effect.
\<close>

theorem summarize_rate_limited:
  assumes "get_proxy w = (Inr px, w1)" and "post content = Inr r" and "resp_status r = 429"
  shows "summarize_content post content w = (Inl ApiRateLimited, emit (HttpPost content px) w1)"
  using assms by (simp add: summarize_content_def)

lemma summarize_rate_limited_witness:
  "summarize_content api0 ''busy'' nw_off = (Inl ApiRateLimited, emit (HttpPost ''busy'' None) nw_off)"
proof -
  have "get_proxy nw_off = (Inr None, nw_off)"
    by (simp add: get_proxy_def get_proxy_url_def nw_off_def nw_pool_def proxy_pool_def)
  then show ?thesis
    by (rule summarize_rate_limited
          [where r = "\<lparr>resp_status = 429, resp_json = None, resp_text = ''Too Many Requests''\<rparr>"])
       (simp_all add: api0_def)
qed

text \<open>
  C33. The call succeeds exactly when the proxy is drawn, the POST returns a status
  outside 400--599, the body parses as a JSON object, and its \<^verbatim>\<open>summary\<close> value is
  truthy; that value is returned as it is, a string or not.
\<close>

theorem summarize_success_iff:
  "fst (summarize_content post content w) = Inr s \<longleftrightarrow>
     (\<exists>px w1 r kvs. get_proxy w = (Inr px, w1) \<and> post content = Inr r \<and> http_ok (resp_status r) \<and>
        resp_json r = Some (JObj kvs) \<and> obj_get kvs ''summary'' = Some s \<and> py_truthy s)"
  by (auto simp: summarize_content_def py_get_def Let_def
           split: prod.splits sum.splits if_splits option.splits json.splits)

lemma summarize_success_iff_witness:
  "fst (summarize_content api0 ''odd'' nw_off) = Inr (JNum 1)"
proof -
  have "get_proxy nw_off = (Inr None, nw_off)"
    by (simp add: get_proxy_def get_proxy_url_def nw_off_def nw_pool_def proxy_pool_def)
  then show ?thesis
    by (subst summarize_success_iff) (auto simp: api0_def http_ok_def)
qed

end
