(* ===== verification/Markdown.thy ===== *)
theory Markdown
  imports Prelude
begin

text \<open>
  The output side of \<^verbatim>\<open>src/summarize.py\<close>: \<^verbatim>\<open>to_markdown\<close> (lines 322--340),
  which lays out the summary as a Markdown document, and \<^verbatim>\<open>slugify\<close> (lines
  347--352), which turns the page title into the default file name. Regular
  expressions are written out as recursive functions over the byte string; the
  lower-casing is the ASCII one of the prelude.
\<close>

section \<open>Slugs\<close>

text \<open>The class \<^verbatim>\<open>[a-z0-9]\<close> of line 350.\<close>

definition slug_char :: "char \<Rightarrow> bool" where
  "slug_char c \<longleftrightarrow>
     (of_char CHR ''a'' \<le> (of_char c :: nat) \<and> (of_char c :: nat) \<le> of_char CHR ''z'') \<or>
     (of_char CHR ''0'' \<le> (of_char c :: nat) \<and> (of_char c :: nat) \<le> of_char CHR ''9'')"

definition DASH :: char where
  "DASH = CHR ''-''"

text \<open>
  Line 350, \<^verbatim>\<open>re.sub(r"[^a-z0-9]+", "-", slug)\<close>: every maximal run of other
  characters becomes one dash.
\<close>

function (sequential) sub_runs :: "string \<Rightarrow> string" where
  "sub_runs [] = []"
| "sub_runs (c # cs) =
     (if slug_char c then c # sub_runs cs
      else DASH # sub_runs (dropWhile (\<lambda>x. \<not> slug_char x) cs))"
  by pat_completeness auto
termination
  by (relation "measure length") (auto simp: le_imp_less_Suc length_dropWhile_le)

text \<open>Line 351, \<^verbatim>\<open>slug.strip("-")\<close>.\<close>

definition strip_dash :: "string \<Rightarrow> string" where
  "strip_dash s = rev (dropWhile (\<lambda>c. c = DASH) (rev (dropWhile (\<lambda>c. c = DASH) s)))"

definition SLUG_MAX :: nat where
  "SLUG_MAX = 80"

text \<open>
  Lines 347--352: lower-case, replace the runs, strip the dashes, then cut to 80
  characters, or \<^verbatim>\<open>"summary"\<close> when nothing is left.
\<close>

definition slugify :: "string \<Rightarrow> string" where
  "slugify text =
     (let slug = strip_dash (sub_runs (py_lower text))
      in if slug = [] then ''summary'' else take SLUG_MAX slug)"

section \<open>The document\<close>

text \<open>\<^verbatim>\<open>sep.join(xs)\<close>.\<close>

fun py_join :: "string \<Rightarrow> string list \<Rightarrow> string" where
  "py_join sep [] = []"
| "py_join sep [x] = x"
| "py_join sep (x # y # xs) = x @ sep @ py_join sep (y # xs)"

text \<open>\<^verbatim>\<open>summary.strip()\<close> on the value the service returned: only a string has it.\<close>

definition py_str_strip :: "json \<Rightarrow> pyexc + string" where
  "py_str_strip v = (case v of JStr s \<Rightarrow> Inr (py_strip s) | _ \<Rightarrow> Inl AttributeError)"

text \<open>Line 326, \<^verbatim>\<open>page_title or "Untitled Article"\<close>.\<close>

definition title_or_untitled :: "string option \<Rightarrow> string" where
  "title_or_untitled t = (case t of Some s \<Rightarrow> if s = [] then ''Untitled Article'' else s
                                   | None \<Rightarrow> ''Untitled Article'')"

text \<open>
  Lines 322--340. The date \<^verbatim>\<open>datetime.now().strftime('%Y-%m-%d')\<close> is an argument.
\<close>

definition to_markdown :: "json \<Rightarrow> string \<Rightarrow> string option \<Rightarrow> string \<Rightarrow> pyexc + string" where
  "to_markdown summary url page_title day =
     bindE (py_str_strip summary) (\<lambda>s.
       Inr (py_join [CHR ''\<newline>'']
         [''# '' @ title_or_untitled page_title, [], ''**Source:** '' @ url, [], ''---'', [],
          ''## Summary'', [], s, [], ''---'', ''*Generated by Gistify on '' @ day @ ''*'']))"

section \<open>Specification\<close>

text \<open>A slug: allowed characters, no dash at either end, no two dashes in a row.\<close>

definition is_slug :: "string \<Rightarrow> bool" where
  "is_slug s \<longleftrightarrow> s \<noteq> [] \<and> (\<forall>c\<in>set s. slug_char c \<or> c = DASH) \<and>
     hd s \<noteq> DASH \<and> last s \<noteq> DASH \<and> \<not> sublist [DASH, DASH] s"

section \<open>Lemmas\<close>

lemma slug_char_DASH [simp]: "\<not> slug_char DASH"
  by (simp add: slug_char_def DASH_def)

lemma sub_runs_chars: "c \<in> set (sub_runs s) \<Longrightarrow> slug_char c \<or> c = DASH"
  by (induction s rule: sub_runs.induct) (auto split: if_splits)

lemma sub_runs_slug_Cons:
  "xs \<noteq> [] \<Longrightarrow> slug_char (hd xs) \<Longrightarrow> sub_runs xs = hd xs # sub_runs (tl xs)"
  by (cases xs) simp_all

lemma sub_runs_no_double_dash: "\<not> sublist [DASH, DASH] (sub_runs s)"
proof (induction s rule: sub_runs.induct)
  case 1
  then show ?case by simp
next
  case (2 c cs)
  let ?d = "dropWhile (\<lambda>x. \<not> slug_char x) cs"
  show ?case
  proof (cases "slug_char c")
    case True
    with "2.IH"(1) show ?thesis
      by (auto simp: sublist_Cons_right)
  next
    case False
    have "\<not> prefix [DASH, DASH] (DASH # sub_runs ?d)"
    proof (cases "?d = []")
      case False
      then have "slug_char (hd ?d)" using hd_dropWhile [OF False] by simp
      with False show ?thesis
        by (auto simp: sub_runs_slug_Cons [OF False])
    next
      case True
      show ?thesis unfolding True by simp
    qed
    with False "2.IH"(2) show ?thesis
      by (auto simp: sublist_Cons_right)
  qed
qed

lemma py_lower_slug_id: "set s \<subseteq> {c. slug_char c \<or> c = DASH} \<Longrightarrow> py_lower s = s"
  by (induction s) (auto simp: py_lower_def lower_char_def slug_char_def DASH_def Let_def)

lemma sub_runs_id:
  "set s \<subseteq> {c. slug_char c \<or> c = DASH} \<Longrightarrow> \<not> sublist [DASH, DASH] s \<Longrightarrow> sub_runs s = s"
proof (induction s rule: sub_runs.induct)
  case 1
  then show ?case by simp
next
  case (2 c cs)
  show ?case
  proof (cases "slug_char c")
    case True
    with 2 show ?thesis by (simp add: sublist_Cons_right)
  next
    case False
    with "2.prems" have c: "c = DASH" and nd: "\<not> sublist [DASH, DASH] cs"
      and cs: "set cs \<subseteq> {c. slug_char c \<or> c = DASH}"
      by (auto simp: sublist_Cons_right)
    have "dropWhile (\<lambda>x. \<not> slug_char x) cs = cs"
    proof (cases cs)
      case (Cons d ds)
      with "2.prems" c have "d \<noteq> DASH" by (auto simp: sublist_Cons_right)
      with Cons cs show ?thesis by simp
    qed simp
    with False "2.IH"(2) c nd cs show ?thesis by simp
  qed
qed

lemma sub_runs_append:
  "xs = [] \<or> slug_char (last xs) \<Longrightarrow> sub_runs (xs @ ys) = sub_runs xs @ sub_runs ys"
proof (induction xs rule: sub_runs.induct)
  case 1
  then show ?case by simp
next
  case (2 c cs)
  show ?case
  proof (cases "slug_char c")
    case True
    with 2 show ?thesis by (cases "cs = []") simp_all
  next
    case False
    with "2.prems" have ne: "cs \<noteq> []" and l: "slug_char (last cs)"
      by (auto split: if_splits)
    let ?P = "\<lambda>x. \<not> slug_char x"
    have x: "last cs \<in> set cs" "\<not> ?P (last cs)" using ne l by auto
    then have d: "dropWhile ?P (cs @ ys) = dropWhile ?P cs @ ys"
      by (rule dropWhile_append1)
    have ex: "\<exists>x\<in>set cs. \<not> ?P x" using x by blast
    have "dropWhile ?P cs \<noteq> []" using ex by (simp add: dropWhile_eq_Nil_conv)
    then have "last (dropWhile ?P cs) = last cs"
      by (metis last_append takeWhile_dropWhile_id)
    with False "2.IH"(2) l d show ?thesis by simp
  qed
qed

lemma strip_dash_sublist: "sublist (strip_dash s) s"
  unfolding strip_dash_def by (rule dropWhile_rev_sublist)

lemma strip_dash_hd: "strip_dash s \<noteq> [] \<Longrightarrow> hd (strip_dash s) \<noteq> DASH"
  unfolding strip_dash_def by (drule dropWhile_rev_ends(1)) simp

lemma strip_dash_id: "s = [] \<or> (hd s \<noteq> DASH \<and> last s \<noteq> DASH) \<Longrightarrow> strip_dash s = s"
  unfolding strip_dash_def by (rule dropWhile_rev_id) simp

lemma to_markdown_shape:
  "to_markdown (JStr s) url page_title day =
     Inr ((''# '' @ title_or_untitled page_title @ [CHR ''\<newline>'']) @
          ([CHR ''\<newline>''] @ (''**Source:** '' @ url) @
           (''\<newline>\<newline>---\<newline>\<newline>## Summary\<newline>\<newline>'' @ py_strip s @
            ''\<newline>\<newline>---\<newline>*Generated by Gistify on '' @ day @ ''*'')))"
  by (simp add: to_markdown_def py_str_strip_def)

text \<open>
  What a rendered document holds: the title line first, the source line, and the
  stripped summary; only a string summary renders.
\<close>

lemma to_markdown_Inr:
  "to_markdown summary url page_title day = Inr md \<Longrightarrow>
     \<exists>s. summary = JStr s \<and> prefix (''# '' @ title_or_untitled page_title @ [CHR ''\<newline>'']) md \<and>
       sublist (''**Source:** '' @ url) md \<and> sublist (py_strip s) md"
proof -
  assume a: "to_markdown summary url page_title day = Inr md"
  then obtain s where s: "summary = JStr s"
    by (cases summary) (simp_all add: to_markdown_def py_str_strip_def)
  with a to_markdown_shape [of s url page_title day] have md: "md =
     (''# '' @ title_or_untitled page_title @ [CHR ''\<newline>'']) @
          ([CHR ''\<newline>''] @ (''**Source:** '' @ url) @
           (''\<newline>\<newline>---\<newline>\<newline>## Summary\<newline>\<newline>'' @ py_strip s @
            ''\<newline>\<newline>---\<newline>*Generated by Gistify on '' @ day @ ''*''))"
    by simp
  have "prefix (''# '' @ title_or_untitled page_title @ [CHR ''\<newline>'']) md"
    unfolding md by (rule prefixI) (rule refl)
  moreover have "sublist (''**Source:** '' @ url) md"
    unfolding md sublist_def
    by (rule exI [of _ "''# '' @ title_or_untitled page_title @ [CHR ''\<newline>'', CHR ''\<newline>'']"]) simp
  moreover have "sublist (py_strip s) md"
    unfolding md sublist_def
    by (rule exI [of _ "''# '' @ title_or_untitled page_title @ [CHR ''\<newline>'', CHR ''\<newline>''] @
          (''**Source:** '' @ url) @ ''\<newline>\<newline>---\<newline>\<newline>## Summary\<newline>\<newline>''"]) simp
  ultimately show ?thesis using s by blast
qed

lemma to_markdown_str_Inr: "\<exists>md. to_markdown (JStr s) url page_title day = Inr md"
  by (simp add: to_markdown_def py_str_strip_def)

lemma to_markdown_non_str: "\<forall>s. summary \<noteq> JStr s \<Longrightarrow> to_markdown summary url page_title day = Inl AttributeError"
  by (cases summary) (simp_all add: to_markdown_def py_str_strip_def)

lemma slugify_chars: "set (slugify t) \<subseteq> {c. slug_char c \<or> c = DASH}"
proof -
  have "set (strip_dash (sub_runs (py_lower t))) \<subseteq> set (sub_runs (py_lower t))"
    using strip_dash_sublist set_mono_sublist by blast
  then have "set (strip_dash (sub_runs (py_lower t))) \<subseteq> {c. slug_char c \<or> c = DASH}"
    using sub_runs_chars by blast
  then show ?thesis
    by (auto simp: slugify_def Let_def slug_char_def dest: in_set_takeD)
qed

lemma slug_set_last: "is_slug x \<Longrightarrow> slug_char (last x)"
  unfolding is_slug_def by (metis last_in_set)

section \<open>Properties of slugify\<close>

text \<open>
  C39. The default file name is safe: a non-empty string of at most 80 characters
  from \<^verbatim>\<open>[a-z0-9-]\<close> that does not start with a dash and has no two dashes in a row.
\<close>

theorem slugify_safe:
  "slugify t \<noteq> [] \<and> length (slugify t) \<le> SLUG_MAX \<and> set (slugify t) \<subseteq> {c. slug_char c \<or> c = DASH} \<and>
   hd (slugify t) \<noteq> DASH \<and> \<not> sublist [DASH, DASH] (slugify t)"
proof (cases "strip_dash (sub_runs (py_lower t)) = []")
  case True
  then show ?thesis
    by (simp add: slugify_def SLUG_MAX_def slug_char_def DASH_def sublist_Cons_right)
next
  case False
  let ?r = "strip_dash (sub_runs (py_lower t))"
  have sl: "slugify t = take SLUG_MAX ?r" using False by (simp add: slugify_def)
  have sub: "sublist (take SLUG_MAX ?r) (sub_runs (py_lower t))"
    by (meson prefix_imp_sublist strip_dash_sublist sublist_order.order.trans take_is_prefix)
  have "set (take SLUG_MAX ?r) \<subseteq> {c. slug_char c \<or> c = DASH}"
    using set_mono_sublist [OF sub] sub_runs_chars by blast
  moreover have "\<not> sublist [DASH, DASH] (take SLUG_MAX ?r)"
    using sub sub_runs_no_double_dash sublist_order.order.trans by blast
  moreover have "hd (take SLUG_MAX ?r) \<noteq> DASH"
    using False strip_dash_hd by (simp add: SLUG_MAX_def)
  ultimately show ?thesis
    using False by (simp add: sl SLUG_MAX_def)
qed

text \<open>
  A string that already is a slug of at most 80 characters is its own slug.
\<close>

theorem slugify_fixpoint: "is_slug s \<Longrightarrow> length s \<le> SLUG_MAX \<Longrightarrow> slugify s = s"
proof -
  assume s: "is_slug s" and l: "length s \<le> SLUG_MAX"
  then have cs: "set s \<subseteq> {c. slug_char c \<or> c = DASH}" by (auto simp: is_slug_def)
  with s have "sub_runs (py_lower s) = s"
    by (simp add: py_lower_slug_id sub_runs_id is_slug_def)
  moreover have "strip_dash s = s" using s by (simp add: strip_dash_id is_slug_def)
  ultimately show ?thesis using s l by (simp add: slugify_def is_slug_def)
qed

lemma slugify_fixpoint_witness: "slugify ''gistify-cli'' = ''gistify-cli''"
  by (rule slugify_fixpoint)
     (simp_all add: is_slug_def slug_char_def DASH_def SLUG_MAX_def sublist_Cons_right)

text \<open>
  C40. Cutting to 80 characters after stripping can leave a trailing dash: a slug of
  79 characters followed by a space and a letter gives the 79 characters and a dash,
  so the file name ends in \<^verbatim>\<open>-.md\<close> and slugify is not idempotent.
\<close>

theorem slugify_cut_dash:
  assumes x: "is_slug x" and l: "length x = SLUG_MAX - 1" and c: "slug_char c"
  shows "slugify (x @ [CHR '' '', c]) = x @ [DASH] \<and> slugify (slugify (x @ [CHR '' '', c])) = x"
proof -
  have cs: "set x \<subseteq> {c. slug_char c \<or> c = DASH}" and ne: "x \<noteq> []"
    and h: "hd x \<noteq> DASH" and nd: "\<not> sublist [DASH, DASH] x"
    using x by (auto simp: is_slug_def)
  have lx: "slug_char (last x)" using x by (rule slug_set_last)
  have sp: "\<not> slug_char CHR '' ''" by (simp add: slug_char_def)
  have cd: "c \<noteq> DASH" using c by auto
  have px: "py_lower x = x" using cs by (rule py_lower_slug_id)
  have "py_lower [c] = [c]" using c by (simp add: py_lower_slug_id)
  then have "py_lower [CHR '' '', c] = [CHR '' '', c]"
    by (simp add: py_lower_def lower_char_def)
  then have "py_lower (x @ [CHR '' '', c]) = x @ [CHR '' '', c]"
    by (simp add: py_lower_append px)
  moreover have "sub_runs (x @ [CHR '' '', c]) = x @ [DASH, c]"
    using lx cs nd sp c by (simp add: sub_runs_append sub_runs_id)
  moreover have "strip_dash (x @ [DASH, c]) = x @ [DASH, c]"
    using ne h cd by (simp add: strip_dash_id)
  ultimately have 1: "slugify (x @ [CHR '' '', c]) = x @ [DASH]"
    using l by (simp add: slugify_def SLUG_MAX_def)
  have "py_lower (x @ [DASH]) = x @ [DASH]"
    using cs by (simp add: py_lower_slug_id)
  moreover have "sub_runs (x @ [DASH]) = x @ [DASH]"
    using lx cs nd by (simp add: sub_runs_append sub_runs_id)
  moreover have "strip_dash (x @ [DASH]) = x"
  proof -
    have "dropWhile (\<lambda>c. c = DASH) (rev x) = rev x"
      using ne lx by (cases "rev x") (auto simp: hd_rev [symmetric])
    then show ?thesis using ne h by (cases x) (simp_all add: strip_dash_def)
  qed
  ultimately have "slugify (x @ [DASH]) = x"
    using l ne by (simp add: slugify_def SLUG_MAX_def)
  with 1 show ?thesis by simp
qed

lemma slugify_cut_dash_witness:
  "slugify (replicate 79 CHR ''a'' @ [CHR '' '', CHR ''b'']) = replicate 79 CHR ''a'' @ [DASH] \<and>
   slugify (slugify (replicate 79 CHR ''a'' @ [CHR '' '', CHR ''b''])) = replicate 79 CHR ''a''"
proof (rule slugify_cut_dash)
  show "is_slug (replicate 79 CHR ''a'')"
    unfolding is_slug_def
    by (auto simp: slug_char_def DASH_def dest: set_mono_sublist)
qed (simp_all add: SLUG_MAX_def slug_char_def)

end
