(* ===== verification/Output.thy ===== *)
theory Output
  imports Fetch
begin

text \<open>
  Writing the result (\<^verbatim>\<open>src/summarize.py\<close> lines 419--425). The code creates the
  output directory with \<^verbatim>\<open>Path.mkdir(exist_ok=True)\<close>, creates the parents of the
  output file with \<^verbatim>\<open>Path.mkdir(parents=True, exist_ok=True)\<close>, and writes the file
  with \<^verbatim>\<open>Path.write_text\<close>. All three work on the file system of \<^verbatim>\<open>Fetch\<close>: a map
  from absolute paths to files and directories. The operations follow pathlib and
  \<^verbatim>\<open>os.mkdir\<close>, so each exception they raise is a branch of the model. A failing
  operation keeps the directories it has already created.
  The lemmas show:
  \<^item> the steps touch neither the clock nor the rate-limit log;
  \<^item> a write reads back as written;
  \<^item> the well-formedness of the file system (every entry sits in a directory) is
    preserved.
\<close>

section \<open>Paths\<close>

text \<open>
  \<^verbatim>\<open>Path.parent\<close> on the paths the program builds: the path up to its last slash.
  The empty string is what remains of \<^verbatim>\<open>/x\<close> (the root) or of a bare name (the
  working directory); both are directories that exist.
\<close>

definition parent_path :: "string \<Rightarrow> string" where
  "parent_path p = rev (drop 1 (dropWhile (\<lambda>c. c \<noteq> CHR ''/'') (rev p)))"

definition lookup_path :: "'a fetch_world_scheme \<Rightarrow> string \<Rightarrow> fentry option" where
  "lookup_path w p = (if p = [] \<or> p = ''/'' then Some (DirE 0) else fs w p)"

definition is_dir :: "'a fetch_world_scheme \<Rightarrow> string \<Rightarrow> bool" where
  "is_dir w p = (case lookup_path w p of Some (DirE _) \<Rightarrow> True | _ \<Rightarrow> False)"

section \<open>Directory creation\<close>

text \<open>
  \<^verbatim>\<open>Path.mkdir(exist_ok=True)\<close>: \<^verbatim>\<open>os.mkdir\<close> raises \<^verbatim>\<open>FileExistsError\<close> on an
  existing path. pathlib ignores that error for a directory and raises it again for a
  file. A missing parent raises \<^verbatim>\<open>FileNotFoundError\<close>, and a parent that is a file
  raises \<^verbatim>\<open>NotADirectoryError\<close>.
\<close>

definition mkdir_one :: "string \<Rightarrow> 'a fetch_world_scheme \<Rightarrow> (pyexc + unit) \<times> 'a fetch_world_scheme" where
  "mkdir_one p w =
     (case lookup_path w p of
        Some (DirE _) \<Rightarrow> (Inr (), w)
      | Some (FileE _ _) \<Rightarrow> (Inl FileExistsError, w)
      | None \<Rightarrow>
          (case lookup_path w (parent_path p) of
             Some (DirE _) \<Rightarrow> (Inr (), w\<lparr>fs := (fs w)(p \<mapsto> DirE 0)\<rparr>)
           | Some (FileE _ _) \<Rightarrow> (Inl NotADirectoryError, w)
           | None \<Rightarrow> (Inl FileNotFoundError, w)))"

lemma length_parent_path: "p \<noteq> [] \<Longrightarrow> length (parent_path p) < length p"
proof -
  assume p: "p \<noteq> []"
  have "length (parent_path p) = length (dropWhile (\<lambda>c. c \<noteq> CHR ''/'') (rev p)) - 1"
    by (simp add: parent_path_def)
  moreover have "length (dropWhile (\<lambda>c. c \<noteq> CHR ''/'') (rev p)) \<le> length p"
    by (metis length_dropWhile_le length_rev)
  moreover have "0 < length p" using p by simp
  ultimately show ?thesis by arith
qed

text \<open>
  \<^verbatim>\<open>Path.mkdir(parents=True, exist_ok=True)\<close>: try the directory itself; on
  \<^verbatim>\<open>FileNotFoundError\<close> create the parent the same way, then try again. The parent
  is a shorter string, so the recursion ends.
\<close>

function mkdir_parents :: "string \<Rightarrow> 'a fetch_world_scheme \<Rightarrow> (pyexc + unit) \<times> 'a fetch_world_scheme" where
  "mkdir_parents p w =
     (if fst (mkdir_one p w) = Inl FileNotFoundError \<and> p \<noteq> []
      then (case mkdir_parents (parent_path p) (snd (mkdir_one p w)) of
              (Inl e, w2) \<Rightarrow> (Inl e, w2)
            | (Inr _, w2) \<Rightarrow> mkdir_one p w2)
      else mkdir_one p w)"
  by pat_completeness auto
termination
  by (relation "measure (\<lambda>(p, w). length p)") (auto simp: length_parent_path)

declare mkdir_parents.simps [simp del]

section \<open>Writing\<close>

text \<open>
  \<^verbatim>\<open>Path.write_text\<close>: opening a directory for writing raises
  \<^verbatim>\<open>IsADirectoryError\<close>, and a missing or non-directory parent raises as
  \<^verbatim>\<open>os.mkdir\<close> does. Otherwise the file is replaced and the write is logged.
\<close>

definition write_text :: "string \<Rightarrow> string \<Rightarrow> 'a fetch_world_scheme \<Rightarrow> (pyexc + unit) \<times> 'a fetch_world_scheme" where
  "write_text p body w =
     (case lookup_path w p of
        Some (DirE _) \<Rightarrow> (Inl IsADirectoryError, w)
      | _ \<Rightarrow>
          (case lookup_path w (parent_path p) of
             Some (DirE _) \<Rightarrow>
               (Inr (), emit (WriteOutput p) (w\<lparr>fs := (fs w)(p \<mapsto> FileE (length body) body)\<rparr>))
           | Some (FileE _ _) \<Rightarrow> (Inl NotADirectoryError, w)
           | None \<Rightarrow> (Inl FileNotFoundError, w)))"

text \<open>Lines 424--425: the parents of the output file, then the file.\<close>

definition write_to :: "string \<Rightarrow> string \<Rightarrow> 'a fetch_world_scheme \<Rightarrow> (pyexc + unit) \<times> 'a fetch_world_scheme" where
  "write_to p body w =
     (case mkdir_parents (parent_path p) w of
        (Inl e, w1) \<Rightarrow> (Inl e, w1)
      | (Inr _, w1) \<Rightarrow> write_text p body w1)"

section \<open>Specification\<close>

text \<open>A well-formed file system: every entry sits in an existing directory.\<close>

definition fs_wf :: "'a fetch_world_scheme \<Rightarrow> bool" where
  "fs_wf w \<longleftrightarrow> (\<forall>p e. fs w p = Some e \<longrightarrow> is_dir w (parent_path p))"

section \<open>Frame lemmas\<close>

lemma parent_path_append: "CHR ''/'' \<notin> set x \<Longrightarrow> parent_path (d @ ''/'' @ x) = d"
  by (simp add: parent_path_def dropWhile_append)

lemma mkdir_one_fs_only: "\<exists>f. snd (mkdir_one p w) = w\<lparr>fs := f\<rparr>"
  by (auto simp: mkdir_one_def split: option.splits fentry.splits intro: exI [of _ "fs w"])

lemma mkdir_one_dir: "is_dir w p \<Longrightarrow> mkdir_one p w = (Inr (), w)"
  by (auto simp: mkdir_one_def is_dir_def split: option.splits fentry.splits)

lemma mkdir_one_new:
  "lookup_path w p = None \<Longrightarrow> is_dir w (parent_path p) \<Longrightarrow>
     mkdir_one p w = (Inr (), w\<lparr>fs := (fs w)(p \<mapsto> DirE 0)\<rparr>)"
  by (auto simp: mkdir_one_def is_dir_def split: option.splits fentry.splits)

text \<open>
  \<^verbatim>\<open>mkdir(exist_ok=True)\<close> of a directory whose parent exists leaves it a
  directory and changes no other path.
\<close>

lemma mkdir_one_ensure:
  assumes par: "is_dir w (parent_path d)" and d: "lookup_path w d = None \<or> is_dir w d"
    and q: "q \<noteq> d"
  shows "\<exists>f. mkdir_one d w = (Inr (), w\<lparr>fs := f\<rparr>) \<and> is_dir (w\<lparr>fs := f\<rparr>) d \<and>
           is_dir (w\<lparr>fs := f\<rparr>) q = is_dir w q"
proof (cases "lookup_path w d = None")
  case True
  then have "mkdir_one d w = (Inr (), w\<lparr>fs := (fs w)(d \<mapsto> DirE 0)\<rparr>)"
    using par by (rule mkdir_one_new)
  moreover have "is_dir (w\<lparr>fs := (fs w)(d \<mapsto> DirE 0)\<rparr>) d"
    by (simp add: is_dir_def lookup_path_def)
  moreover have "is_dir (w\<lparr>fs := (fs w)(d \<mapsto> DirE 0)\<rparr>) q = is_dir w q"
    using q by (simp add: is_dir_def lookup_path_def)
  ultimately show ?thesis by blast
next
  case False
  with d have "is_dir w d" by simp
  then show ?thesis by (intro exI [of _ "fs w"]) (simp add: mkdir_one_dir)
qed

lemma write_text_ok:
  "\<not> is_dir w p \<Longrightarrow> is_dir w (parent_path p) \<Longrightarrow>
     write_text p body w = (Inr (), emit (WriteOutput p) (w\<lparr>fs := (fs w)(p \<mapsto> FileE (length body) body)\<rparr>))"
  by (auto simp: write_text_def is_dir_def split: option.splits fentry.splits)

lemma write_text_dir: "is_dir w p \<Longrightarrow> write_text p body w = (Inl IsADirectoryError, w)"
  by (auto simp: write_text_def is_dir_def split: option.splits fentry.splits)

lemma mkdir_one_advances [advances_intros]: "advances w (snd (mkdir_one p w))"
  by (auto simp: mkdir_one_def advances_def split: option.splits fentry.splits)

lemma mkdir_parents_eq:
  "mkdir_parents p w =
     (if fst (mkdir_one p w) = Inl FileNotFoundError \<and> p \<noteq> []
      then (case mkdir_parents (parent_path p) (snd (mkdir_one p w)) of
              (Inl e, w2) \<Rightarrow> (Inl e, w2)
            | (Inr _, w2) \<Rightarrow> mkdir_one p w2)
      else mkdir_one p w)"
  by (rule mkdir_parents.simps)

lemma mkdir_parents_dir: "is_dir w p \<Longrightarrow> mkdir_parents p w = (Inr (), w)"
  by (subst mkdir_parents_eq) (simp add: mkdir_one_dir)

text \<open>
  Whatever relation every single \<^verbatim>\<open>mkdir\<close> establishes between the state before
  and after, and that composes, holds across \<^verbatim>\<open>mkdir(parents=True)\<close>.
\<close>

lemma mkdir_parents_preserves:
  assumes one: "\<And>p w. R w (snd (mkdir_one p w))"
    and trans: "\<And>u v x. R u v \<Longrightarrow> R v x \<Longrightarrow> R u x"
  shows "R w (snd (mkdir_parents p w))"
proof (induction p w rule: mkdir_parents.induct)
  case (1 p w)
  show ?case
  proof (cases "fst (mkdir_one p w) = Inl FileNotFoundError \<and> p \<noteq> []")
    case True
    obtain r w2 where m: "mkdir_parents (parent_path p) (snd (mkdir_one p w)) = (r, w2)"
      by fastforce
    have a: "R w w2"
      using "1" [OF True] one [of w p] m by (auto intro: trans)
    have eq: "mkdir_parents p w =
        (case (r, w2) of (Inl e, w2) \<Rightarrow> (Inl e, w2) | (Inr _, w2) \<Rightarrow> mkdir_one p w2)"
      by (subst mkdir_parents_eq) (simp only: if_P [OF True] m)
    show ?thesis
      using eq a trans [OF a one [of w2 p]] by (cases r) simp_all
  next
    case False
    then have "mkdir_parents p w = mkdir_one p w"
      by (subst mkdir_parents_eq) (simp only: if_not_P [OF False] if_False)
    then show ?thesis using one [of w p] by simp
  qed
qed

lemma mkdir_parents_advances [advances_intros]: "advances w (snd (mkdir_parents p w))"
  by (rule mkdir_parents_preserves) (auto intro: mkdir_one_advances advances_trans)

lemma mkdir_one_same: "clock (snd (mkdir_one p w)) = clock w \<and> rl_file (snd (mkdir_one p w)) = rl_file w"
  by (auto simp: mkdir_one_def split: option.splits fentry.splits)

lemma mkdir_parents_same:
  "clock (snd (mkdir_parents p w)) = clock w \<and> rl_file (snd (mkdir_parents p w)) = rl_file w"
  by (rule mkdir_parents_preserves [where R = "\<lambda>w w'. clock w' = clock w \<and> rl_file w' = rl_file w"])
     (simp_all add: mkdir_one_same)

lemma write_text_advances [advances_intros]: "advances w (snd (write_text p body w))"
  by (auto simp: write_text_def advances_def split: option.splits fentry.splits)

lemma write_to_advances [advances_intros]: "advances w (snd (write_to p body w))"
proof (cases "mkdir_parents (parent_path p) w")
  case (Pair r w1)
  have a: "advances w w1" using mkdir_parents_advances [of w "parent_path p"] Pair by simp
  show ?thesis
  proof (cases r)
    case (Inl e)
    with Pair a show ?thesis by (simp add: write_to_def)
  next
    case (Inr u)
    with Pair a show ?thesis
      by (simp add: write_to_def advances_trans [OF a write_text_advances])
  qed
qed

section \<open>Reading back and well-formedness\<close>

lemma write_text_Inr:
  "write_text p body w = (Inr (), w') \<Longrightarrow>
     w' = emit (WriteOutput p) (w\<lparr>fs := (fs w)(p \<mapsto> FileE (length body) body)\<rparr>) \<and> \<not> is_dir w p"
  by (auto simp: write_text_def is_dir_def split: option.splits fentry.splits)

lemma write_text_Inr_parent:
  "write_text p body w = (Inr (), w') \<Longrightarrow> is_dir w (parent_path p)"
  by (auto simp: write_text_def is_dir_def split: option.splits fentry.splits)

lemma is_dir_add_dir:
  "lookup_path w p = None \<Longrightarrow> is_dir w q \<Longrightarrow> is_dir (w\<lparr>fs := (fs w)(p \<mapsto> DirE n)\<rparr>) q"
  by (auto simp: is_dir_def lookup_path_def split: option.splits fentry.splits if_splits)

lemma is_dir_add_file:
  "\<not> is_dir w p \<Longrightarrow> is_dir (w\<lparr>fs := (fs w)(p \<mapsto> FileE n t)\<rparr>) q = is_dir w q"
  by (auto simp: is_dir_def lookup_path_def split: option.splits fentry.splits if_splits)

lemma fs_emit [simp]: "fs (emit e w) = fs w"
  by (simp add: emit_def)

lemma is_dir_emit [simp]: "is_dir (emit e w) q = is_dir w q"
  by (simp add: is_dir_def lookup_path_def)

lemma mkdir_one_wf: "fs_wf w \<Longrightarrow> fs_wf (snd (mkdir_one p w))"
  by (auto simp: mkdir_one_def fs_wf_def is_dir_add_dir split: option.splits fentry.splits)
     (auto simp: is_dir_def lookup_path_def split: if_splits)

lemma mkdir_parents_wf: "fs_wf w \<Longrightarrow> fs_wf (snd (mkdir_parents p w))"
proof -
  have "fs_wf w \<longrightarrow> fs_wf (snd (mkdir_parents p w))"
    by (rule mkdir_parents_preserves [where R = "\<lambda>w w'. fs_wf w \<longrightarrow> fs_wf w'"])
       (auto intro: mkdir_one_wf)
  then show "fs_wf w \<Longrightarrow> fs_wf (snd (mkdir_parents p w))" by blast
qed

lemma write_text_wf: "fs_wf w \<Longrightarrow> fs_wf (snd (write_text p body w))"
proof (cases "write_text p body w")
  case (Pair r w')
  assume wf: "fs_wf w"
  show ?thesis
  proof (cases r)
    case (Inl e)
    with Pair wf show ?thesis
      by (auto simp: write_text_def split: option.splits fentry.splits)
  next
    case (Inr u)
    with Pair have w': "w' = emit (WriteOutput p) (w\<lparr>fs := (fs w)(p \<mapsto> FileE (length body) body)\<rparr>)"
      and par: "is_dir w (parent_path p)" and nd: "\<not> is_dir w p"
      using write_text_Inr [of p body w w'] write_text_Inr_parent [of p body w w'] by simp_all
    have "is_dir w' q = is_dir w q" for q
      using w' is_dir_add_file [OF nd] by simp
    with wf par w' Pair show ?thesis
      by (auto simp: fs_wf_def emit_def)
  qed
qed

lemma write_to_wf: "fs_wf w \<Longrightarrow> fs_wf (snd (write_to p body w))"
  using mkdir_parents_wf [of w "parent_path p"] write_text_wf
  by (auto simp: write_to_def split: prod.splits sum.splits)

lemma write_text_same:
  "clock (snd (write_text p body w)) = clock w \<and> rl_file (snd (write_text p body w)) = rl_file w"
  by (auto simp: write_text_def split: option.splits fentry.splits)

lemma write_to_same:
  "clock (snd (write_to p body w)) = clock w \<and> rl_file (snd (write_to p body w)) = rl_file w"
  using mkdir_parents_same [of "parent_path p" w]
  by (auto simp: write_to_def write_text_same split: prod.splits sum.splits)

lemma write_to_Inr:
  assumes "write_to p body w = (Inr u, w')"
  shows "fs w' p = Some (FileE (length body) body) \<and> last (log w') = WriteOutput p"
proof -
  obtain w1 where "write_text p body w1 = (Inr u, w')"
    using assms by (auto simp: write_to_def split: prod.splits sum.splits)
  then show ?thesis using write_text_Inr [of p body w1 w'] by simp
qed

end
