(* ===== verification/Pipeline.thy ===== *)
theory Pipeline
  imports RateLimit Browser Summarize Markdown Output
begin

text \<open>
  The command-line entry point \<^verbatim>\<open>main\<close> (\<^verbatim>\<open>src/summarize.py\<close> lines 366--426) and the
  way it composes the components: the proxy override is set, a missing input is a usage
  error, the rate limit is checked, the content is acquired from a local PDF or a URL,
  summarised, the request is recorded, the Markdown is rendered and written. The main
  result is a refinement: seen through the clock and the rate-limit log file, every run
  of \<^verbatim>\<open>main\<close> is one step of the run relation \<open>rl_run\<close> of \<^verbatim>\<open>RateLimit\<close>,
  whatever happens in the browser, the PDF extractor or the service.
\<close>

section \<open>State and arguments\<close>

text \<open>
  The machine of the whole program: the date \<^verbatim>\<open>datetime.now()\<close> prints (line 338) and
  the directory of the script (line 419).
\<close>

record app_world = browser_world +
  today :: string
  script_dir :: string

text \<open>The parsed arguments (lines 367--389); a parse failure of argparse is not modelled.\<close>

record cli_args =
  arg_input :: "string option"
  arg_output :: "string option"
  arg_debug :: bool
  arg_use_proxy :: "bool option"

section \<open>The steps of main\<close>

text \<open>
  Lines 400--406: a local file is read by \<^verbatim>\<open>_extract_text_from_pdf\<close> and named by its
  resolved path, anything else goes to \<^verbatim>\<open>_extract_text_from_url\<close>.
\<close>

definition acquire :: "string \<Rightarrow> 'a browser_world_scheme \<Rightarrow>
    (error + string \<times> string \<times> string option) \<times> 'a browser_world_scheme" where
  "acquire inp w =
     (case is_local_file w inp of
        Inl e \<Rightarrow> (Inl (Uncaught e), w)
      | Inr True \<Rightarrow>
          (case extract_text_from_pdf inp w of
             (Inl e, w1) \<Rightarrow> (Inl e, w1)
           | (Inr content, w1) \<Rightarrow> (Inr (content, ''file://'' @ abs_path (cwd w) inp, None), w1))
      | Inr False \<Rightarrow>
          (case extract_text_from_url inp w of
             (Inl e, w1) \<Rightarrow> (Inl e, w1)
           | (Inr (content, title), w1) \<Rightarrow> (Inr (content, inp, title), w1)))"

text \<open>Line 421, \<^verbatim>\<open>page_title or "summary"\<close>.\<close>

definition title_or_summary :: "string option \<Rightarrow> string" where
  "title_or_summary t = (case t of Some s \<Rightarrow> if s = [] then ''summary'' else s | None \<Rightarrow> ''summary'')"

text \<open>
  Lines 416--422: the \<^verbatim>\<open>--output\<close> path if it is given and non-empty; otherwise
  the slug of the title under the directory \<^verbatim>\<open>output\<close> beside the script.
\<close>

definition default_output :: "cli_args \<Rightarrow> bool" where
  "default_output args \<longleftrightarrow> arg_output args = None \<or> arg_output args = Some []"

definition output_dir :: "'a app_world_scheme \<Rightarrow> string" where
  "output_dir w = script_dir w @ ''/output''"

definition output_path :: "cli_args \<Rightarrow> string option \<Rightarrow> 'a app_world_scheme \<Rightarrow> string" where
  "output_path args title w =
     (case arg_output args of
        Some p \<Rightarrow> if p \<noteq> [] then abs_path (cwd w) p
                  else output_dir w @ ''/'' @ slugify (title_or_summary title) @ ''.md''
      | None \<Rightarrow> output_dir w @ ''/'' @ slugify (title_or_summary title) @ ''.md'')"

text \<open>
  Lines 416--425. For the default path, line 420 creates the output directory (its
  parent must exist). Lines 424--425 then create the parents of the output file and
  write the file.
\<close>

definition save_output :: "cli_args \<Rightarrow> string option \<Rightarrow> string \<Rightarrow> 'a app_world_scheme \<Rightarrow>
    (pyexc + unit) \<times> 'a app_world_scheme" where
  "save_output args title md w =
     (if default_output args
      then (case mkdir_one (output_dir w) w of
              (Inl e, w1) \<Rightarrow> (Inl e, w1)
            | (Inr _, w1) \<Rightarrow> write_to (output_path args title w1) md w1)
      else write_to (output_path args title w) md w)"

text \<open>
  Lines 366--426. The summarisation service is an argument: what it answers to a posted
  text. The debug flag only prints and is not used.
\<close>

definition main :: "(string \<Rightarrow> pyexc + api_resp) \<Rightarrow> cli_args \<Rightarrow> 'a app_world_scheme \<Rightarrow>
    (error + unit) \<times> 'a app_world_scheme" where
  "main api args w =
     (let w0 = w\<lparr>proxy_force := arg_use_proxy args\<rparr> in
      case arg_input args of
        None \<Rightarrow> (Inl UsageError, w0)
      | Some inp \<Rightarrow>
          if inp = [] then (Inl UsageError, w0)
          else (case check_rate_limit w0 of
            (Inl e, w1) \<Rightarrow> (Inl e, w1)
          | (Inr _, w1) \<Rightarrow>
            (case acquire inp w1 of
               (Inl e, w2) \<Rightarrow> (Inl e, w2)
             | (Inr (content, url, title), w2) \<Rightarrow>
               (case summarize_content api content w2 of
                  (Inl e, w3) \<Rightarrow> (Inl e, w3)
                | (Inr summary, w3) \<Rightarrow>
                  (case record_request w3 of
                     (Inl e, w4) \<Rightarrow> (Inl e, w4)
                   | (Inr _, w4) \<Rightarrow>
                     (case to_markdown summary url title (today w4) of
                        Inl e \<Rightarrow> (Inl (Uncaught e), w4)
                      | Inr md \<Rightarrow>
                          (case save_output args title md w4 of
                             (Inl e, w5) \<Rightarrow> (Inl (Uncaught e), w5)
                           | (Inr _, w5) \<Rightarrow> (Inr (), w5))))))))"

section \<open>Example machine\<close>

text \<open>
  No rate-limit log and no proxy file; the arXiv PDF is served; the service is either
  always busy or answers with a summary that is a number.
\<close>

definition aw0 :: app_world where
  "aw0 = \<lparr>clock = 0, rl_file = FMissing, log = [], proxy_force = None,
     proxy_file = (\<lambda>_. FMissing), rand = (\<lambda>k. k), rand_used = 0,
     fs = Map.empty, cwd = ''/work'', home = ''/home/u'', user_home = (\<lambda>_. None),
     http_get = (\<lambda>u. if u = ''https://arxiv.org/pdf/2301.00001'' then Inr (200, ''%PDF-arxiv'')
                     else Inr (404, [])),
     pdf_extract = (\<lambda>b. Inr (b @ '' text of the paper, long enough to pass the check.'')),
     tmp_counter = 0, tmp_write_ok = True,
     web = (\<lambda>u t. \<lparr>pg_title = [], pg_text = ''body'', pg_inner = ''body''\<rparr>),
     goto_result = (\<lambda>u. Inr 1000),
     today = ''2026-11-09'', script_dir = ''/opt/gistify''\<rparr>"

definition args_arxiv :: cli_args where
  "args_arxiv = \<lparr>arg_input = Some ''https://arxiv.org/abs/2301.00001'', arg_output = None,
     arg_debug = False, arg_use_proxy = Some False\<rparr>"

definition api_busy :: "string \<Rightarrow> pyexc + api_resp" where
  "api_busy t = Inr \<lparr>resp_status = 429, resp_json = None, resp_text = ''Too Many Requests''\<rparr>"

definition api_num :: "string \<Rightarrow> pyexc + api_resp" where
  "api_num t = Inr \<lparr>resp_status = 200, resp_json = Some (JObj [(''summary'', JNum 1)]),
                    resp_text = ''summary: 1''\<rparr>"

definition api_ok :: "string \<Rightarrow> pyexc + api_resp" where
  "api_ok t = Inr \<lparr>resp_status = 200, resp_json = Some (JObj [(''summary'', JStr '' A gist. '')]),
                   resp_text = ''summary: A gist.''\<rparr>"

text \<open>The same machine with its directories: the script's, the working one and \<^verbatim>\<open>/tmp\<close>.\<close>

definition aw1 :: app_world where
  "aw1 = aw0\<lparr>fs := [''/opt'' \<mapsto> DirE 0, ''/opt/gistify'' \<mapsto> DirE 0, ''/work'' \<mapsto> DirE 0,
                    ''/tmp'' \<mapsto> DirE 0]\<rparr>"

definition args_to_dir :: cli_args where
  "args_to_dir = args_arxiv\<lparr>arg_output := Some ''/work''\<rparr>"

section \<open>Frame and shape of a run\<close>

lemma acquire_advances [advances_intros]: "advances w (snd (acquire inp w))"
  using extract_pdf_advances [of w inp] extract_text_from_url_advances [of w inp]
  by (auto simp: acquire_def split: sum.splits bool.splits prod.splits)

lemma snd_wrap:
  "snd (case r of (Inl e, w) \<Rightarrow> (Inl (f e), w) | (Inr _, w) \<Rightarrow> (Inr (), w)) = snd r"
  by (simp split: prod.splits sum.splits)

lemma save_output_same:
  "clock (snd (save_output args title md w)) = clock w \<and>
   rl_file (snd (save_output args title md w)) = rl_file w"
  using mkdir_one_same [of "output_dir w" w]
  by (auto simp: save_output_def write_to_same split: prod.splits sum.splits)

lemma main_cases:
  fixes args and w :: "'a app_world_scheme"
  defines "w0 \<equiv> w\<lparr>proxy_force := arg_use_proxy args\<rparr>"
  shows "(snd (main api args w) = w0 \<and> (\<exists>e. fst (main api args w) = Inl e)) \<or>
    (\<exists>w3. advances (snd (check_rate_limit w0)) w3 \<and> snd (main api args w) = w3 \<and>
        (\<exists>e. fst (main api args w) = Inl e)) \<or>
    (\<exists>w3 w4 c w2 s. fst (check_rate_limit w0) = Inr () \<and> advances (snd (check_rate_limit w0)) w3 \<and>
        fst (summarize_content api c (w2 :: 'a app_world_scheme)) = Inr s \<and>
        record_request w3 = (Inr (), w4) \<and>
        rl_file (snd (main api args w)) = rl_file w4 \<and> clock (snd (main api args w)) = clock w4)"
proof (cases "arg_input args = None \<or> arg_input args = Some []")
  case True
  then show ?thesis by (auto simp: main_def w0_def)
next
  case False
  then obtain inp where inp: "arg_input args = Some inp" "inp \<noteq> []" by auto
  obtain r1 w1 where c: "check_rate_limit w0 = (r1, w1)" by fastforce
  show ?thesis
  proof (cases r1)
    case (Inl e)
    with inp c show ?thesis by (simp add: main_def w0_def [symmetric])
  next
    case (Inr u)
    obtain r2 w2 where a: "acquire inp w1 = (r2, w2)" by fastforce
    have a2: "advances w1 w2" using acquire_advances [of w1 inp] a by simp
    show ?thesis
    proof (cases r2)
      case (Inl e)
      with inp c Inr a a2 show ?thesis by (simp add: main_def w0_def [symmetric])
    next
      case (Inr x)
      then obtain content url title where x: "r2 = Inr (content, url, title)"
        by (cases x) auto
      obtain r3 w3 where sm: "summarize_content api content w2 = (r3, w3)" by fastforce
      have a3: "advances w1 w3"
        using a2 summarize_advances [of w2 api content] sm by (simp add: advances_trans)
      show ?thesis
      proof (cases r3)
        case (Inl e)
        with inp c \<open>r1 = Inr u\<close> a x sm a3 show ?thesis by (simp add: main_def w0_def [symmetric])
      next
        case (Inr summary)
        obtain r4 w4 where rr: "record_request w3 = (r4, w4)" by fastforce
        show ?thesis
        proof (cases r4)
          case (Inl e)
          with rr have "w4 = w3" by (simp add: record_request_Inl)
          with Inl inp c \<open>r1 = Inr u\<close> a x sm \<open>r3 = Inr summary\<close> rr a3 show ?thesis
            by (simp add: main_def w0_def [symmetric])
        next
          case (Inr v)
          have "fst (check_rate_limit w0) = Inr ()" using c \<open>r1 = Inr u\<close> by simp
          moreover have "rl_file (snd (main api args w)) = rl_file w4 \<and> clock (snd (main api args w)) = clock w4"
            using Inr inp c \<open>r1 = Inr u\<close> a x sm \<open>r3 = Inr summary\<close> rr
            by (simp add: main_def w0_def [symmetric] snd_wrap save_output_same split: sum.splits)
          moreover have "snd (check_rate_limit w0) = w1" using c by simp
          moreover have "fst (summarize_content api content w2) = Inr summary"
            using sm \<open>r3 = Inr summary\<close> by simp
          moreover have "record_request w3 = (Inr (), w4)" using rr Inr by simp
          ultimately show ?thesis using a3 by blast
        qed
      qed
    qed
  qed
qed

text \<open>
  The run from the summary on: after a passed check, the fetch and the summary, what
  \<^verbatim>\<open>main\<close> does is fixed by the recording, the rendering and the output step.
\<close>

lemma main_after_summary:
  fixes w :: "'a app_world_scheme"
  assumes "arg_input args = Some inp" "inp \<noteq> []"
    and "fst (check_rate_limit (w\<lparr>proxy_force := arg_use_proxy args\<rparr>)) = Inr ()"
    and "acquire inp (snd (check_rate_limit (w\<lparr>proxy_force := arg_use_proxy args\<rparr>))) =
           (Inr (content, url, title), w2)"
    and "summarize_content api content w2 = (Inr summary, w3)"
  shows "main api args w =
     (case record_request w3 of
        (Inl e, w4) \<Rightarrow> (Inl e, w4)
      | (Inr _, w4) \<Rightarrow>
          (case to_markdown summary url title (today w4) of
             Inl e \<Rightarrow> (Inl (Uncaught e), w4)
           | Inr md \<Rightarrow>
               (case save_output args title md w4 of
                  (Inl e, w5) \<Rightarrow> (Inl (Uncaught e), w5)
                | (Inr _, w5) \<Rightarrow> (Inr (), w5))))"
proof -
  obtain w1 where c: "check_rate_limit (w\<lparr>proxy_force := arg_use_proxy args\<rparr>) = (Inr (), w1)"
    using assms(3) by (metis prod.collapse)
  have m: "main api args w =
     (case check_rate_limit (w\<lparr>proxy_force := arg_use_proxy args\<rparr>) of
        (Inl e, w1) \<Rightarrow> (Inl e, w1)
      | (Inr _, w1) \<Rightarrow>
        (case acquire inp w1 of
           (Inl e, w2) \<Rightarrow> (Inl e, w2)
         | (Inr (content, url, title), w2) \<Rightarrow>
           (case summarize_content api content w2 of
              (Inl e, w3) \<Rightarrow> (Inl e, w3)
            | (Inr summary, w3) \<Rightarrow>
              (case record_request w3 of
                 (Inl e, w4) \<Rightarrow> (Inl e, w4)
               | (Inr _, w4) \<Rightarrow>
                 (case to_markdown summary url title (today w4) of
                    Inl e \<Rightarrow> (Inl (Uncaught e), w4)
                  | Inr md \<Rightarrow>
                      (case save_output args title md w4 of
                         (Inl e, w5) \<Rightarrow> (Inl (Uncaught e), w5)
                       | (Inr _, w5) \<Rightarrow> (Inr (), w5)))))))"
    using assms(1,2) by (simp add: main_def Let_def)
  show ?thesis unfolding m c using assms(4,5) c by simp
qed

lemma main_record_succeeds:
  fixes w :: "'a app_world_scheme"
  assumes chk: "fst (check_rate_limit w0) = Inr ()"
    and acq: "acquire inp (snd (check_rate_limit w0)) = (Inr x, w2)"
    and sm: "summarize_content api content w2 = (Inr summary, w3)"
  shows "\<exists>w4. record_request w3 = (Inr (), w4)"
proof -
  obtain ts where rd: "read_rate_log (clock w0) (rl_file w0) = Inr ts"
    using check_rate_limit_passed [OF chk] by blast
  have "advances (snd (check_rate_limit w0)) w2"
    using acquire_advances [of "snd (check_rate_limit w0)" inp] acq by simp
  then have "advances (snd (check_rate_limit w0)) w3"
    using summarize_advances [of w2 api content] sm by (simp add: advances_trans)
  then have "clock w0 \<le> clock w3" "rl_file w3 = rl_file w0"
    using clock_check_rate_limit [of w0] by (auto simp: advances_def)
  then obtain ts' where "read_rate_log (clock w3) (rl_file w3) = Inr ts'"
    using read_rate_log_later [OF rd] by fastforce
  then show ?thesis by (simp add: record_request_read)
qed

lemma record_request_app_fields:
  fixes w :: "'a app_world_scheme"
  shows "fs (snd (record_request w)) = fs w \<and> cwd (snd (record_request w)) = cwd w \<and>
         script_dir (snd (record_request w)) = script_dir w \<and> today (snd (record_request w)) = today w"
  using record_request_shape [of w] by (auto simp: emit_def)

lemma output_path_fs [simp]: "output_path args title (w\<lparr>fs := f\<rparr>) = output_path args title w"
  by (simp add: output_path_def output_dir_def split: option.split)

lemma save_output_written:
  fixes w :: "'a app_world_scheme"
  assumes "save_output args title md w = (Inr u, w')"
  shows "fs w' (output_path args title w) = Some (FileE (length md) md) \<and>
         last (log w') = WriteOutput (output_path args title w)"
proof (cases "default_output args")
  case True
  obtain r1 w1 where m: "mkdir_one (output_dir w) w = (r1, w1)" by fastforce
  obtain f where "w1 = w\<lparr>fs := f\<rparr>" using mkdir_one_fs_only [of "output_dir w" w] m by auto
  with True m assms have "write_to (output_path args title w) md w1 = (Inr u, w')"
    by (auto simp: save_output_def split: sum.splits)
  then show ?thesis by (rule write_to_Inr)
next
  case False
  with assms have "write_to (output_path args title w) md w = (Inr u, w')"
    by (simp add: save_output_def)
  then show ?thesis by (rule write_to_Inr)
qed

section \<open>Refinement of the rate-limiter run\<close>

lemma rl_run_stopped_after_check:
  assumes "clock s = clock w0" and "rl_file s = rl_file w0"
    and "advances (snd (check_rate_limit w0)) w3"
  shows "\<exists>s'. rl_run s s' \<and> clock s' = clock w3 \<and> rl_file s' = rl_file w3"
proof -
  let ?s1 = "snd (check_rate_limit s)"
  have cl: "clock ?s1 = clock (snd (check_rate_limit w0))"
    using check_rate_limit_same [OF assms(1,2)] by simp
  with assms(3) have d: "0 \<le> clock w3 - clock ?s1" by (simp add: advances_def)
  have "rl_run s (?s1\<lparr>clock := clock ?s1 + (clock w3 - clock ?s1)\<rparr>)"
    by (rule rl_run.stopped [OF refl d])
  moreover have "rl_file ?s1 = rl_file w3"
    using assms(2,3) by (simp add: advances_def)
  ultimately show ?thesis by fastforce
qed

lemma rl_run_recorded_after_check:
  assumes "clock s = clock w0" and "rl_file s = rl_file w0"
    and "fst (check_rate_limit w0) = Inr ()" and "advances (snd (check_rate_limit w0)) w3"
    and "record_request w3 = (Inr (), w4)"
  shows "\<exists>s'. rl_run s s' \<and> clock s' = clock w4 \<and> rl_file s' = rl_file w4"
proof -
  let ?s1 = "snd (check_rate_limit s)"
  have same: "fst (check_rate_limit s) = Inr ()" "clock ?s1 = clock (snd (check_rate_limit w0))"
    using check_rate_limit_same [OF assms(1,2)] assms(3) by simp_all
  then have c: "check_rate_limit s = (Inr (), ?s1)" by (metis prod.collapse)
  from same assms(4) have d: "0 \<le> clock w3 - clock ?s1" by (simp add: advances_def)
  let ?v = "?s1\<lparr>clock := clock ?s1 + (clock w3 - clock ?s1)\<rparr>"
  have "clock ?v = clock w3" and "rl_file ?v = rl_file w3"
    using assms(2,4) by (simp_all add: advances_def)
  from record_request_same [OF this] assms(5)
  have r: "record_request ?v = (Inr (), snd (record_request ?v))"
    and "clock (snd (record_request ?v)) = clock w4" "rl_file (snd (record_request ?v)) = rl_file w4"
    by (simp_all, metis prod.collapse)
  moreover have "rl_run s ((snd (record_request ?v))\<lparr>hist := hist (snd (record_request ?v)) @
                    [clock (snd (record_request ?v))]\<rparr>)"
    by (rule rl_run.recorded [OF c d r])
  ultimately show ?thesis by fastforce
qed

text \<open>
  C2. Refinement: for any state of the abstract rate limiter that agrees with the program's
  machine on the clock and the log file, one run of \<^verbatim>\<open>main\<close>, whatever its outcome, is
  matched by one step of \<open>rl_run\<close> that ends in agreement again. With C1 this gives the
  hourly quota for every sequence of runs of the program.
\<close>

theorem main_refines_rl_run:
  fixes w :: "'a app_world_scheme"
  assumes "clock s = clock w" and "rl_file s = rl_file w"
  shows "\<exists>s'. rl_run s s' \<and> clock s' = clock (snd (main api args w)) \<and>
              rl_file s' = rl_file (snd (main api args w))"
proof -
  let ?w0 = "w\<lparr>proxy_force := arg_use_proxy args\<rparr>"
  have s0: "clock s = clock ?w0" "rl_file s = rl_file ?w0" using assms by simp_all
  consider (usage) "snd (main api args w) = ?w0"
    | (stopped) w3 where "advances (snd (check_rate_limit ?w0)) w3" "snd (main api args w) = w3"
    | (recorded) w3 w4 c w2 s where "fst (check_rate_limit ?w0) = Inr ()"
        "advances (snd (check_rate_limit ?w0)) w3" "fst (summarize_content api c (w2 :: 'a app_world_scheme)) = Inr s"
        "record_request w3 = (Inr (), w4)"
        "rl_file (snd (main api args w)) = rl_file w4" "clock (snd (main api args w)) = clock w4"
    using main_cases [of api args w] by blast
  then show ?thesis
  proof cases
    case usage
    have "rl_run s (s\<lparr>clock := clock s + 0\<rparr>)" by (rule rl_run.idle) simp
    with usage s0 show ?thesis by fastforce
  next
    case stopped
    then show ?thesis using rl_run_stopped_after_check [OF s0] by simp
  next
    case recorded
    then show ?thesis using rl_run_recorded_after_check [OF s0] by simp
  qed
qed

lemma main_refines_rl_run_witness:
  "\<exists>s'. rl_run sys0 s' \<and> clock s' = clock (snd (main api_num args_arxiv aw0)) \<and>
          rl_file s' = rl_file (snd (main api_num args_arxiv aw0))"
  by (rule main_refines_rl_run) (simp_all add: sys0_def aw0_def)

section \<open>End-to-end scenarios\<close>

text \<open>The definitions a run of \<^verbatim>\<open>main\<close> on an arXiv landing page unfolds to.\<close>

lemmas main_eval = main_def args_arxiv_def check_rate_limit_def read_rate_log_def
  acquire_def is_local_file_def extract_text_from_url_def rewrite_to_pdf_url_def arxiv_match_def
  match_prefix_def PDF_PREFIX_def NEWLINE_def query_dollar_def at_dollar_def download_pdf_text_def
  get_proxy_def get_proxy_url_def proxy_pool_def DEFAULT_PROXY_CONFIG_def py_get_def
  http_ok_def extract_via_tmp_def summarize_content_def record_request_def
  to_markdown_def py_str_strip_def Let_def emit_def rate_consts tmp_path_def


lemma main_no_record:
  fixes w :: "'a app_world_scheme"
  assumes "\<And>c (w2 :: 'a app_world_scheme). \<exists>e. fst (summarize_content api c w2) = Inl e"
  shows "rl_file (snd (main api args w)) = rl_file w \<and> (\<exists>e. fst (main api args w) = Inl e)"
proof -
  let ?w0 = "w\<lparr>proxy_force := arg_use_proxy args\<rparr>"
  consider (usage) "snd (main api args w) = ?w0" "\<exists>e. fst (main api args w) = Inl e"
    | (stopped) w3 where "advances (snd (check_rate_limit ?w0)) w3" "snd (main api args w) = w3"
        "\<exists>e. fst (main api args w) = Inl e"
    | (recorded) c w2 s where "fst (summarize_content api c (w2 :: 'a app_world_scheme)) = Inr s"
    using main_cases [of api args w] by blast
  then show ?thesis
  proof cases
    case usage
    then show ?thesis by simp
  next
    case stopped
    then show ?thesis by (simp add: advances_def)
  next
    case recorded
    with assms [of c w2] show ?thesis by auto
  qed
qed

text \<open>
  C5. When the service answers 429 to everything, the run fails and the rate-limit log is
  left as it was: nothing is recorded for the attempt.
\<close>

theorem main_api_rate_limited:
  fixes w :: "'a app_world_scheme"
  assumes "\<forall>c. api c = Inr busy" and "resp_status busy = 429"
  shows "rl_file (snd (main api args w)) = rl_file w \<and> (\<exists>e. fst (main api args w) = Inl e)"
proof (rule main_no_record)
  fix c and w2 :: "'a app_world_scheme"
  show "\<exists>e. fst (summarize_content api c w2) = Inl e"
    using assms by (simp add: summarize_content_def Let_def split: prod.splits sum.splits)
qed

lemma main_api_rate_limited_witness:
  "rl_file (snd (main api_busy args_arxiv aw0)) = FMissing \<and>
   (\<exists>e. fst (main api_busy args_arxiv aw0) = Inl e)"
  using main_api_rate_limited [of api_busy
      "\<lparr>resp_status = 429, resp_json = None, resp_text = ''Too Many Requests''\<rparr>" args_arxiv aw0]
  by (simp add: api_busy_def aw0_def)

text \<open>
  C6. Whenever the service answers with a summary that is truthy but not a string,
  \<^verbatim>\<open>main\<close> records the request (after a passed check the recording reads the log
  too, so it succeeds) and only then crashes in \<^verbatim>\<open>to_markdown\<close> at
  \<^verbatim>\<open>summary.strip()\<close>. The run ends in exactly the state the recording left: the
  request is counted for a run that wrote no output.
\<close>

theorem main_records_then_crashes:
  fixes w :: "'a app_world_scheme"
  assumes inp: "arg_input args = Some inp" "inp \<noteq> []"
    and chk: "fst (check_rate_limit (w\<lparr>proxy_force := arg_use_proxy args\<rparr>)) = Inr ()"
    and acq: "acquire inp (snd (check_rate_limit (w\<lparr>proxy_force := arg_use_proxy args\<rparr>))) =
                (Inr (content, url, title), w2)"
    and sm: "summarize_content api content w2 = (Inr summary, w3)"
    and nonstr: "\<forall>s. summary \<noteq> JStr s"
  shows "fst (record_request w3) = Inr () \<and>
         main api args w = (Inl (Uncaught AttributeError), snd (record_request w3))"
proof -
  obtain w4 where r: "record_request w3 = (Inr (), w4)"
    using main_record_succeeds [OF chk acq sm] by blast
  with main_after_summary [OF inp chk acq sm] to_markdown_non_str [OF nonstr] show ?thesis
    by simp
qed

lemma main_records_then_crashes_witness:
  "arg_input args_arxiv = Some ''https://arxiv.org/abs/2301.00001'' \<and> ''https://arxiv.org/abs/2301.00001'' \<noteq> [] \<and>
   fst (check_rate_limit (aw0\<lparr>proxy_force := arg_use_proxy args_arxiv\<rparr>)) = Inr () \<and>
   (\<exists>w2 w3. acquire ''https://arxiv.org/abs/2301.00001'' (snd (check_rate_limit (aw0\<lparr>proxy_force := arg_use_proxy args_arxiv\<rparr>))) =
              (Inr (''%PDF-arxiv text of the paper, long enough to pass the check.'', ''https://arxiv.org/abs/2301.00001'', None), w2) \<and>
            summarize_content api_num ''%PDF-arxiv text of the paper, long enough to pass the check.'' w2 = (Inr (JNum 1), w3) \<and>
            (\<forall>s. JNum 1 \<noteq> JStr s) \<and>
            fst (record_request w3) = Inr () \<and>
            main api_num args_arxiv aw0 = (Inl (Uncaught AttributeError), snd (record_request w3)))"
proof -
  let ?w0 = "aw0\<lparr>proxy_force := arg_use_proxy args_arxiv\<rparr>"
  define w2 where "w2 = snd (acquire ''https://arxiv.org/abs/2301.00001'' (snd (check_rate_limit ?w0)))"
  define w3 where "w3 = snd (summarize_content api_num ''%PDF-arxiv text of the paper, long enough to pass the check.'' w2)"
  have i: "arg_input args_arxiv = Some ''https://arxiv.org/abs/2301.00001''" by (simp add: args_arxiv_def)
  have c: "fst (check_rate_limit ?w0) = Inr ()" by (simp add: main_eval aw0_def)
  have "fst (acquire ''https://arxiv.org/abs/2301.00001'' (snd (check_rate_limit ?w0))) = Inr (''%PDF-arxiv text of the paper, long enough to pass the check.'', ''https://arxiv.org/abs/2301.00001'', None)"
    by (simp add: py_strip_def is_py_space_def main_eval aw0_def)
  then have a: "acquire ''https://arxiv.org/abs/2301.00001'' (snd (check_rate_limit ?w0)) = (Inr (''%PDF-arxiv text of the paper, long enough to pass the check.'', ''https://arxiv.org/abs/2301.00001'', None), w2)"
    by (simp add: w2_def prod_eq_iff)
  have "fst (summarize_content api_num ''%PDF-arxiv text of the paper, long enough to pass the check.'' w2) = Inr (JNum 1)"
    by (simp add: w2_def main_eval aw0_def api_num_def)
  then have s: "summarize_content api_num ''%PDF-arxiv text of the paper, long enough to pass the check.'' w2 = (Inr (JNum 1), w3)"
    by (simp add: w3_def prod_eq_iff)
  have n: "\<forall>s. JNum 1 \<noteq> JStr s" by simp
  from main_records_then_crashes [OF i _ c a s n] i c a s n show ?thesis by auto
qed

text \<open>
  C7. A successful run leaves the rendered document at the output path: the file
  starts with the title line, holds the source line and the stripped summary the service
  returned, and writing it is the last effect of the run.
\<close>

theorem main_output_written:
  fixes w :: "'a app_world_scheme"
  assumes inp: "arg_input args = Some inp" "inp \<noteq> []"
    and chk: "fst (check_rate_limit (w\<lparr>proxy_force := arg_use_proxy args\<rparr>)) = Inr ()"
    and acq: "acquire inp (snd (check_rate_limit (w\<lparr>proxy_force := arg_use_proxy args\<rparr>))) =
                (Inr (content, url, title), w2)"
    and sm: "summarize_content api content w2 = (Inr summary, w3)"
    and ok: "fst (main api args w) = Inr ()"
  shows "\<exists>s md. summary = JStr s \<and>
           fs (snd (main api args w)) (output_path args title w3) = Some (FileE (length md) md) \<and>
           last (log (snd (main api args w))) = WriteOutput (output_path args title w3) \<and>
           prefix (''# '' @ title_or_untitled title @ [CHR ''\<newline>'']) md \<and>
           sublist (''**Source:** '' @ url) md \<and> sublist (py_strip s) md"
proof -
  obtain w4 where r: "record_request w3 = (Inr (), w4)"
    using main_record_succeeds [OF chk acq sm] by blast
  have p: "output_path args title w4 = output_path args title w3"
    using record_request_app_fields [of w3] r by (simp add: output_path_def output_dir_def split: option.split)
  note m = main_after_summary [OF inp chk acq sm]
  obtain md where md: "to_markdown summary url title (today w4) = Inr md"
    using ok m r by (auto split: sum.splits)
  have "save_output args title md w4 = (Inr (), snd (main api args w))"
    using ok m r md by (auto split: prod.splits sum.splits)
  from save_output_written [OF this] p to_markdown_Inr [OF md] show ?thesis by auto
qed

lemma main_output_written_witness:
  "arg_input args_arxiv = Some ''https://arxiv.org/abs/2301.00001'' \<and> ''https://arxiv.org/abs/2301.00001'' \<noteq> [] \<and>
   fst (check_rate_limit (aw1\<lparr>proxy_force := arg_use_proxy args_arxiv\<rparr>)) = Inr () \<and>
   fst (main api_ok args_arxiv aw1) = Inr () \<and>
   (\<exists>w2 w3. acquire ''https://arxiv.org/abs/2301.00001'' (snd (check_rate_limit (aw1\<lparr>proxy_force := arg_use_proxy args_arxiv\<rparr>))) =
              (Inr (''%PDF-arxiv text of the paper, long enough to pass the check.'', ''https://arxiv.org/abs/2301.00001'', None), w2) \<and>
            summarize_content api_ok ''%PDF-arxiv text of the paper, long enough to pass the check.'' w2 = (Inr (JStr '' A gist. ''), w3) \<and>
            (\<exists>s md. JStr '' A gist. '' = JStr s \<and>
               fs (snd (main api_ok args_arxiv aw1)) (output_path args_arxiv None w3) = Some (FileE (length md) md) \<and>
               last (log (snd (main api_ok args_arxiv aw1))) = WriteOutput (output_path args_arxiv None w3) \<and>
               prefix (''# '' @ title_or_untitled None @ [CHR ''\<newline>'']) md \<and>
               sublist (''**Source:** '' @ ''https://arxiv.org/abs/2301.00001'') md \<and> sublist (py_strip s) md))"
proof -
  let ?w0 = "aw1\<lparr>proxy_force := arg_use_proxy args_arxiv\<rparr>"
  define w2 where "w2 = snd (acquire ''https://arxiv.org/abs/2301.00001'' (snd (check_rate_limit ?w0)))"
  define w3 where "w3 = snd (summarize_content api_ok ''%PDF-arxiv text of the paper, long enough to pass the check.'' w2)"
  have i: "arg_input args_arxiv = Some ''https://arxiv.org/abs/2301.00001''" by (simp add: args_arxiv_def)
  have c: "fst (check_rate_limit ?w0) = Inr ()" by (simp add: main_eval aw1_def aw0_def)
  have "fst (acquire ''https://arxiv.org/abs/2301.00001'' (snd (check_rate_limit ?w0))) = Inr (''%PDF-arxiv text of the paper, long enough to pass the check.'', ''https://arxiv.org/abs/2301.00001'', None)"
    by (simp add: py_strip_def is_py_space_def main_eval aw1_def aw0_def)
  then have a: "acquire ''https://arxiv.org/abs/2301.00001'' (snd (check_rate_limit ?w0)) = (Inr (''%PDF-arxiv text of the paper, long enough to pass the check.'', ''https://arxiv.org/abs/2301.00001'', None), w2)"
    by (simp add: w2_def prod_eq_iff)
  have "fst (summarize_content api_ok ''%PDF-arxiv text of the paper, long enough to pass the check.'' w2) = Inr (JStr '' A gist. '')"
    by (simp add: w2_def main_eval aw1_def aw0_def api_ok_def)
  then have s: "summarize_content api_ok ''%PDF-arxiv text of the paper, long enough to pass the check.'' w2 = (Inr (JStr '' A gist. ''), w3)"
    by (simp add: w3_def prod_eq_iff)
  have ok: "fst (main api_ok args_arxiv aw1) = Inr ()"
    by (simp add: main_eval api_ok_def aw1_def aw0_def save_output_def default_output_def output_dir_def
        output_path_def write_to_def mkdir_parents_eq mkdir_one_def lookup_path_def parent_path_def
        write_text_def title_or_summary_def slugify_def py_lower_def lower_char_def strip_dash_def
        slug_char_def DASH_def SLUG_MAX_def)
  from main_output_written [OF i _ c a s ok] i c a s ok show ?thesis by auto
qed

text \<open>
  C8. With the default output, when the script's directory exists and
  \<^verbatim>\<open>output\<close> is absent or a directory, the output step succeeds: it creates
  \<^verbatim>\<open>output\<close> if needed and writes the document to
  \<^verbatim>\<open>output/<slug>.md\<close>, the slug being that of the title (or of
  \<^verbatim>\<open>summary\<close>), and \<^verbatim>\<open>output\<close> is a directory afterwards.
\<close>

theorem save_output_default_path:
  fixes w :: "'a app_world_scheme"
  assumes def: "default_output args" and sd: "is_dir w (script_dir w)"
    and od: "fs w (output_dir w) = None \<or> is_dir w (output_dir w)"
    and nd: "\<not> is_dir w (output_dir w @ ''/'' @ slugify (title_or_summary title) @ ''.md'')"
  shows "\<exists>w'. save_output args title md w = (Inr (), w') \<and>
           fs w' (output_dir w @ ''/'' @ slugify (title_or_summary title) @ ''.md'') =
             Some (FileE (length md) md) \<and> is_dir w' (output_dir w)"
proof -
  let ?d = "output_dir w"
  let ?f = "?d @ ''/'' @ slugify (title_or_summary title) @ ''.md''"
  have nsl: "CHR ''/'' \<notin> set (slugify (title_or_summary title) @ ''.md'')"
    using slugify_chars [of "title_or_summary title"] by (auto simp: slug_char_def DASH_def)
  have pf: "parent_path ?f = ?d" using parent_path_append [OF nsl] by simp
  have pd: "parent_path ?d = script_dir w"
    using parent_path_append [of "''output''" "script_dir w"] by (simp add: output_dir_def)
  have lk: "lookup_path w ?d = fs w ?d" by (simp add: lookup_path_def output_dir_def)
  obtain f where m1: "mkdir_one ?d w = (Inr (), w\<lparr>fs := f\<rparr>)" and d1: "is_dir (w\<lparr>fs := f\<rparr>) ?d"
    and nd1: "\<not> is_dir (w\<lparr>fs := f\<rparr>) ?f"
    using mkdir_one_ensure [of w ?d ?f] sd pd od lk nd by auto
  have "output_path args title w = ?f"
    using def by (auto simp: output_path_def default_output_def)
  then have "save_output args title md w = write_text ?f md (w\<lparr>fs := f\<rparr>)"
    using def m1 d1 pf by (simp add: save_output_def write_to_def mkdir_parents_dir)
  also have "\<dots> = (Inr (), emit (WriteOutput ?f) (w\<lparr>fs := f(?f \<mapsto> FileE (length md) md)\<rparr>))"
    using nd1 d1 pf by (simp add: write_text_ok)
  finally show ?thesis
    using d1 by (auto simp: is_dir_def lookup_path_def)
qed

lemma save_output_default_path_witness:
  "default_output args_arxiv \<and> is_dir aw1 (script_dir aw1) \<and>
   (fs aw1 (output_dir aw1) = None \<or> is_dir aw1 (output_dir aw1)) \<and>
   \<not> is_dir aw1 (output_dir aw1 @ ''/'' @ slugify (title_or_summary None) @ ''.md'') \<and>
   (\<exists>w'. save_output args_arxiv None ''# Untitled'' aw1 = (Inr (), w') \<and>
      fs w' ''/opt/gistify/output/summary.md'' = Some (FileE 10 ''# Untitled'') \<and>
      is_dir w' ''/opt/gistify/output'')"
proof -
  have sl: "slugify (title_or_summary None) = ''summary''"
    by (simp add: title_or_summary_def slugify_def py_lower_def lower_char_def strip_dash_def
                  slug_char_def DASH_def SLUG_MAX_def)
  have d: "default_output args_arxiv" by (simp add: default_output_def args_arxiv_def)
  have s: "is_dir aw1 (script_dir aw1)"
    and o: "fs aw1 (output_dir aw1) = None"
    and n: "\<not> is_dir aw1 (output_dir aw1 @ ''/'' @ slugify (title_or_summary None) @ ''.md'')"
    by (simp_all add: sl aw1_def aw0_def is_dir_def lookup_path_def output_dir_def)
  have od: "output_dir aw1 = ''/opt/gistify/output''" by (simp add: output_dir_def aw1_def aw0_def)
  from save_output_default_path [OF d s _ n, of "''# Untitled''"] d s o n od sl show ?thesis
    by auto
qed

text \<open>
  C9. When \<^verbatim>\<open>--output\<close> names an existing directory, a run that got a summary
  records the request and then fails at the write with \<^verbatim>\<open>IsADirectoryError\<close>. The
  run ends in exactly the state the recording left: the request is counted for a run
  that wrote nothing.
\<close>

theorem main_write_failure_recorded:
  fixes w :: "'a app_world_scheme"
  assumes inp: "arg_input args = Some inp" "inp \<noteq> []"
    and chk: "fst (check_rate_limit (w\<lparr>proxy_force := arg_use_proxy args\<rparr>)) = Inr ()"
    and acq: "acquire inp (snd (check_rate_limit (w\<lparr>proxy_force := arg_use_proxy args\<rparr>))) =
                (Inr (content, url, title), w2)"
    and sm: "summarize_content api content w2 = (Inr (JStr s), w3)"
    and out: "arg_output args = Some p" "p \<noteq> []"
    and dir: "is_dir w3 (abs_path (cwd w3) p)"
    and par: "is_dir w3 (parent_path (abs_path (cwd w3) p))"
  shows "fst (record_request w3) = Inr () \<and>
         main api args w = (Inl (Uncaught IsADirectoryError), snd (record_request w3))"
proof -
  obtain w4 where r: "record_request w3 = (Inr (), w4)"
    using main_record_succeeds [OF chk acq sm] by blast
  have f: "fs w4 = fs w3" "cwd w4 = cwd w3"
    using record_request_app_fields [of w3] r by simp_all
  then have "is_dir w4 q = is_dir w3 q" for q
    by (simp add: is_dir_def lookup_path_def)
  with dir par f have d4: "is_dir w4 (abs_path (cwd w4) p)" "is_dir w4 (parent_path (abs_path (cwd w4) p))"
    by simp_all
  obtain md where md: "to_markdown (JStr s) url title (today w4) = Inr md"
    using to_markdown_str_Inr by blast
  have "save_output args title md w4 = (Inl IsADirectoryError, w4)"
    using out d4 by (simp add: save_output_def default_output_def output_path_def write_to_def
                              mkdir_parents_dir write_text_dir)
  with main_after_summary [OF inp chk acq sm] r md show ?thesis by simp
qed

lemma main_write_failure_recorded_witness:
  "arg_input args_to_dir = Some ''https://arxiv.org/abs/2301.00001'' \<and> ''https://arxiv.org/abs/2301.00001'' \<noteq> [] \<and>
   fst (check_rate_limit (aw1\<lparr>proxy_force := arg_use_proxy args_to_dir\<rparr>)) = Inr () \<and>
   arg_output args_to_dir = Some ''/work'' \<and> ''/work'' \<noteq> [] \<and>
   (\<exists>w2 w3. acquire ''https://arxiv.org/abs/2301.00001'' (snd (check_rate_limit (aw1\<lparr>proxy_force := arg_use_proxy args_to_dir\<rparr>))) =
              (Inr (''%PDF-arxiv text of the paper, long enough to pass the check.'', ''https://arxiv.org/abs/2301.00001'', None), w2) \<and>
            summarize_content api_ok ''%PDF-arxiv text of the paper, long enough to pass the check.'' w2 = (Inr (JStr '' A gist. ''), w3) \<and>
            is_dir w3 (abs_path (cwd w3) ''/work'') \<and>
            is_dir w3 (parent_path (abs_path (cwd w3) ''/work'')) \<and>
            fst (record_request w3) = Inr () \<and>
            main api_ok args_to_dir aw1 = (Inl (Uncaught IsADirectoryError), snd (record_request w3)))"
proof -
  let ?w0 = "aw1\<lparr>proxy_force := arg_use_proxy args_to_dir\<rparr>"
  define w2 where "w2 = snd (acquire ''https://arxiv.org/abs/2301.00001'' (snd (check_rate_limit ?w0)))"
  define w3 where "w3 = snd (summarize_content api_ok ''%PDF-arxiv text of the paper, long enough to pass the check.'' w2)"
  have i: "arg_input args_to_dir = Some ''https://arxiv.org/abs/2301.00001''" by (simp add: args_to_dir_def args_arxiv_def)
  have o: "arg_output args_to_dir = Some ''/work''" by (simp add: args_to_dir_def)
  have c: "fst (check_rate_limit ?w0) = Inr ()" by (simp add: main_eval args_to_dir_def aw1_def aw0_def)
  have "fst (acquire ''https://arxiv.org/abs/2301.00001'' (snd (check_rate_limit ?w0))) = Inr (''%PDF-arxiv text of the paper, long enough to pass the check.'', ''https://arxiv.org/abs/2301.00001'', None)"
    by (simp add: py_strip_def is_py_space_def main_eval args_to_dir_def aw1_def aw0_def)
  then have a: "acquire ''https://arxiv.org/abs/2301.00001'' (snd (check_rate_limit ?w0)) = (Inr (''%PDF-arxiv text of the paper, long enough to pass the check.'', ''https://arxiv.org/abs/2301.00001'', None), w2)"
    by (simp add: w2_def prod_eq_iff)
  have "fst (summarize_content api_ok ''%PDF-arxiv text of the paper, long enough to pass the check.'' w2) = Inr (JStr '' A gist. '')"
    by (simp add: w2_def main_eval args_to_dir_def aw1_def aw0_def api_ok_def)
  then have s: "summarize_content api_ok ''%PDF-arxiv text of the paper, long enough to pass the check.'' w2 = (Inr (JStr '' A gist. ''), w3)"
    by (simp add: w3_def prod_eq_iff)
  have d: "is_dir w3 (abs_path (cwd w3) ''/work'')"
    and p: "is_dir w3 (parent_path (abs_path (cwd w3) ''/work''))"
    by (simp_all add: w3_def w2_def main_eval args_to_dir_def aw1_def aw0_def api_ok_def
                      is_dir_def lookup_path_def abs_path_def parent_path_def)
  from main_write_failure_recorded [OF i _ c a s o _ d p] i c a s o d p show ?thesis by auto
qed

end
