(* ===== verification/Spec2Isabelle.thy ===== *)
theory Spec2Isabelle
  imports Pipeline
begin

text \<open>
  \<^bold>\<open>A verification development of gistify-cli.\<close>
  The program is one Python file, \<^verbatim>\<open>src/summarize.py\<close>. Given a URL or a local PDF,
  it checks a local rate limit, gets the text of the document, sends the text to a remote
  summarisation service, records the request, and writes the summary as Markdown. The
  parts, and the theory that models each one:

  \<^item> \<^bold>\<open>Prelude\<close>. JSON values and the states of a file on disk (\<open>json\<close>,
    \<open>file_state\<close>). Python exceptions and the program's exits (\<open>pyexc\<close>, \<open>error\<close>).
    The observable effects (\<open>effect\<close>): sleeps, warnings, HTTP calls, browser actions,
    temporary files and writes. The base state \<open>world\<close> holds the clock, the rate-limit
    log file and the effect log. Python truthiness, \<^verbatim>\<open>dict.get\<close>,
    \<^verbatim>\<open>str.lower\<close> and \<^verbatim>\<open>str.strip\<close> are written out, as is the sequencing of
    steps that can raise (\<open>bindE\<close>). The relation \<open>advances\<close> holds between a
    state and a later state of the same run: the log only grows, the rate-limit file is
    unchanged, the clock has not gone back.

  \<^item> \<^bold>\<open>RateLimit\<close> models \<^verbatim>\<open>check_rate_limit\<close> and \<^verbatim>\<open>record_request\<close>
    (lines 30--89). \<open>load_rate_log\<close> and \<open>py_iter\<close> model the file read and the
    iteration of line 53, including their failures. \<open>prune\<close> is the comprehension of
    line 53 and \<open>spacing_wait\<close> is lines 55--61. The inductive relation \<open>rl_run\<close>
    models runs of the program that do not overlap in time, seen from the limiter. Its
    state carries a ghost list \<open>hist\<close> of every recorded time. The lemmas give:
    \<^item> the behaviour of both operations on every branch;
    \<^item> a round trip: what \<open>record_request\<close> writes reads back as written;
    \<^item> an invariant \<open>rl_inv\<close>, preserved by every \<open>rl_run\<close> step (C3) and so, by rule
      induction over \<open>rl_reach\<close>, true of every reachable state: no hour ever holds
      more than 10 recorded requests (C1);
    \<^item> a liveness result on what the refusal message prints: the retry time is
      announced in minutes, rounded to the nearest one (\<open>retry_minutes\<close>, with
      Python's \<^verbatim>\<open>.0f\<close> as \<open>py_fmt_0f\<close>). The announced minutes plus half a
      minute always let the oldest entry leave the window, and a full log then admits the
      run (C4). Exactly the announced minutes can fall short.

  \<^item> \<^bold>\<open>UrlRewrite\<close> models \<^verbatim>\<open>_rewrite_to_pdf_url\<close> (lines 191--200). The regular
    expression \<^verbatim>\<open>https?://arxiv\.org/abs/(.+?)(?:\?.*)?$\<close> becomes an anchored prefix
    test (\<open>match_prefix\<close>) and a backtracking lazy matcher (\<open>lazy_capture\<close>) that
    follows Python's semantics for \<^verbatim>\<open>.\<close> and \<^verbatim>\<open>$\<close>. The matcher is proved
    equal to a declarative specification: the shortest admissible capture (C26).

  \<^item> \<^bold>\<open>Proxy\<close> models \<^verbatim>\<open>_load_proxy_config\<close>, \<^verbatim>\<open>_get_proxy_url\<close> and
    \<^verbatim>\<open>_get_proxy\<close> (lines 92--125). The \<^verbatim>\<open>--proxy\<close>/\<^verbatim>\<open>--no-proxy\<close> override
    is a field of the state, and so is the configuration file, read at the current time.
    \<^verbatim>\<open>random.choice\<close> draws from an explicit sequence \<open>rand\<close> with a counter
    \<open>rand_used\<close>.

  \<^item> \<^bold>\<open>Fetch\<close> models:
    \<^item> \<^verbatim>\<open>_is_local_file\<close>, with \<^verbatim>\<open>expanduser\<close>;
    \<^item> \<^verbatim>\<open>_extract_text_from_pdf\<close>;
    \<^item> \<^verbatim>\<open>_download_pdf_text\<close> (lines 203--220 and 254--272, 355--359).

    The state adds a file system over absolute paths, the answers of HTTP GET, and what
    pdfminer extracts from given bytes. The temporary file is created, written and
    unlinked as file-system updates.

  \<^item> \<^bold>\<open>Browser\<close> models:
    \<^item> \<^verbatim>\<open>_launch_browser\<close>;
    \<^item> \<^verbatim>\<open>_wait_for_cloudflare\<close>, as a terminating \<^theory_text>\<open>function\<close> over a
      time-indexed web;
    \<^item> \<^verbatim>\<open>_extract_text_from_url\<close> (lines 132--184 and 223--251).

    Navigation time is an input in milliseconds. Past 60000 ms it raises the timeout
    error. The exit of the \<^verbatim>\<open>with sync_playwright()\<close> block is the
    \<open>PlaywrightStop\<close> effect on every path.

  \<^item> \<^bold>\<open>Summarize\<close> models \<^verbatim>\<open>summarize_content\<close> (lines 279--315). The service
    is a function from the posted text to a response or an exception.

  \<^item> \<^bold>\<open>Markdown\<close> models \<^verbatim>\<open>to_markdown\<close> and \<^verbatim>\<open>slugify\<close> (lines 322--352).

  \<^item> \<^bold>\<open>Output\<close> models the three file-system calls of the output step:
    \<^verbatim>\<open>Path.mkdir(exist_ok=True)\<close> (\<open>mkdir_one\<close>, line 420),
    \<^verbatim>\<open>Path.mkdir(parents=True, exist_ok=True)\<close> (\<open>mkdir_parents\<close>, line 424, a
    \<^theory_text>\<open>function\<close> on the length of the path) and \<^verbatim>\<open>Path.write_text\<close>
    (\<open>write_text\<close>, line 425), over the same file-system map as Fetch. Each raises
    what the operating system reports: \<open>FileExistsError\<close>, \<open>FileNotFoundError\<close>,
    \<open>NotADirectoryError\<close>, \<open>IsADirectoryError\<close>. The invariant \<open>fs_wf\<close> (every
    entry sits in an existing directory) is preserved by all three, whether they succeed
    or fail. These lemmas are the library's; the claims about the output step are in
    Pipeline.

  \<^item> \<^bold>\<open>Pipeline\<close> models \<^verbatim>\<open>main\<close> (lines 366--426), composing the parts in the
    code's order. \<open>save_output\<close> is lines 416--425: the default directory
    \<open>script_dir/output\<close> is created first, then the parents of the output path, then the
    file is written. Its state record \<open>app_world\<close> extends the record chain
    \<open>world\<close>, \<open>net_world\<close>, \<open>fetch_world\<close>, \<open>browser_world\<close>, so every component
    runs on the same machine.

  Every operation is a function from a state to a result and a new state. A Python
  exception or \<^verbatim>\<open>sys.exit\<close> is a value \<open>Inl e\<close> of the result, so every early exit
  of the code is a branch of the model. Effects are appended to the log in the order the
  code performs them.

  \<^bold>\<open>What the main theorems show.\<close>

  \<^item> The rate limiter is safe for non-overlapping runs (C1). Its invariant is preserved
    by every run step (C3), and a refused run that waits the announced minutes plus half a
    minute gets in again (C4).
  \<^item> \<^verbatim>\<open>main\<close> refines the limiter's run relation: seen through the clock and the
    log file, any run of \<^verbatim>\<open>main\<close> is one \<open>rl_run\<close> step (C2). The proof shows that
    every step between the check and the recording \<open>advances\<close> the state, the output
    step included. So C1 holds for every sequence of runs of the real program, whatever
    the browser, the PDF tools, the service or the file system do.
  \<^item> What a run does after its summary, for every run that gets that far:
    \<^item> a 429 answer records nothing (C5);
    \<^item> a truthy summary that is not a string is recorded, and then \<^verbatim>\<open>main\<close>
      crashes in \<^verbatim>\<open>to_markdown\<close>; the run ends in exactly the recorded state (C6, a
      divergence from the specification);
    \<^item> a successful run leaves at the output path a file that starts with the title
      line and holds the source line and the stripped summary (C7);
    \<^item> with the default output, the document goes to
      \<^verbatim>\<open>output/<slug>.md\<close> beside the script, and the directory is created when
      missing (C8);
    \<^item> an \<^verbatim>\<open>--output\<close> naming a directory fails at the write after the request is
      recorded (C9, a divergence from the specification).
  \<^item> The behaviour of the limiter on every branch (C10--C19), each stated for every
    log that reaches the branch, including:
    \<^item> the spacing sleep happens before the quota exit (C13);
    \<^item> the 3600-second boundary is pruned (C14);
    \<^item> the crash on any log whose JSON yields a non-number, such as a dict (C18);
    \<^item> unbounded waits after entries from the future (C19).
  \<^item> The browser:
    \<^item> the text returned is that of one settled page, read at most 30 s after the
      navigation (C20);
    \<^item> the driver is always stopped (C21);
    \<^item> the Cloudflare loop ends after at most 15 polls (C22);
    \<^item> landing pages never start a browser (C23).
  \<^item> The URL rewrite (C24--C26).
  \<^item> The PDF paths (C27--C32), including:
    \<^item> the temporary file is removed on every outcome once it is written (C27);
    \<^item> the temporary file leaks when the write fails (C28);
    \<^item> the \<^verbatim>\<open>~\<close> path is classified as local and then not found (C32).
  \<^item> The service call (C33).
  \<^item> Proxy selection (C34--C38), including:
    \<^item> a string pool yields one character as the proxy (C37);
    \<^item> \<^verbatim>\<open>--no-proxy\<close> still fails on an undecodable configuration (C38).
  \<^item> \<^verbatim>\<open>slugify\<close> (C39, C40), including the trailing dash left by the 80-character
    cut (C40).

  \<^bold>\<open>Bounds and fuel.\<close> There is no fuel. The only loop of the program is the
  Cloudflare wait. It is a \<^theory_text>\<open>function\<close> whose termination measure is
  \<open>\<lceil>start + 30 - clock\<rceil>\<close>: each round sleeps 2 s, and the loop is entered only while
  less than 30 s have passed. C22 bounds it by 15 rounds, because 15 sleeps of 2 s
  reach 30 s. The regular-expression matchers recurse on the length of the string, and
  \<open>sub_runs\<close> and \<open>mkdir_parents\<close> have length measures: \<open>parent_path\<close>
  strictly shortens a non-empty path.

  \<^bold>\<open>Not modelled.\<close>

  \<^item> Input handling:
    \<^item> argument parsing by argparse (lines 367--389), a library the code only
      configures: its result is the record \<open>cli_args\<close>;
    \<^item> the debug printing, which has no effect on the outcome.
  \<^item> Number and string semantics:
    \<^item> floats are reals: no NaN, infinity or rounding in the timestamps;
    \<^item> strings are byte lists, so lengths count bytes where Python counts code points;
    \<^item> lower-casing is ASCII only.
  \<^item> File system and I/O:
    \<^item> a failing write of the rate log (the output write and directory creation are
      modelled, with their errors);
    \<^item> permissions, and symbolic links and \<^verbatim>\<open>..\<close> in \<^verbatim>\<open>Path.resolve\<close>;
    \<^item> the content of the HTML page and what pdfminer extracts, which are inputs.
  \<^item> Concurrency: two processes racing on the log file. The specification accepts this
    race, and \<open>rl_run\<close> assumes runs that do not overlap.
  \<^item> Libraries: Playwright, requests and pdfminer are only called. What they return is
    an input of the model.
\<close>

end
